theory Spec2Isabelle
  imports Main
begin

section \<open>JavaScript values\<close>

text \<open>
  The tool arguments and the upstream responses are JSON documents, read by the server as
  JavaScript values. A missing property reads as \<open>Undefined\<close>. The keys of an object are
  pairwise distinct, as after \<open>JSON.parse\<close>.

  Numbers are the integers and \<open>NaN\<close>, strings are sequences of 8-bit characters. The
  conversions and the arithmetic below are those of JavaScript on the integers it holds
  exactly (the safe integers, below \<open>2^53\<close> in absolute value: they print with all their
  digits, and a product that stays safe is exact) and on strings of ASCII characters (one
  character is then one UTF-16 code unit, which is what \<open>length\<close> and \<open>substring\<close> count,
  and one byte of the UTF-8 encoding that is percent-encoded in a URL). Larger numbers,
  fractions and other characters are not modelled.
\<close>

datatype jsval =
    Undefined
  | Null
  | Bool bool
  | Num int
  | NaN
  | Str string
  | Arr "jsval list"
  | Obj "(string \<times> jsval) list"

fun truthy :: "jsval \<Rightarrow> bool" where
  "truthy Undefined = False"
| "truthy Null = False"
| "truthy (Bool b) = b"
| "truthy (Num n) = (n \<noteq> 0)"
| "truthy NaN = False"
| "truthy (Str s) = (s \<noteq> [])"
| "truthy (Arr xs) = True"
| "truthy (Obj kvs) = True"

text \<open>The decimal digits of an integer, as JavaScript prints a safe integer.\<close>

definition digit :: "nat \<Rightarrow> char" where
  "digit d =
     (if d = 0 then CHR ''0'' else if d = 1 then CHR ''1'' else if d = 2 then CHR ''2''
      else if d = 3 then CHR ''3'' else if d = 4 then CHR ''4'' else if d = 5 then CHR ''5''
      else if d = 6 then CHR ''6'' else if d = 7 then CHR ''7'' else if d = 8 then CHR ''8''
      else CHR ''9'')"

fun digits :: "nat \<Rightarrow> string" where
  "digits n = (if n < 10 then [digit n] else digits (n div 10) @ [digit (n mod 10)])"

declare digits.simps [simp del]

definition showInt :: "int \<Rightarrow> string" where
  "showInt i = (if i < 0 then CHR ''-'' # digits (nat (- i)) else digits (nat i))"

fun joinWith :: "string \<Rightarrow> string list \<Rightarrow> string" where
  "joinWith sep [] = []"
| "joinWith sep [x] = x"
| "joinWith sep (x # y # ys) = x @ sep @ joinWith sep (y # ys)"

text \<open>
  \<open>toStr\<close> is the conversion a template literal \<^verbatim>\<open>`${v}`\<close> applies. An array prints its
  elements separated by commas, with \<open>null\<close> and \<open>undefined\<close> elements printed empty, as
  \<^verbatim>\<open>Array.prototype.join\<close> does. An object prints as \<^verbatim>\<open>[object Object]\<close>, by the \<open>toString\<close> it
  inherits; an object of a JSON document that has a property named \<open>toString\<close> of its own
  cannot be converted (the conversion throws a \<open>TypeError\<close>), and is not modelled.
\<close>

fun toStr :: "jsval \<Rightarrow> string" where
  "toStr Undefined = ''undefined''"
| "toStr Null = ''null''"
| "toStr (Bool b) = (if b then ''true'' else ''false'')"
| "toStr (Num n) = showInt n"
| "toStr NaN = ''NaN''"
| "toStr (Str s) = s"
| "toStr (Arr xs) =
     joinWith '','' (map (\<lambda>v. if v = Undefined \<or> v = Null then [] else toStr v) xs)"
| "toStr (Obj kvs) = ''[object Object]''"


definition join :: "jsval list \<Rightarrow> string \<Rightarrow> string" where
  "join xs sep = joinWith sep (map (\<lambda>v. if v = Undefined \<or> v = Null then [] else toStr v) xs)"

text \<open>\<^verbatim>\<open>a || b\<close>\<close>

definition orElse :: "jsval \<Rightarrow> jsval \<Rightarrow> jsval" where
  "orElse a b = (if truthy a then a else b)"

text \<open>
  \<open>JSON_stringify\<close> gives the JSON document that \<^verbatim>\<open>JSON.stringify\<close> writes, as a value
  rather than as text: a property whose value is \<open>undefined\<close> is left out, an \<open>undefined\<close>
  element of an array and \<open>NaN\<close> are written \<open>null\<close>.
\<close>

fun JSON_stringify :: "jsval \<Rightarrow> jsval" where
  "JSON_stringify (Arr xs) =
     Arr (map (\<lambda>v. if v = Undefined then Null else JSON_stringify v) xs)"
| "JSON_stringify (Obj kvs) =
     Obj (map (\<lambda>(k, v). (k, JSON_stringify v)) (filter (\<lambda>(k, v). v \<noteq> Undefined) kvs))"
| "JSON_stringify NaN = Null"
| "JSON_stringify v = v"

text \<open>Reading a destructured parameter, with the default of the pattern when there is one.\<close>

type_synonym props = "(string \<times> jsval) list"

definition arg :: "props \<Rightarrow> string \<Rightarrow> jsval" where
  "arg a k = (case map_of a k of None \<Rightarrow> Undefined | Some v \<Rightarrow> v)"

definition argDefault :: "props \<Rightarrow> string \<Rightarrow> jsval \<Rightarrow> jsval" where
  "argDefault a k d = (if arg a k = Undefined then d else arg a k)"

section \<open>Errors, configuration and the platform\<close>

datatype error_code = InvalidRequest | MethodNotFound | InternalError

text \<open>
  The values the code throws and catches. \<open>Error m\<close> is \<^verbatim>\<open>new Error(m)\<close>, \<open>McpError c m\<close>
  is \<^verbatim>\<open>new McpError(ErrorCode.c, m)\<close>, and \<open>EngineError l\<close> is an exception raised by the
  JavaScript engine or a built-in (a \<open>TypeError\<close> or \<open>RangeError\<close>), \<open>l\<close> naming the
  operation that failed.
\<close>

datatype exn =
    Error string
  | McpError error_code string
  | EngineError string

text \<open>The two token variables of the process environment; an unset variable is \<open>None\<close>.\<close>

record config =
  TICKTICK_ACCESS_TOKEN :: "string option"
  TICKTICK_TOKEN :: "string option"

definition envTruthy :: "string option \<Rightarrow> bool" where
  "envTruthy v = (case v of None \<Rightarrow> False | Some s \<Rightarrow> s \<noteq> [])"

text \<open>
  Most tool methods end by assembling a long text from their arguments and the responses
  they received. Where this development does not analyse that text, it is left open what
  the text is, but not what assembling it does: it sends no request, it may throw, and
  where the source reads the clock while assembling (\<^verbatim>\<open>new Date()\<close>, \<^verbatim>\<open>Date.now()\<close>, once,
  twice, or once for every element of a response) it reads the clock, \<open>ReadClock\<close>, and
  goes on with the time.
\<close>

datatype assembly =
    Assembled "exn + string"
  | ReadClock "int \<Rightarrow> assembly"

text \<open>
  What the code takes from the JavaScript platform and the MCP SDK, neither of which is
  part of the repository: the \<open>message\<close> property of an \<open>McpError\<close> and of an engine
  exception, the time value of \<^verbatim>\<open>new Date(v)\<close> (\<open>None\<close> for an invalid date), the
  locale-dependent printing of a time value, the year of a time value in the local time
  zone, the number a string converts to, and the lower case of a string.

  The last two fields are not of the platform: they are the texts that are not analysed.
  A method whose text reads no clock ends with \<open>assemble\<close> applied to its own name and to
  the values the text is made of; a method whose text reads the clock ends with \<open>render\<close>
  applied to the same.
\<close>

record platform =
  mcpMessage :: "error_code \<Rightarrow> string \<Rightarrow> string"
  engineMessage :: "string \<Rightarrow> string"
  dateValue :: "jsval \<Rightarrow> int option"
  localeDate :: "int \<Rightarrow> string"
  localeTime :: "int \<Rightarrow> string"
  localeDateTime :: "int \<Rightarrow> string"
  fullYear :: "int \<Rightarrow> int"
  stringToNumber :: "string \<Rightarrow> int option"
  toLowerCase :: "string \<Rightarrow> string"
  assemble :: "string \<Rightarrow> jsval list \<Rightarrow> exn + string"
  render :: "string \<Rightarrow> jsval list \<Rightarrow> assembly"

text \<open>\<^verbatim>\<open>error.message\<close>\<close>

fun message :: "platform \<Rightarrow> exn \<Rightarrow> string" where
  "message p (Error m) = m"
| "message p (McpError c m) = mcpMessage p c m"
| "message p (EngineError l) = engineMessage p l"

section \<open>The upstream service and the clock\<close>

text \<open>
  A request is what \<^verbatim>\<open>fetch(url, config)\<close> receives. The body is kept as the JSON document
  that is sent. The upstream service answers a request, knowing the requests sent before
  it in the call; \<open>FetchFailed m\<close> is a rejected \<open>fetch\<close> whose error has the message \<open>m\<close>.
  A response has its status, its status text, the text of its body, and what
  \<^verbatim>\<open>response.json()\<close> gives for it (\<open>Inl m\<close> when the body does not parse, \<open>m\<close> the message
  of the error).
\<close>

record request =
  url :: string
  http_method :: string
  headers :: "(string \<times> string) list"
  body :: "jsval option"

datatype response =
    FetchFailed string
  | Response nat string string "string + jsval"

text \<open>
  The world a call runs in: the upstream service, and the clock, which gives the time
  (milliseconds since the epoch) of the \<open>n\<close>-th reading in the call. The trace of a call
  is the list of requests it has sent, in order, and the number of clock readings.
\<close>

record world =
  upstream :: "request list \<Rightarrow> request \<Rightarrow> response"
  clock :: "nat \<Rightarrow> int"

record trace =
  sent :: "request list"
  ticks :: nat

definition trace0 :: trace where
  "trace0 = \<lparr>sent = [], ticks = 0\<rparr>"

section \<open>makeTickTickRequest\<close>

definition baseUrl :: string where
  "baseUrl = ''https://api.ticktick.com/open/v1''"

text \<open>\<^verbatim>\<open>`Bearer ${TICKTICK_ACCESS_TOKEN || TICKTICK_TOKEN}`\<close>\<close>

definition bearer :: "config \<Rightarrow> string" where
  "bearer cfg =
     ''Bearer '' @
     (if envTruthy (TICKTICK_ACCESS_TOKEN cfg) then the (TICKTICK_ACCESS_TOKEN cfg)
      else case TICKTICK_TOKEN cfg of None \<Rightarrow> ''undefined'' | Some s \<Rightarrow> s)"

text \<open>\<^verbatim>\<open>response.ok\<close>\<close>

definition ok :: "nat \<Rightarrow> bool" where
  "ok status = (200 \<le> status \<and> status \<le> 299)"

definition requestConfig :: "config \<Rightarrow> string \<Rightarrow> string \<Rightarrow> jsval \<Rightarrow> request" where
  "requestConfig cfg endpoint method data =
     \<lparr>url = baseUrl @ endpoint,
      http_method = method,
      headers = [(''Authorization'', bearer cfg), (''Content-Type'', ''application/json'')],
      body = (if truthy data \<and> method \<noteq> ''GET'' then Some (JSON_stringify data) else None)\<rparr>"

definition makeTickTickRequest ::
  "config \<Rightarrow> world \<Rightarrow> string \<Rightarrow> string \<Rightarrow> jsval \<Rightarrow> trace \<Rightarrow> (exn + jsval) \<times> trace" where
  "makeTickTickRequest cfg w endpoint method data tr =
     (let req = requestConfig cfg endpoint method data;
          tr' = tr\<lparr>sent := sent tr @ [req]\<rparr>
      in case upstream w (sent tr) req of
           FetchFailed m \<Rightarrow> (Inl (Error m), tr')
         | Response status statusText errorText parsed \<Rightarrow>
             if \<not> ok status then
               (Inl (Error (''TickTick API error: '' @ showInt (int status) @ '' '' @ statusText
                            @ '' - '' @ errorText)), tr')
             else
               (case parsed of
                  Inl m \<Rightarrow> (Inl (Error m), tr')
                | Inr responseData \<Rightarrow> (Inr responseData, tr')))"

section \<open>Asynchronous methods\<close>

text \<open>
  The body of a tool method is a program over four effects: it returns, it throws, it
  awaits \<^verbatim>\<open>this.makeTickTickRequest(endpoint, method, data)\<close> and goes on with the response
  data, or it reads the clock (\<^verbatim>\<open>new Date()\<close>, \<^verbatim>\<open>Date.now()\<close>) and goes on with the time.
  \<open>Try b l\<close> is \<^verbatim>\<open>try { b } catch (error) { throw new Error(`l: ${error.message}`) }\<close>, the
  only form of \<open>catch\<close> in the tool methods.
\<close>

datatype 'a io =
    Return 'a
  | Throw exn
  | Request string string jsval "jsval \<Rightarrow> 'a io"
  | Now "int \<Rightarrow> 'a io"
  | Try "'a io" string

primrec run :: "config \<Rightarrow> platform \<Rightarrow> world \<Rightarrow> 'a io \<Rightarrow> trace \<Rightarrow> (exn + 'a) \<times> trace" where
  "run cfg p w (Return x) = (\<lambda>tr. (Inr x, tr))"
| "run cfg p w (Throw e) = (\<lambda>tr. (Inl e, tr))"
| "run cfg p w (Request endpoint method data k) = (\<lambda>tr.
     case makeTickTickRequest cfg w endpoint method data tr of
       (Inl e, tr') \<Rightarrow> (Inl e, tr')
     | (Inr responseData, tr') \<Rightarrow> run cfg p w (k responseData) tr')"
| "run cfg p w (Now k) = (\<lambda>tr. run cfg p w (k (clock w (ticks tr))) (tr\<lparr>ticks := Suc (ticks tr)\<rparr>))"
| "run cfg p w (Try b l) = (\<lambda>tr.
     case run cfg p w b tr of
       (Inl e, tr') \<Rightarrow> (Inl (Error (l @ '': '' @ message p e)), tr')
     | (Inr x, tr') \<Rightarrow> (Inr x, tr'))"

text \<open>
  A method whose parameter is a destructuring pattern throws, before its \<open>try\<close> block is
  entered, when the call has no argument object.
\<close>

definition destructure :: "props option \<Rightarrow> (props \<Rightarrow> 'a io) \<Rightarrow> 'a io" where
  "destructure args k =
     (case args of None \<Rightarrow> Throw (EngineError ''destructure undefined'') | Some a \<Rightarrow> k a)"

text \<open>
  The end of a method whose text is not analysed: \<open>assembled\<close> where the text reads no
  clock, \<open>rendered\<close> where it does.
\<close>

definition assembled :: "platform \<Rightarrow> string \<Rightarrow> jsval list \<Rightarrow> string io" where
  "assembled p name vs = (case assemble p name vs of Inl e \<Rightarrow> Throw e | Inr text \<Rightarrow> Return text)"

primrec assembling :: "assembly \<Rightarrow> string io" where
  "assembling (Assembled r) = (case r of Inl e \<Rightarrow> Throw e | Inr text \<Rightarrow> Return text)"
| "assembling (ReadClock k) = Now (\<lambda>t. assembling (k t))"

definition rendered :: "platform \<Rightarrow> string \<Rightarrow> jsval list \<Rightarrow> string io" where
  "rendered p name vs = assembling (render p name vs)"

section \<open>Built-ins used by the tool methods\<close>

definition nl :: string where
  "nl = [CHR 0x0A]"

text \<open>Errors inside the pure part of a method body.\<close>

definition bindE :: "exn + 'a \<Rightarrow> ('a \<Rightarrow> exn + 'b) \<Rightarrow> exn + 'b" where
  "bindE m f = (case m of Inl e \<Rightarrow> Inl e | Inr x \<Rightarrow> f x)"

fun mapE :: "('a \<Rightarrow> exn + 'b) \<Rightarrow> 'a list \<Rightarrow> exn + 'b list" where
  "mapE f [] = Inr []"
| "mapE f (x # xs) = bindE (f x) (\<lambda>y. bindE (mapE f xs) (\<lambda>ys. Inr (y # ys)))"

fun filterE :: "('a \<Rightarrow> exn + bool) \<Rightarrow> 'a list \<Rightarrow> exn + 'a list" where
  "filterE f [] = Inr []"
| "filterE f (x # xs) =
     bindE (f x) (\<lambda>keep. bindE (filterE f xs) (\<lambda>ys. Inr (if keep then x # ys else ys)))"

definition lift :: "exn + 'a \<Rightarrow> 'a io" where
  "lift m = (case m of Inl e \<Rightarrow> Throw e | Inr x \<Rightarrow> Return x)"

text \<open>
  Reading a property \<^verbatim>\<open>v.k\<close> throws when \<open>v\<close> is \<open>undefined\<close> or \<open>null\<close>. Of an object it
  gives the property or \<open>undefined\<close>; an array and a string have a \<open>length\<close>; the
  properties the tool methods read of other values are \<open>undefined\<close>.
\<close>

definition nullish :: "jsval \<Rightarrow> bool" where
  "nullish v = (v = Undefined \<or> v = Null)"

fun field :: "jsval \<Rightarrow> string \<Rightarrow> jsval" where
  "field (Obj kvs) k = arg kvs k"
| "field (Arr xs) k = (if k = ''length'' then Num (int (length xs)) else Undefined)"
| "field (Str s) k = (if k = ''length'' then Num (int (length s)) else Undefined)"
| "field v k = Undefined"

definition get :: "jsval \<Rightarrow> string \<Rightarrow> exn + jsval" where
  "get v k =
     (if v = Undefined then Inl (EngineError ''read property of undefined'')
      else if v = Null then Inl (EngineError ''read property of null'')
      else Inr (field v k))"

text \<open>
  The receiver of \<^verbatim>\<open>v.map(..)\<close>, \<^verbatim>\<open>v.filter(..)\<close> and \<^verbatim>\<open>v.join(..)\<close>: only an array has these
  methods, no value that comes from JSON has a function as a property.
\<close>

definition arrayMethod :: "string \<Rightarrow> jsval \<Rightarrow> exn + jsval list" where
  "arrayMethod m v =
     (case v of
        Arr xs \<Rightarrow> Inr xs
      | Undefined \<Rightarrow> Inl (EngineError ''read property of undefined'')
      | Null \<Rightarrow> Inl (EngineError ''read property of null'')
      | _ \<Rightarrow> Inl (EngineError (m @ '' is not a function'')))"

subsection \<open>Dates\<close>

definition pad :: "nat \<Rightarrow> string \<Rightarrow> string" where
  "pad n s = replicate (n - length s) CHR ''0'' @ s"

text \<open>
  \<^verbatim>\<open>Date.prototype.toISOString\<close> of a valid time value: the UTC date and time in the
  proleptic Gregorian calendar, \<open>YYYY-MM-DDTHH:mm:ss.sssZ\<close>, with a signed year of six
  digits outside \<open>0..9999\<close>.
\<close>

definition toISOString :: "int \<Rightarrow> string" where
  "toISOString t =
     (let days = t div 86400000;
          ms = t mod 86400000;
          z = days + 719468;
          era = z div 146097;
          doe = z mod 146097;
          yoe = (doe - doe div 1460 + doe div 36524 - doe div 146096) div 365;
          doy = doe - (365 * yoe + yoe div 4 - yoe div 100);
          mp = (5 * doy + 2) div 153;
          d = doy - (153 * mp + 2) div 5 + 1;
          m = (if mp < 10 then mp + 3 else mp - 9);
          y = yoe + era * 400 + (if m \<le> 2 then 1 else 0);
          year = (if 0 \<le> y \<and> y \<le> 9999 then pad 4 (showInt y)
                  else (if y < 0 then ''-'' else ''+'') @ pad 6 (showInt \<bar>y\<bar>))
      in year @ ''-'' @ pad 2 (showInt m) @ ''-'' @ pad 2 (showInt d) @ ''T''
         @ pad 2 (showInt (ms div 3600000)) @ '':''
         @ pad 2 (showInt (ms div 60000 mod 60)) @ '':''
         @ pad 2 (showInt (ms div 1000 mod 60)) @ ''.''
         @ pad 3 (showInt (ms mod 1000)) @ ''Z'')"

text \<open>\<^verbatim>\<open>new Date(v).toISOString()\<close> throws a \<open>RangeError\<close> on an invalid date.\<close>

definition dateToISOString :: "platform \<Rightarrow> jsval \<Rightarrow> exn + string" where
  "dateToISOString p v =
     (case dateValue p v of
        None \<Rightarrow> Inl (EngineError ''toISOString of an invalid date'')
      | Some t \<Rightarrow> Inr (toISOString t))"

text \<open>\<^verbatim>\<open>new Date(v).toLocaleDateString()\<close> does not throw.\<close>

definition toLocaleDateString :: "platform \<Rightarrow> jsval \<Rightarrow> string" where
  "toLocaleDateString p v =
     (case dateValue p v of None \<Rightarrow> ''Invalid Date'' | Some t \<Rightarrow> localeDate p t)"

definition toLocaleTimeString :: "platform \<Rightarrow> jsval \<Rightarrow> string" where
  "toLocaleTimeString p v =
     (case dateValue p v of None \<Rightarrow> ''Invalid Date'' | Some t \<Rightarrow> localeTime p t)"

text \<open>\<^verbatim>\<open>isoString.split('T')[0]\<close>\<close>

definition datePart :: "string \<Rightarrow> string" where
  "datePart s = takeWhile (\<lambda>c. c \<noteq> CHR ''T'') s"

subsection \<open>Query strings\<close>

definition hexDigit :: "nat \<Rightarrow> char" where
  "hexDigit d =
     (if d < 10 then digit d
      else if d = 10 then CHR ''A'' else if d = 11 then CHR ''B'' else if d = 12 then CHR ''C''
      else if d = 13 then CHR ''D'' else if d = 14 then CHR ''E'' else CHR ''F'')"

definition percent :: "char \<Rightarrow> string" where
  "percent c = [CHR ''%'', hexDigit (of_char c div 16), hexDigit (of_char c mod 16)]"

definition alnum :: "char \<Rightarrow> bool" where
  "alnum c = (let n = (of_char c :: nat) in
     (48 \<le> n \<and> n \<le> 57) \<or> (65 \<le> n \<and> n \<le> 90) \<or> (97 \<le> n \<and> n \<le> 122))"

text \<open>\<^verbatim>\<open>encodeURIComponent\<close> of a string, every byte of which is escaped but the unreserved.\<close>

definition encodeURIComponent :: "string \<Rightarrow> string" where
  "encodeURIComponent s =
     concat (map (\<lambda>c. if alnum c \<or> c \<in> set ''-_.!~*'' \<or> c = CHR 0x27 \<or> c \<in> set ''()''
                       then [c] else percent c) s)"

text \<open>
  \<^verbatim>\<open>URLSearchParams\<close>: a list of pairs of strings; \<open>append\<close> converts the value to a
  string, \<open>toString\<close> writes the pairs in the form-urlencoded syntax.
\<close>

type_synonym URLSearchParams = "(string \<times> string) list"

definition append :: "URLSearchParams \<Rightarrow> string \<Rightarrow> jsval \<Rightarrow> URLSearchParams" where
  "append params k v = params @ [(k, toStr v)]"

definition formEncode :: "string \<Rightarrow> string" where
  "formEncode s =
     concat (map (\<lambda>c. if alnum c \<or> c \<in> set ''*-._'' then [c]
                       else if c = CHR '' '' then ''+'' else percent c) s)"

definition paramsToString :: "URLSearchParams \<Rightarrow> string" where
  "paramsToString params = joinWith ''&'' (map (\<lambda>(k, v). formEncode k @ ''='' @ formEncode v) params)"

subsection \<open>Equality, membership, numbers, objects\<close>

text \<open>
  \<^verbatim>\<open>a === b\<close> on values that come from JSON: two arrays or two objects read from
  different documents are never the same object, and \<open>NaN\<close> equals nothing.
\<close>

definition strictEq :: "jsval \<Rightarrow> jsval \<Rightarrow> bool" where
  "strictEq a b =
     (case a of Arr _ \<Rightarrow> False | Obj _ \<Rightarrow> False | NaN \<Rightarrow> False | _ \<Rightarrow> a = b)"

text \<open>\<^verbatim>\<open>xs.includes(v)\<close> on an array compares as \<open>===\<close> does, but for \<open>NaN\<close>.\<close>

fun arrayIncludes :: "jsval list \<Rightarrow> jsval \<Rightarrow> bool" where
  "arrayIncludes [] v = False"
| "arrayIncludes (x # xs) v = (strictEq x v \<or> (x = NaN \<and> v = NaN) \<or> arrayIncludes xs v)"

text \<open>\<^verbatim>\<open>s.includes(t)\<close> on strings: \<open>t\<close> occurs in \<open>s\<close>.\<close>

fun isPrefix :: "string \<Rightarrow> string \<Rightarrow> bool" where
  "isPrefix [] s = True"
| "isPrefix (c # t) [] = False"
| "isPrefix (c # t) (d # s) = (c = d \<and> isPrefix t s)"

fun stringIncludes :: "string \<Rightarrow> string \<Rightarrow> bool" where
  "stringIncludes [] t = (t = [])"
| "stringIncludes (c # s) t = (isPrefix t (c # s) \<or> stringIncludes s t)"

text \<open>
  The conversion to a number that the arithmetic operators apply; an array or an object
  goes through its string.
\<close>

definition toNumber :: "platform \<Rightarrow> jsval \<Rightarrow> int option" where
  "toNumber p v =
     (case v of
        Undefined \<Rightarrow> None
      | Null \<Rightarrow> Some 0
      | Bool b \<Rightarrow> Some (if b then 1 else 0)
      | Num n \<Rightarrow> Some n
      | NaN \<Rightarrow> None
      | Str s \<Rightarrow> stringToNumber p s
      | Arr xs \<Rightarrow> stringToNumber p (toStr (Arr xs))
      | Obj kvs \<Rightarrow> None)"

definition ofNumber :: "int option \<Rightarrow> jsval" where
  "ofNumber n = (case n of None \<Rightarrow> NaN | Some i \<Rightarrow> Num i)"

text \<open>\<^verbatim>\<open>new Date(n)\<close> of a number: a time value beyond \<open>8.64e15\<close> is an invalid date.\<close>

definition timeClip :: "int option \<Rightarrow> int option" where
  "timeClip n =
     (case n of None \<Rightarrow> None
      | Some t \<Rightarrow> if \<bar>t\<bar> \<le> 8640000000000000 then Some t else None)"

definition isoOfTime :: "int option \<Rightarrow> exn + string" where
  "isoOfTime n =
     (case timeClip n of
        None \<Rightarrow> Inl (EngineError ''toISOString of an invalid date'')
      | Some t \<Rightarrow> Inr (toISOString t))"

text \<open>
  The own properties that an object spread \<^verbatim>\<open>{...v}\<close> copies, and that
  \<^verbatim>\<open>Object.entries(v)\<close> lists: those of an object, the indexed elements of an array, the
  indexed characters of a string, none of another value.
\<close>

definition indexed :: "jsval list \<Rightarrow> props" where
  "indexed xs = zip (map (\<lambda>i. showInt (int i)) [0 ..< length xs]) xs"

definition entries :: "jsval \<Rightarrow> props" where
  "entries v =
     (case v of
        Obj kvs \<Rightarrow> kvs
      | Arr xs \<Rightarrow> indexed xs
      | Str s \<Rightarrow> indexed (map (\<lambda>c. Str [c]) s)
      | _ \<Rightarrow> [])"

text \<open>Assigning a property: an existing key keeps its place, a new key comes last.\<close>

fun setProp :: "props \<Rightarrow> string \<Rightarrow> jsval \<Rightarrow> props" where
  "setProp [] k v = [(k, v)]"
| "setProp ((k', v') # kvs) k v = (if k' = k then (k, v) # kvs else (k', v') # setProp kvs k v)"

text \<open>\<^verbatim>\<open>v.toString()\<close> and \<^verbatim>\<open>v?.length\<close>\<close>

definition toStringOf :: "jsval \<Rightarrow> exn + string" where
  "toStringOf v = bindE (get v ''toString'') (\<lambda>_. Inr (toStr v))"

definition optLength :: "jsval \<Rightarrow> jsval" where
  "optLength v = (if nullish v then Undefined else field v ''length'')"

text \<open>\<^verbatim>\<open>new URLSearchParams({k: v, ..})\<close> converts every value to a string.\<close>

definition searchParams :: "props \<Rightarrow> URLSearchParams" where
  "searchParams kvs = map (\<lambda>(k, v). (k, toStr v)) kvs"

section \<open>Projects and tasks\<close>

definition orThrow :: "exn + 'a \<Rightarrow> ('a \<Rightarrow> 'b io) \<Rightarrow> 'b io" where
  "orThrow m k = (case m of Inl e \<Rightarrow> Throw e | Inr x \<Rightarrow> k x)"

text \<open>An object literal whose property \<open>k\<close> is added only under a condition.\<close>

definition optional :: "bool \<Rightarrow> string \<Rightarrow> jsval \<Rightarrow> props" where
  "optional c k v = (if c then [(k, v)] else [])"

definition getPriorityText :: "jsval \<Rightarrow> string" where
  "getPriorityText priority =
     (if priority = Num 0 then '' None''
      else if priority = Num 1 then '' Low''
      else if priority = Num 3 then '' Medium''
      else if priority = Num 5 then '' High''
      else ''Unknown ('' @ toStr priority @ '')'')"

text \<open>\<^verbatim>\<open>task.status === 2 ? ' Completed' : ' Pending'\<close>\<close>

definition statusText :: "jsval \<Rightarrow> string" where
  "statusText task = (if field task ''status'' = Num 2 then '' Completed'' else '' Pending'')"

text \<open>\<^verbatim>\<open>task.tags && task.tags.length ? `${label}${task.tags.join(', ')}\n` : ''\<close>\<close>

definition tagsLine :: "string \<Rightarrow> jsval \<Rightarrow> exn + string" where
  "tagsLine label task =
     (let tags = field task ''tags'' in
      if truthy tags \<and> truthy (field tags ''length'') then
        bindE (arrayMethod ''task.tags.join'' tags) (\<lambda>xs. Inr (label @ join xs '', '' @ nl))
      else Inr [])"

text \<open>\<^verbatim>\<open>task.dueDate ? `${label}${new Date(task.dueDate).toLocaleDateString()}\n` : ''\<close>\<close>

definition dueLine :: "platform \<Rightarrow> string \<Rightarrow> jsval \<Rightarrow> string" where
  "dueLine p label task =
     (if truthy (field task ''dueDate'')
      then label @ toLocaleDateString p (field task ''dueDate'') @ nl else [])"

definition projectText :: "platform \<Rightarrow> jsval \<Rightarrow> exn + string" where
  "projectText p project =
     bindE (get project ''name'') (\<lambda>name. Inr (
       ''**'' @ toStr name @ ''** (ID: '' @ toStr (field project ''id'') @ '')'' @ nl @
       ''- Color: '' @ toStr (field project ''color'') @ nl @
       ''- Shared: '' @ (if truthy (field project ''isOwner'') then ''Owner'' else ''Member'') @ nl @
       ''- Task Count: '' @ toStr (orElse (field project ''taskCount'') (Num 0)) @ nl @
       ''- Modified: '' @
         (if truthy (field project ''modifiedTime'')
          then toLocaleDateString p (field project ''modifiedTime'') else ''Unknown'') @ nl))"

definition getProjects :: "platform \<Rightarrow> props option \<Rightarrow> string io" where
  "getProjects p args = destructure args (\<lambda>a.
     let include_archived = argDefault a ''include_archived'' (Bool False) in
     Try (Request ''/project'' ''GET'' Null (\<lambda>projects.
            lift (bindE (if truthy include_archived then Inr projects
                         else bindE (arrayMethod ''projects.filter'' projects) (\<lambda>xs.
                              bindE (filterE (\<lambda>x. bindE (get x ''closed'') (\<lambda>c. Inr (\<not> truthy c))) xs)
                                (\<lambda>ys. Inr (Arr ys))))
                   (\<lambda>filteredProjects.
                      bindE (get filteredProjects ''length'') (\<lambda>len.
                      bindE (arrayMethod ''filteredProjects.map'' filteredProjects) (\<lambda>xs.
                      bindE (mapE (projectText p) xs) (\<lambda>lines. Inr (
                        '' **TickTick Projects** ('' @ toStr len @ '' found):'' @ nl @ nl @
                        joinWith nl lines))))))))
         ''Failed to get projects'')"

definition createProject :: "platform \<Rightarrow> props option \<Rightarrow> string io" where
  "createProject p args = destructure args (\<lambda>a.
     let name = arg a ''name'';
         color = argDefault a ''color'' (Str ''#3498db'');
         is_shared = argDefault a ''is_shared'' (Bool False);
         projectData = Obj [(''name'', name), (''color'', color), (''isOwner'', Bool True),
                            (''permission'', Str (if truthy is_shared then ''members'' else ''owner''))]
     in Try (Request ''/project'' ''POST'' projectData (\<lambda>project.
               lift (bindE (get project ''name'') (\<lambda>pname. Inr (
                 '' **Created TickTick Project**'' @ nl @ nl @
                 '' **Name**: '' @ toStr pname @ nl @
                 '' **ID**: '' @ toStr (field project ''id'') @ nl @
                 '' **Color**: '' @ toStr (field project ''color'') @ nl @
                 '' **Created**: '' @ toLocaleDateString p (field project ''modifiedTime'') @ nl @
                 '' **Shared**: '' @ (if truthy is_shared then ''Yes'' else ''No''))))))
            ''Failed to create project'')"

definition taskListText :: "platform \<Rightarrow> jsval \<Rightarrow> exn + string" where
  "taskListText p task =
     bindE (get task ''title'') (\<lambda>title.
     bindE (tagsLine ''- Tags: '' task) (\<lambda>tagsText. Inr (
       ''**'' @ toStr title @ ''** (ID: '' @ toStr (field task ''id'') @ '')'' @ nl @
       ''- Status: '' @ statusText task @ nl @
       ''- Priority: '' @ getPriorityText (field task ''priority'') @ nl @
       ''- Project: '' @ toStr (field task ''projectId'') @ nl @
       dueLine p ''- Due: '' task @
       tagsText @
       ''- Modified: '' @ toLocaleDateString p (field task ''modifiedTime'') @ nl)))"

definition getTasks :: "platform \<Rightarrow> props option \<Rightarrow> string io" where
  "getTasks p args = destructure args (\<lambda>a.
     let project_id = arg a ''project_id'';
         completed = arg a ''completed'';
         limit = argDefault a ''limit'' (Num 50);
         params0 = (if truthy project_id then append [] ''projectId'' project_id else []);
         params1 = (if completed \<noteq> Undefined
                    then append params0 ''status'' (Num (if truthy completed then 2 else 0))
                    else params0);
         params = append params1 ''limit'' limit;
         endpoint = ''/task'' @ (if paramsToString params \<noteq> [] then ''?'' @ paramsToString params else [])
     in Try (Request endpoint ''GET'' Null (\<lambda>tasks.
               lift (bindE (get tasks ''length'') (\<lambda>len.
                     bindE (arrayMethod ''tasks.map'' tasks) (\<lambda>xs.
                     bindE (mapE (taskListText p) xs) (\<lambda>lines. Inr (
                       '' **TickTick Tasks** ('' @ toStr len @ '' found):'' @ nl @ nl @
                       joinWith nl lines)))))))
            ''Failed to get tasks'')"

definition createdTaskText :: "platform \<Rightarrow> jsval \<Rightarrow> exn + string" where
  "createdTaskText p task =
     bindE (get task ''title'') (\<lambda>title.
     bindE (tagsLine '' **Tags**: '' task) (\<lambda>tagsText. Inr (
       '' **Created TickTick Task**'' @ nl @ nl @
       '' **Title**: '' @ toStr title @ nl @
       '' **ID**: '' @ toStr (field task ''id'') @ nl @
       '' **Project**: '' @ toStr (orElse (field task ''projectId'') (Str ''Inbox'')) @ nl @
       '' **Priority**: '' @ getPriorityText (field task ''priority'') @ nl @
       dueLine p '' **Due**: '' task @
       tagsText @
       '' **Created**: '' @ toLocaleDateString p (field task ''createdTime''))))"

definition createTask :: "platform \<Rightarrow> props option \<Rightarrow> string io" where
  "createTask p args = destructure args (\<lambda>a.
     let title = arg a ''title'';
         content = arg a ''content'';
         project_id = arg a ''project_id'';
         priority = argDefault a ''priority'' (Num 0);
         due_date = arg a ''due_date'';
         tags = arg a ''tags''
     in Try (orThrow (if truthy due_date
                      then bindE (dateToISOString p due_date) (\<lambda>iso. Inr [(''dueDate'', Str iso)])
                      else Inr [])
              (\<lambda>dueDate.
                let taskData = Obj ([(''title'', title), (''content'', orElse content (Str [])),
                                     (''priority'', priority), (''status'', Num 0)]
                                    @ optional (truthy project_id) ''projectId'' project_id
                                    @ dueDate
                                    @ optional (truthy tags \<and> truthy (field tags ''length'')) ''tags'' tags)
                in Request ''/task'' ''POST'' taskData (\<lambda>task. lift (createdTaskText p task))))
            ''Failed to create task'')"

definition updatedTaskText :: "platform \<Rightarrow> jsval \<Rightarrow> exn + string" where
  "updatedTaskText p task =
     bindE (get task ''title'') (\<lambda>title. Inr (
       '' **Updated TickTick Task**'' @ nl @ nl @
       '' **Title**: '' @ toStr title @ nl @
       '' **ID**: '' @ toStr (field task ''id'') @ nl @
       '' **Status**: '' @ statusText task @ nl @
       '' **Priority**: '' @ getPriorityText (field task ''priority'') @ nl @
       '' **Updated**: '' @ toLocaleDateString p (field task ''modifiedTime'')))"

definition updateTask :: "platform \<Rightarrow> props option \<Rightarrow> string io" where
  "updateTask p args = destructure args (\<lambda>a.
     let task_id = arg a ''task_id'';
         title = arg a ''title'';
         content = arg a ''content'';
         priority = arg a ''priority'';
         due_date = arg a ''due_date'';
         completed = arg a ''completed''
     in Try (orThrow (if due_date \<noteq> Undefined
                      then bindE (dateToISOString p due_date) (\<lambda>iso. Inr [(''dueDate'', Str iso)])
                      else Inr [])
              (\<lambda>dueDate.
                let updateData = Obj (optional (title \<noteq> Undefined) ''title'' title
                                      @ optional (content \<noteq> Undefined) ''content'' content
                                      @ optional (priority \<noteq> Undefined) ''priority'' priority
                                      @ dueDate
                                      @ optional (completed \<noteq> Undefined) ''status''
                                          (Num (if truthy completed then 2 else 0)))
                in Request (''/task/'' @ toStr task_id) ''POST'' updateData (\<lambda>task.
                     lift (updatedTaskText p task))))
            ''Failed to update task'')"

definition deleteTask :: "platform \<Rightarrow> props option \<Rightarrow> string io" where
  "deleteTask p args = destructure args (\<lambda>a.
     let task_id = arg a ''task_id''
     in Try (Request (''/task/'' @ toStr task_id) ''DELETE'' Null (\<lambda>_.
               Return ('' **Deleted TickTick Task**'' @ nl @ nl @
                       ''Task ID: '' @ toStr task_id @ '' has been permanently deleted.'')))
            ''Failed to delete task'')"

definition completeTask :: "platform \<Rightarrow> props option \<Rightarrow> string io" where
  "completeTask p args = destructure args (\<lambda>a.
     let task_id = arg a ''task_id''
     in Try (Request (''/task/'' @ toStr task_id) ''POST'' (Obj [(''status'', Num 2)]) (\<lambda>task.
               orThrow (get task ''title'') (\<lambda>title.
               Now (\<lambda>t. Return (
                 '' **Completed TickTick Task**'' @ nl @ nl @
                 '' **Title**: '' @ toStr title @ nl @
                 '' **ID**: '' @ toStr (field task ''id'') @ nl @
                 '' **Status**: Completed'' @ nl @
                 '' **Completed**: '' @ localeDate p t)))))
            ''Failed to complete task'')"

definition taskDetailsText :: "platform \<Rightarrow> jsval \<Rightarrow> exn + string" where
  "taskDetailsText p task =
     bindE (get task ''title'') (\<lambda>title.
     bindE (tagsLine '' **Tags**: '' task) (\<lambda>tagsText. Inr (
       '' **TickTick Task Details**'' @ nl @ nl @
       ''**'' @ toStr title @ ''**'' @ nl @ nl @
       '' **ID**: '' @ toStr (field task ''id'') @ nl @
       '' **Project**: '' @ toStr (orElse (field task ''projectId'') (Str ''Inbox'')) @ nl @
       '' **Status**: '' @ statusText task @ nl @
       '' **Priority**: '' @ getPriorityText (field task ''priority'') @ nl @
       (if truthy (field task ''content'')
        then '' **Description**: '' @ toStr (field task ''content'') @ nl else []) @
       dueLine p '' **Due Date**: '' task @
       tagsText @
       '' **Created**: '' @ toLocaleDateString p (field task ''createdTime'') @ nl @
       '' **Modified**: '' @ toLocaleDateString p (field task ''modifiedTime''))))"

definition getTaskDetails :: "platform \<Rightarrow> props option \<Rightarrow> string io" where
  "getTaskDetails p args = destructure args (\<lambda>a.
     let task_id = arg a ''task_id''
     in Try (Request (''/task/'' @ toStr task_id) ''GET'' Null (\<lambda>task.
               lift (taskDetailsText p task)))
            ''Failed to get task details'')"

section \<open>Filtering, searching and tagging tasks\<close>

text \<open>\<^verbatim>\<open>v.toLowerCase()\<close>: only a string has the method.\<close>

definition lowerOf :: "platform \<Rightarrow> jsval \<Rightarrow> exn + string" where
  "lowerOf p v =
     (case v of
        Str s \<Rightarrow> Inr (toLowerCase p s)
      | Undefined \<Rightarrow> Inl (EngineError ''read property of undefined'')
      | Null \<Rightarrow> Inl (EngineError ''read property of null'')
      | _ \<Rightarrow> Inl (EngineError ''toLowerCase is not a function''))"

text \<open>
  \<^verbatim>\<open>v.includes(x)\<close> for a truthy \<open>v\<close>: membership in an array, occurrence of the string of
  \<open>x\<close> in a string; no other value has the method.
\<close>

definition includesOf :: "jsval \<Rightarrow> jsval \<Rightarrow> exn + bool" where
  "includesOf v x =
     (case v of
        Arr xs \<Rightarrow> Inr (arrayIncludes xs x)
      | Str s \<Rightarrow> Inr (stringIncludes s (toStr x))
      | Undefined \<Rightarrow> Inl (EngineError ''read property of undefined'')
      | Null \<Rightarrow> Inl (EngineError ''read property of null'')
      | _ \<Rightarrow> Inl (EngineError ''includes is not a function''))"

text \<open>\<^verbatim>\<open>tags.some(tag => taskTags.includes(tag))\<close>, which stops at the first tag found.\<close>

fun someIncluded :: "jsval \<Rightarrow> jsval list \<Rightarrow> exn + bool" where
  "someIncluded taskTags [] = Inr False"
| "someIncluded taskTags (tag # tags) =
     bindE (includesOf taskTags tag) (\<lambda>found.
       if found then Inr True else someIncluded taskTags tags)"

definition matchesKeyword :: "platform \<Rightarrow> string \<Rightarrow> jsval \<Rightarrow> exn + bool" where
  "matchesKeyword p keywordLower task =
     bindE (get task ''title'') (\<lambda>title.
     bindE (lowerOf p title) (\<lambda>titleLower.
       if stringIncludes titleLower keywordLower then Inr True
       else if truthy (field task ''content'') then
         bindE (lowerOf p (field task ''content'')) (\<lambda>contentLower.
           Inr (stringIncludes contentLower keywordLower))
       else Inr False))"

definition matchesTags :: "jsval \<Rightarrow> jsval \<Rightarrow> exn + bool" where
  "matchesTags tags task =
     bindE (get task ''tags'') (\<lambda>taskTags.
       if truthy taskTags then
         bindE (arrayMethod ''tags.some'' tags) (\<lambda>xs. someIncluded taskTags xs)
       else Inr False)"

text \<open>\<^verbatim>\<open>task.dueDate && new Date(task.dueDate) < bound\<close>: an invalid date compares false.\<close>

definition dueCompare ::
  "platform \<Rightarrow> (int \<Rightarrow> int \<Rightarrow> bool) \<Rightarrow> int option \<Rightarrow> jsval \<Rightarrow> exn + bool" where
  "dueCompare p cmp bound task =
     bindE (get task ''dueDate'') (\<lambda>dueDate.
       Inr (truthy dueDate \<and>
            (case (dateValue p dueDate, bound) of
               (Some t, Some b) \<Rightarrow> cmp t b
             | _ \<Rightarrow> False)))"

text \<open>\<^verbatim>\<open>filteredTasks = filteredTasks.filter(f)\<close> under a condition.\<close>

definition filterIf :: "bool \<Rightarrow> (jsval \<Rightarrow> exn + bool) \<Rightarrow> jsval \<Rightarrow> exn + jsval" where
  "filterIf c f tasks =
     (if c then bindE (arrayMethod ''filteredTasks.filter'' tasks) (\<lambda>xs.
                bindE (filterE f xs) (\<lambda>ys. Inr (Arr ys)))
      else Inr tasks)"

definition filteredTaskText :: "platform \<Rightarrow> jsval \<Rightarrow> exn + string" where
  "filteredTaskText p task =
     bindE (get task ''title'') (\<lambda>title. Inr (
       ''**'' @ toStr title @ ''** (ID: '' @ toStr (field task ''id'') @ '')'' @ nl @
       ''- Status: '' @ statusText task @ nl @
       ''- Priority: '' @ getPriorityText (field task ''priority'') @ nl @
       dueLine p ''- Due: '' task))"

definition filterTasks :: "platform \<Rightarrow> props option \<Rightarrow> string io" where
  "filterTasks p args = destructure args (\<lambda>a.
     let keywords = arg a ''keywords'';
         tags = arg a ''tags'';
         priority = arg a ''priority'';
         due_before = arg a ''due_before'';
         due_after = arg a ''due_after''
     in Try (Request ''/task'' ''GET'' Null (\<lambda>allTasks.
          lift (
            bindE (if truthy keywords
                   then bindE (lowerOf p keywords) (\<lambda>keywordLower.
                          filterIf True (matchesKeyword p keywordLower) allTasks)
                   else Inr allTasks) (\<lambda>tasks1.
            bindE (filterIf (truthy tags \<and> truthy (field tags ''length'')) (matchesTags tags) tasks1)
              (\<lambda>tasks2.
            bindE (filterIf (priority \<noteq> Undefined)
                     (\<lambda>task. bindE (get task ''priority'') (\<lambda>x. Inr (strictEq x priority))) tasks2)
              (\<lambda>tasks3.
            bindE (filterIf (truthy due_before)
                     (dueCompare p (\<lambda>t b. t < b) (dateValue p due_before)) tasks3)
              (\<lambda>tasks4.
            bindE (filterIf (truthy due_after)
                     (dueCompare p (\<lambda>t b. t > b) (dateValue p due_after)) tasks4)
              (\<lambda>filteredTasks.
            bindE (get filteredTasks ''length'') (\<lambda>len.
            bindE (arrayMethod ''filteredTasks.map'' filteredTasks) (\<lambda>xs.
            bindE (mapE (filteredTaskText p) xs) (\<lambda>lines. Inr (
              '' **Filtered TickTick Tasks** ('' @ toStr len @ '' found):'' @ nl @ nl @
              joinWith nl lines))))))))))))
         ''Failed to filter tasks'')"

definition convertDatetimeToTicktickFormat :: "platform \<Rightarrow> props option \<Rightarrow> string io" where
  "convertDatetimeToTicktickFormat p args = destructure args (\<lambda>a.
     let datetime_string = arg a ''datetime_string'';
         timezone = argDefault a ''timezone'' (Str ''UTC'')
     in Try (orThrow (isoOfTime (dateValue p datetime_string)) (\<lambda>isoString.
               Return (
                 '' **DateTime Conversion**'' @ nl @ nl @
                 ''**Input**: '' @ toStr datetime_string @ nl @
                 ''**Timezone**: '' @ toStr timezone @ nl @
                 ''**TickTick Format**: '' @ isoString @ nl @
                 ''**Timestamp**: '' @ toStr (ofNumber (dateValue p datetime_string)) @ nl @ nl @
                 ''Use this ISO format for TickTick API calls.'')))
            ''Failed to convert datetime'')"

text \<open>
  \<^verbatim>\<open>task.content.substring(0, 100)\<close> of a truthy content: only a string has the method. It
  keeps the first hundred UTF-16 code units, the first hundred characters of an ASCII
  string.
\<close>

definition contentLine :: "jsval \<Rightarrow> exn + string" where
  "contentLine task =
     (let content = field task ''content'' in
      if truthy content then
        (case content of
           Str s \<Rightarrow> Inr (''- Content: '' @ take 100 s @ ''...'' @ nl)
         | _ \<Rightarrow> Inl (EngineError ''substring is not a function''))
      else Inr [])"

definition searchResultText :: "platform \<Rightarrow> jsval \<Rightarrow> exn + string" where
  "searchResultText p task =
     bindE (get task ''title'') (\<lambda>title.
     bindE (contentLine task) (\<lambda>contentText. Inr (
       ''**'' @ toStr title @ ''** (ID: '' @ toStr (field task ''id'') @ '')'' @ nl @
       ''- Status: '' @ statusText task @ nl @
       ''- Priority: '' @ getPriorityText (field task ''priority'') @ nl @
       ''- Project: '' @ toStr (field task ''projectId'') @ nl @
       contentText @
       dueLine p ''- Due: '' task)))"

definition searchTasks :: "platform \<Rightarrow> props option \<Rightarrow> string io" where
  "searchTasks p args = destructure args (\<lambda>a.
     let query = arg a ''query'';
         limit = argDefault a ''limit'' (Num 20);
         endpoint = ''/search?q='' @ encodeURIComponent (toStr query) @ ''&limit='' @ toStr limit
     in Try (Request endpoint ''GET'' Null (\<lambda>results.
          lift (
            bindE (get results ''tasks'') (\<lambda>resultTasks.
            let tasks = orElse (orElse resultTasks results) (Arr []) in
            bindE (get tasks ''length'') (\<lambda>len.
            bindE (arrayMethod ''tasks.map'' tasks) (\<lambda>xs.
            bindE (mapE (searchResultText p) xs) (\<lambda>lines. Inr (
              '' **Search Results for '' @ [CHR 0x22] @ toStr query @ [CHR 0x22] @ ''** ('' @ toStr len @ '' found):'' @ nl @ nl @
              joinWith nl lines))))))))
         ''Failed to search tasks'')"

definition todayTaskText :: "platform \<Rightarrow> jsval \<Rightarrow> exn + string" where
  "todayTaskText p task =
     bindE (get task ''title'') (\<lambda>title.
     bindE (tagsLine ''- Tags: '' task) (\<lambda>tagsText. Inr (
       ''**'' @ toStr title @ ''** (ID: '' @ toStr (field task ''id'') @ '')'' @ nl @
       ''- Status: '' @ statusText task @ nl @
       ''- Priority: '' @ getPriorityText (field task ''priority'') @ nl @
       (if truthy (field task ''dueDate'')
        then ''- Due: '' @ toLocaleTimeString p (field task ''dueDate'') @ nl else []) @
       tagsText)))"

definition getTodayTasks :: "platform \<Rightarrow> props option \<Rightarrow> string io" where
  "getTodayTasks p args = destructure args (\<lambda>a.
     let include_overdue = argDefault a ''include_overdue'' (Bool True)
     in Try (Now (\<lambda>today.
          let todayStr = datePart (toISOString today) in
          orThrow (if truthy include_overdue
                   then bindE (isoOfTime (Some (today - 24 * 60 * 60 * 1000))) (\<lambda>yesterday.
                          Inr (''/task?dueBefore='' @ todayStr @ ''&dueAfter='' @ datePart yesterday))
                   else Inr (''/task?dueDate='' @ todayStr)) (\<lambda>endpoint.
          Request endpoint ''GET'' Null (\<lambda>tasks.
            lift (bindE (get tasks ''length'') (\<lambda>len.
                  bindE (arrayMethod ''tasks.map'' tasks) (\<lambda>xs.
                  bindE (mapE (todayTaskText p) xs) (\<lambda>lines. Inr (
                    '' **Today'' @ [CHR 0x27] @ ''s Tasks** ('' @ toStr len @ '' found):'' @ nl @ nl @
                    joinWith nl lines)))))))))
         (''Failed to get today'' @ [CHR 0x27] @ ''s tasks''))"

definition upcomingTaskText :: "platform \<Rightarrow> jsval \<Rightarrow> exn + string" where
  "upcomingTaskText p task =
     bindE (get task ''title'') (\<lambda>title.
     bindE (tagsLine ''- Tags: '' task) (\<lambda>tagsText. Inr (
       ''**'' @ toStr title @ ''** (ID: '' @ toStr (field task ''id'') @ '')'' @ nl @
       ''- Status: '' @ statusText task @ nl @
       ''- Priority: '' @ getPriorityText (field task ''priority'') @ nl @
       ''- Due: '' @ toLocaleDateString p (field task ''dueDate'') @ nl @
       ''- Project: '' @ toStr (field task ''projectId'') @ nl @
       tagsText)))"

definition getUpcomingTasks :: "platform \<Rightarrow> props option \<Rightarrow> string io" where
  "getUpcomingTasks p args = destructure args (\<lambda>a.
     let days_ahead = argDefault a ''days_ahead'' (Num 7);
         limit = argDefault a ''limit'' (Num 30)
     in Try (Now (\<lambda>today.
          let futureDate = (case toNumber p days_ahead of
                              None \<Rightarrow> None
                            | Some n \<Rightarrow> Some (today + n * 24 * 60 * 60 * 1000));
              todayStr = datePart (toISOString today)
          in orThrow (isoOfTime futureDate) (\<lambda>future.
             let endpoint = ''/task?dueAfter='' @ todayStr @ ''&dueBefore='' @ datePart future
                            @ ''&limit='' @ toStr limit
             in Request endpoint ''GET'' Null (\<lambda>tasks.
                  lift (bindE (get tasks ''length'') (\<lambda>len.
                        bindE (arrayMethod ''tasks.map'' tasks) (\<lambda>xs.
                        bindE (mapE (upcomingTaskText p) xs) (\<lambda>lines. Inr (
                          '' **Upcoming Tasks** (Next '' @ toStr days_ahead @ '' days, '' @ toStr len
                          @ '' found):'' @ nl @ nl @ joinWith nl lines)))))))))
         ''Failed to get upcoming tasks'')"

text \<open>
  \<open>addTagToTask\<close> reads the task, then writes it back with the tag added: two requests.
  \<^verbatim>\<open>currentTags.push(tag_name)\<close> needs an array.
\<close>

definition addTagToTask :: "platform \<Rightarrow> props option \<Rightarrow> string io" where
  "addTagToTask p args = destructure args (\<lambda>a.
     let task_id = arg a ''task_id'';
         tag_name = arg a ''tag_name''
     in Try (Request (''/task/'' @ toStr task_id) ''GET'' Null (\<lambda>task.
          orThrow (get task ''tags'') (\<lambda>taskTags.
          let tags0 = orElse taskTags (Arr []) in
          orThrow (bindE (includesOf tags0 tag_name) (\<lambda>present.
                     if present then Inr tags0
                     else bindE (arrayMethod ''currentTags.push'' tags0) (\<lambda>xs.
                            Inr (Arr (xs @ [tag_name]))))) (\<lambda>currentTags.
          Request (''/task/'' @ toStr task_id) ''PUT''
                  (Obj (setProp (entries task) ''tags'' currentTags)) (\<lambda>updatedTask.
            orThrow (arrayMethod ''currentTags.join'' currentTags) (\<lambda>xs.
            Now (\<lambda>t. Return (
              '' **Added Tag to Task**'' @ nl @ nl @
              '' **Task**: '' @ toStr (field task ''title'') @ nl @
              '' **Tag Added**: '' @ toStr tag_name @ nl @
              '' **All Tags**: '' @ join xs '', '' @ nl @
              '' **Updated**: '' @ localeDateTime p t))))))))
         ''Failed to add tag to task'')"

definition taggedTaskText :: "platform \<Rightarrow> jsval \<Rightarrow> exn + string" where
  "taggedTaskText p task =
     bindE (get task ''title'') (\<lambda>title.
     bindE (let tags = field task ''tags'' in
            if truthy tags \<and> truthy (field tags ''length'')
            then bindE (arrayMethod ''task.tags.join'' tags) (\<lambda>xs. Inr (join xs '', ''))
            else Inr ''None'') (\<lambda>allTags. Inr (
       ''**'' @ toStr title @ ''** (ID: '' @ toStr (field task ''id'') @ '')'' @ nl @
       ''- Status: '' @ statusText task @ nl @
       ''- Priority: '' @ getPriorityText (field task ''priority'') @ nl @
       ''- Project: '' @ toStr (field task ''projectId'') @ nl @
       dueLine p ''- Due: '' task @
       ''- All Tags: '' @ allTags @ nl)))"

definition getTasksByTag :: "platform \<Rightarrow> props option \<Rightarrow> string io" where
  "getTasksByTag p args = destructure args (\<lambda>a.
     let tag_name = arg a ''tag_name'';
         limit = argDefault a ''limit'' (Num 50);
         endpoint = ''/task?tags='' @ encodeURIComponent (toStr tag_name) @ ''&limit='' @ toStr limit
     in Try (Request endpoint ''GET'' Null (\<lambda>tasks.
          lift (bindE (get tasks ''length'') (\<lambda>len.
                bindE (arrayMethod ''tasks.map'' tasks) (\<lambda>xs.
                bindE (mapE (taggedTaskText p) xs) (\<lambda>lines. Inr (
                  '' **Tasks Tagged with '' @ [CHR 0x22] @ toStr tag_name @ [CHR 0x22] @ ''** ('' @ toStr len @ '' found):''
                  @ nl @ nl @ joinWith nl lines @
                  nl @ ''**Summary**:'' @ nl @
                  ''- Total Tasks: '' @ toStr len @ nl @
                  ''- Completed: '' @ showInt (int (length (filter (\<lambda>t. field t ''status'' = Num 2) xs))) @ nl @
                  ''- Pending: '' @ showInt (int (length (filter (\<lambda>t. field t ''status'' \<noteq> Num 2) xs))))))))))
         ''Failed to get tasks by tag'')"

section \<open>Tags, profile and overdue tasks\<close>

text \<open>
  From here on, a method ends with \<open>assembled\<close> or \<open>rendered\<close> where the source assembles
  its text: the values passed are the argument object, the responses received and what
  the method has computed from the clock.
\<close>

definition getTags :: "platform \<Rightarrow> props option \<Rightarrow> string io" where
  "getTags p args =
     Try (Request ''/tag'' ''GET'' Null (\<lambda>tags. assembled p ''getTags'' [tags]))
         ''Failed to get tags''"

definition createTag :: "platform \<Rightarrow> props option \<Rightarrow> string io" where
  "createTag p args = destructure args (\<lambda>a.
     let name = arg a ''name'';
         color = argDefault a ''color'' (Str ''#3498db'');
         tagData = Obj [(''name'', name), (''color'', color)]
     in Try (Request ''/tag'' ''POST'' tagData (\<lambda>tag. rendered p ''createTag'' [Obj a, tag]))
            ''Failed to create tag'')"

definition getOverdueTasks :: "platform \<Rightarrow> props option \<Rightarrow> string io" where
  "getOverdueTasks p args = destructure args (\<lambda>a.
     let limit = argDefault a ''limit'' (Num 50)
     in Try (Now (\<lambda>now.
          let today = datePart (toISOString now);
              endpoint = ''/task?dueBefore='' @ today @ ''&status=0&limit='' @ toStr limit
          in Request endpoint ''GET'' Null (\<lambda>tasks. rendered p ''getOverdueTasks'' [Obj a, tasks])))
         ''Failed to get overdue tasks'')"

definition getUserProfile :: "platform \<Rightarrow> props option \<Rightarrow> string io" where
  "getUserProfile p args =
     Try (Request ''/user/profile'' ''GET'' Null (\<lambda>profile. assembled p ''getUserProfile'' [profile]))
         ''Failed to get user profile''"

section \<open>Habits\<close>

definition getHabits :: "platform \<Rightarrow> props option \<Rightarrow> string io" where
  "getHabits p args = destructure args (\<lambda>a.
     Try (Request ''/habit'' ''GET'' Null (\<lambda>habits. assembled p ''getHabits'' [Obj a, habits]))
         ''Failed to get habits'')"

definition createHabit :: "platform \<Rightarrow> props option \<Rightarrow> string io" where
  "createHabit p args = destructure args (\<lambda>a.
     let name = arg a ''name'';
         frequency = argDefault a ''frequency'' (Str ''daily'');
         goal = argDefault a ''goal'' (Num 1);
         reminder_time = arg a ''reminder_time'';
         color = argDefault a ''color'' (Str ''#3498db'')
     in Try (Now (\<lambda>now.
          let habitData = Obj ([(''name'', name), (''frequency'', frequency), (''goal'', goal),
                                (''color'', color), (''createdTime'', Str (toISOString now))]
                               @ optional (truthy reminder_time) ''reminderTime'' reminder_time)
          in Request ''/habit'' ''POST'' habitData (\<lambda>habit. rendered p ''createHabit'' [Obj a, habit])))
         ''Failed to create habit'')"

text \<open>\<^verbatim>\<open>if (v) updateData.k = v\<close>\<close>

definition setIf :: "jsval \<Rightarrow> string \<Rightarrow> props \<Rightarrow> props" where
  "setIf v k kvs = (if truthy v then setProp kvs k v else kvs)"

definition updateHabit :: "platform \<Rightarrow> props option \<Rightarrow> string io" where
  "updateHabit p args = destructure args (\<lambda>a.
     let habit_id = arg a ''habit_id'';
         name = arg a ''name'';
         frequency = arg a ''frequency'';
         goal = arg a ''goal'';
         reminder_time = arg a ''reminder_time'';
         color = arg a ''color''
     in Try (Request (''/habit/'' @ toStr habit_id) ''GET'' Null (\<lambda>currentHabit.
          let updateData = Obj (setIf color ''color'' (setIf reminder_time ''reminderTime''
                                 (setIf goal ''goal'' (setIf frequency ''frequency''
                                 (setIf name ''name'' (entries currentHabit))))))
          in Request (''/habit/'' @ toStr habit_id) ''PUT'' updateData (\<lambda>updatedHabit.
               rendered p ''updateHabit'' [Obj a, currentHabit, updatedHabit])))
         ''Failed to update habit'')"

definition deleteHabit :: "platform \<Rightarrow> props option \<Rightarrow> string io" where
  "deleteHabit p args = destructure args (\<lambda>a.
     let habit_id = arg a ''habit_id''
     in Try (Request (''/habit/'' @ toStr habit_id) ''DELETE'' Null (\<lambda>r.
               rendered p ''deleteHabit'' [Obj a, r]))
            ''Failed to delete habit'')"

text \<open>\<^verbatim>\<open>date || new Date().toISOString().split('T')[0]\<close>: the clock is read when \<open>date\<close> is falsy.\<close>

definition dateOrToday :: "jsval \<Rightarrow> (jsval \<Rightarrow> 'a io) \<Rightarrow> 'a io" where
  "dateOrToday date k =
     (if truthy date then k date else Now (\<lambda>now. k (Str (datePart (toISOString now)))))"

definition checkinHabit :: "platform \<Rightarrow> props option \<Rightarrow> string io" where
  "checkinHabit p args = destructure args (\<lambda>a.
     let habit_id = arg a ''habit_id'';
         date = arg a ''date'';
         count = argDefault a ''count'' (Num 1)
     in Try (dateOrToday date (\<lambda>checkinDate.
          Now (\<lambda>now.
          let checkinData = Obj [(''habitId'', habit_id), (''date'', checkinDate), (''count'', count),
                                 (''timestamp'', Str (toISOString now))]
          in Request ''/habit/checkin'' ''POST'' checkinData (\<lambda>checkin.
               rendered p ''checkinHabit'' [Obj a, checkinDate, checkin]))))
         ''Failed to check in habit'')"

definition getHabitHistory :: "platform \<Rightarrow> props option \<Rightarrow> string io" where
  "getHabitHistory p args = destructure args (\<lambda>a.
     let habit_id = arg a ''habit_id'';
         days_back = argDefault a ''days_back'' (Num 30)
     in Try (Now (\<lambda>endDate.
          let startDate = (case toNumber p days_back of
                             None \<Rightarrow> None
                           | Some n \<Rightarrow> Some (endDate - n * 24 * 60 * 60 * 1000))
          in orThrow (isoOfTime startDate) (\<lambda>start.
             let endpoint = ''/habit/'' @ toStr habit_id @ ''/history?start='' @ datePart start
                            @ ''&end='' @ datePart (toISOString endDate)
             in Request endpoint ''GET'' Null (\<lambda>history.
                  assembled p ''getHabitHistory'' [Obj a, Num endDate, history]))))
         ''Failed to get habit history'')"

definition getHabitStats :: "platform \<Rightarrow> props option \<Rightarrow> string io" where
  "getHabitStats p args = destructure args (\<lambda>a.
     let habit_id = arg a ''habit_id''
     in Try (Request (''/habit/'' @ toStr habit_id @ ''/stats'') ''GET'' Null (\<lambda>stats.
               rendered p ''getHabitStats'' [Obj a, stats]))
            ''Failed to get habit stats'')"

definition pauseHabit :: "platform \<Rightarrow> props option \<Rightarrow> string io" where
  "pauseHabit p args = destructure args (\<lambda>a.
     let habit_id = arg a ''habit_id'';
         resume_date = arg a ''resume_date''
     in Try (Now (\<lambda>now.
          let pauseData = Obj ([(''paused'', Bool True),
                                (''pausedDate'', Str (datePart (toISOString now)))]
                               @ optional (truthy resume_date) ''resumeDate'' resume_date)
          in Request (''/habit/'' @ toStr habit_id) ''PUT'' pauseData (\<lambda>habit.
               assembled p ''pauseHabit'' [Obj a, pauseData, habit])))
         ''Failed to pause habit'')"

definition resumeHabit :: "platform \<Rightarrow> props option \<Rightarrow> string io" where
  "resumeHabit p args = destructure args (\<lambda>a.
     let habit_id = arg a ''habit_id''
     in Try (Now (\<lambda>now.
          let resumeData = Obj [(''paused'', Bool False),
                                (''resumedDate'', Str (datePart (toISOString now)))]
          in Request (''/habit/'' @ toStr habit_id) ''PUT'' resumeData (\<lambda>habit.
               assembled p ''resumeHabit'' [Obj a, resumeData, habit])))
         ''Failed to resume habit'')"

definition getHabitStreaks :: "platform \<Rightarrow> props option \<Rightarrow> string io" where
  "getHabitStreaks p args = destructure args (\<lambda>a.
     let habit_id = arg a ''habit_id''
     in Try (Request (''/habit/'' @ toStr habit_id @ ''/streaks'') ''GET'' Null (\<lambda>streaks.
               assembled p ''getHabitStreaks'' [Obj a, streaks]))
            ''Failed to get habit streaks'')"

definition bulkCheckinHabits :: "platform \<Rightarrow> props option \<Rightarrow> string io" where
  "bulkCheckinHabits p args = destructure args (\<lambda>a.
     let habit_ids = arg a ''habit_ids'';
         date = arg a ''date''
     in Try (dateOrToday date (\<lambda>checkinDate.
          Now (\<lambda>now.
          let bulkData = Obj [(''habitIds'', habit_ids), (''date'', checkinDate),
                              (''timestamp'', Str (toISOString now))]
          in Request ''/habit/bulk-checkin'' ''POST'' bulkData (\<lambda>results.
               rendered p ''bulkCheckinHabits'' [Obj a, checkinDate, results]))))
         ''Failed to bulk check-in habits'')"

text \<open>
  The default of \<open>year\<close> is \<^verbatim>\<open>new Date().getFullYear()\<close>, evaluated with the parameters,
  before the \<open>try\<close> block.
\<close>

definition getHabitCalendar :: "platform \<Rightarrow> props option \<Rightarrow> string io" where
  "getHabitCalendar p args = destructure args (\<lambda>a.
     let habit_id = arg a ''habit_id'';
         month = arg a ''month'';
         body = (\<lambda>year.
           Try (let endpoint = ''/habit/'' @ toStr habit_id @ ''/calendar?year='' @ toStr year
                               @ (if truthy month then ''&month='' @ toStr month else [])
                in Request endpoint ''GET'' Null (\<lambda>calendar.
                     assembled p ''getHabitCalendar'' [Obj a, year, calendar]))
               ''Failed to get habit calendar'')
     in if arg a ''year'' = Undefined then Now (\<lambda>now. body (Num (fullYear p now)))
        else body (arg a ''year''))"

definition setHabitGoal :: "platform \<Rightarrow> props option \<Rightarrow> string io" where
  "setHabitGoal p args = destructure args (\<lambda>a.
     let habit_id = arg a ''habit_id'';
         goal_type = argDefault a ''goal_type'' (Str ''daily'');
         target_count = arg a ''target_count'';
         target_streak = arg a ''target_streak'';
         goalData = Obj ([(''habitId'', habit_id), (''goalType'', goal_type),
                          (''targetCount'', target_count)]
                         @ optional (truthy target_streak) ''targetStreak'' target_streak)
     in Try (Request ''/habit/goal'' ''POST'' goalData (\<lambda>goal.
               rendered p ''setHabitGoal'' [Obj a, goal]))
            ''Failed to set habit goal'')"

definition getHabitsSummary :: "platform \<Rightarrow> props option \<Rightarrow> string io" where
  "getHabitsSummary p args = destructure args (\<lambda>a.
     let date = arg a ''date''
     in Try (dateOrToday date (\<lambda>summaryDate.
          Request (''/habit/summary?date='' @ toStr summaryDate) ''GET'' Null (\<lambda>summary.
            assembled p ''getHabitsSummary'' [Obj a, summaryDate, summary])))
         ''Failed to get habits summary'')"

text \<open>\<^verbatim>\<open>if (v) params.append(k, v)\<close>\<close>

definition appendIf :: "jsval \<Rightarrow> string \<Rightarrow> URLSearchParams \<Rightarrow> URLSearchParams" where
  "appendIf v k params = (if truthy v then append params k v else params)"

definition exportHabitData :: "platform \<Rightarrow> props option \<Rightarrow> string io" where
  "exportHabitData p args = destructure args (\<lambda>a.
     let habit_id = arg a ''habit_id'';
         start_date = arg a ''start_date'';
         end_date = arg a ''end_date'';
         format = argDefault a ''format'' (Str ''json'');
         params = append (appendIf end_date ''endDate'' (appendIf start_date ''startDate''
                    (appendIf habit_id ''habitId'' []))) ''format'' format;
         endpoint = ''/habit/export''
                    @ (if paramsToString params \<noteq> [] then ''?'' @ paramsToString params else [])
     in Try (Request endpoint ''GET'' Null (\<lambda>exportData.
               rendered p ''exportHabitData'' [Obj a, exportData]))
            ''Failed to export habit data'')"

section \<open>More on tags\<close>

definition updateTag :: "platform \<Rightarrow> props option \<Rightarrow> string io" where
  "updateTag p args = destructure args (\<lambda>a.
     let tag_id = arg a ''tag_id'';
         name = arg a ''name'';
         color = arg a ''color''
     in Try (Request (''/tag/'' @ toStr tag_id) ''GET'' Null (\<lambda>currentTag.
          let updateData = Obj (setIf color ''color'' (setIf name ''name'' (entries currentTag)))
          in Request (''/tag/'' @ toStr tag_id) ''PUT'' updateData (\<lambda>updatedTag.
               rendered p ''updateTag'' [Obj a, currentTag, updatedTag])))
         ''Failed to update tag'')"

definition deleteTag :: "platform \<Rightarrow> props option \<Rightarrow> string io" where
  "deleteTag p args = destructure args (\<lambda>a.
     let tag_id = arg a ''tag_id''
     in Try (Request (''/tag/'' @ toStr tag_id) ''DELETE'' Null (\<lambda>r.
               rendered p ''deleteTag'' [Obj a, r]))
            ''Failed to delete tag'')"

definition removeTagFromTask :: "platform \<Rightarrow> props option \<Rightarrow> string io" where
  "removeTagFromTask p args = destructure args (\<lambda>a.
     let task_id = arg a ''task_id'';
         tag_name = arg a ''tag_name''
     in Try (Request (''/task/'' @ toStr task_id) ''GET'' Null (\<lambda>task.
          orThrow (get task ''tags'') (\<lambda>taskTags.
          let currentTags = orElse taskTags (Arr []) in
          orThrow (arrayMethod ''currentTags.filter'' currentTags) (\<lambda>xs.
          let updatedTags = Arr (filter (\<lambda>tag. \<not> strictEq tag tag_name) xs) in
          Request (''/task/'' @ toStr task_id) ''PUT''
                  (Obj (setProp (entries task) ''tags'' updatedTags)) (\<lambda>updatedTask.
            rendered p ''removeTagFromTask'' [Obj a, task, updatedTags, updatedTask])))))
         ''Failed to remove tag from task'')"

definition getTagUsageStats :: "platform \<Rightarrow> props option \<Rightarrow> string io" where
  "getTagUsageStats p args = destructure args (\<lambda>a.
     let tag_id = arg a ''tag_id''
     in Try (Request (''/tag/'' @ toStr tag_id @ ''/stats'') ''GET'' Null (\<lambda>stats.
               assembled p ''getTagUsageStats'' [Obj a, stats]))
            ''Failed to get tag usage stats'')"

definition mergeTags :: "platform \<Rightarrow> props option \<Rightarrow> string io" where
  "mergeTags p args = destructure args (\<lambda>a.
     let source_tag_id = arg a ''source_tag_id'';
         target_tag_id = arg a ''target_tag_id'';
         mergeData = Obj [(''sourceTagId'', source_tag_id), (''targetTagId'', target_tag_id)]
     in Try (Request ''/tag/merge'' ''POST'' mergeData (\<lambda>result.
               rendered p ''mergeTags'' [Obj a, result]))
            ''Failed to merge tags'')"

definition bulkTagOperations :: "platform \<Rightarrow> props option \<Rightarrow> string io" where
  "bulkTagOperations p args = destructure args (\<lambda>a.
     let operation = arg a ''operation'';
         task_ids = arg a ''task_ids'';
         tag_names = arg a ''tag_names'';
         replace_with = arg a ''replace_with'';
         bulkData = Obj ([(''operation'', operation), (''taskIds'', task_ids), (''tagNames'', tag_names)]
                         @ optional (operation = Str ''replace'' \<and> truthy replace_with)
                             ''replaceWith'' replace_with)
     in Try (Request ''/tag/bulk'' ''POST'' bulkData (\<lambda>result.
               rendered p ''bulkTagOperations'' [Obj a, result]))
            ''Failed to perform bulk tag operations'')"

section \<open>Focus time\<close>

definition startFocusSession :: "platform \<Rightarrow> props option \<Rightarrow> string io" where
  "startFocusSession p args = destructure args (\<lambda>a.
     let task_id = arg a ''task_id'';
         duration = argDefault a ''duration'' (Num 25);
         session_type = argDefault a ''session_type'' (Str ''focus'')
     in Try (Now (\<lambda>now.
          let sessionData = Obj ([(''type'', session_type), (''duration'', duration),
                                  (''startTime'', Str (toISOString now))]
                                 @ optional (truthy task_id) ''taskId'' task_id)
          in Request ''/focus/start'' ''POST'' sessionData (\<lambda>session.
               rendered p ''startFocusSession'' [Obj a, session])))
         ''Failed to start focus session'')"

definition stopFocusSession :: "platform \<Rightarrow> props option \<Rightarrow> string io" where
  "stopFocusSession p args = destructure args (\<lambda>a.
     let session_id = arg a ''session_id''
     in Try (Now (\<lambda>now.
          let stopData = Obj [(''sessionId'', session_id), (''endTime'', Str (toISOString now))]
          in Request ''/focus/stop'' ''POST'' stopData (\<lambda>result.
               rendered p ''stopFocusSession'' [Obj a, result])))
         ''Failed to stop focus session'')"

definition pauseFocusSession :: "platform \<Rightarrow> props option \<Rightarrow> string io" where
  "pauseFocusSession p args = destructure args (\<lambda>a.
     let session_id = arg a ''session_id''
     in Try (Now (\<lambda>now.
          let pauseData = Obj [(''sessionId'', session_id), (''pauseTime'', Str (toISOString now))]
          in Request ''/focus/pause'' ''POST'' pauseData (\<lambda>result.
               rendered p ''pauseFocusSession'' [Obj a, result])))
         ''Failed to pause focus session'')"

definition resumeFocusSession :: "platform \<Rightarrow> props option \<Rightarrow> string io" where
  "resumeFocusSession p args = destructure args (\<lambda>a.
     let session_id = arg a ''session_id''
     in Try (Now (\<lambda>now.
          let resumeData = Obj [(''sessionId'', session_id), (''resumeTime'', Str (toISOString now))]
          in Request ''/focus/resume'' ''POST'' resumeData (\<lambda>result.
               rendered p ''resumeFocusSession'' [Obj a, result])))
         ''Failed to resume focus session'')"

definition getFocusStats :: "platform \<Rightarrow> props option \<Rightarrow> string io" where
  "getFocusStats p args = destructure args (\<lambda>a.
     let period = argDefault a ''period'' (Str ''today'')
     in Try (Request (''/focus/stats?period='' @ toStr period) ''GET'' Null (\<lambda>stats.
               assembled p ''getFocusStats'' [Obj a, stats]))
            ''Failed to get focus stats'')"

text \<open>\<^verbatim>\<open>estimated_minutes * n\<close>, exact as long as the product is a safe integer.\<close>

definition timesNum :: "platform \<Rightarrow> jsval \<Rightarrow> int \<Rightarrow> jsval" where
  "timesNum p v n = ofNumber (map_option (\<lambda>i. i * n) (toNumber p v))"

definition setTaskEstimate :: "platform \<Rightarrow> props option \<Rightarrow> string io" where
  "setTaskEstimate p args = destructure args (\<lambda>a.
     let task_id = arg a ''task_id'';
         estimated_minutes = arg a ''estimated_minutes'';
         estimate_type = argDefault a ''estimate_type'' (Str ''minutes'');
         finalEstimate = (if estimate_type = Str ''pomodoros'' then timesNum p estimated_minutes 25
                          else if estimate_type = Str ''hours'' then timesNum p estimated_minutes 60
                          else estimated_minutes)
     in Try (Now (\<lambda>now.
          let estimateData = Obj [(''taskId'', task_id), (''estimatedMinutes'', finalEstimate),
                                  (''estimateType'', estimate_type), (''setAt'', Str (toISOString now))]
          in Request ''/task/estimate'' ''POST'' estimateData (\<lambda>result.
               rendered p ''setTaskEstimate'' [Obj a, finalEstimate, result])))
         ''Failed to set task estimate'')"

definition getDailyFocusSummary :: "platform \<Rightarrow> props option \<Rightarrow> string io" where
  "getDailyFocusSummary p args = destructure args (\<lambda>a.
     let date = arg a ''date''
     in Try (dateOrToday date (\<lambda>summaryDate.
          Request (''/focus/daily?date='' @ toStr summaryDate) ''GET'' Null (\<lambda>summary.
            assembled p ''getDailyFocusSummary'' [Obj a, summaryDate, summary])))
         ''Failed to get daily focus summary'')"

definition getFocusHistory :: "platform \<Rightarrow> props option \<Rightarrow> string io" where
  "getFocusHistory p args = destructure args (\<lambda>a.
     let days_back = argDefault a ''days_back'' (Num 30);
         task_id = arg a ''task_id'';
         endpoint = ''/focus/history?days='' @ toStr days_back
                    @ (if truthy task_id then ''&taskId='' @ toStr task_id else [])
     in Try (Request endpoint ''GET'' Null (\<lambda>history.
               assembled p ''getFocusHistory'' [Obj a, history]))
            ''Failed to get focus history'')"

definition setFocusGoals :: "platform \<Rightarrow> props option \<Rightarrow> string io" where
  "setFocusGoals p args = destructure args (\<lambda>a.
     let goal_type = argDefault a ''goal_type'' (Str ''daily'');
         target_minutes = arg a ''target_minutes'';
         target_sessions = arg a ''target_sessions''
     in Try (Now (\<lambda>now.
          let goalData = Obj ([(''type'', goal_type), (''targetMinutes'', target_minutes),
                               (''setAt'', Str (toISOString now))]
                              @ optional (truthy target_sessions) ''targetSessions'' target_sessions)
          in Request ''/focus/goals'' ''POST'' goalData (\<lambda>goal.
               rendered p ''setFocusGoals'' [Obj a, goal])))
         ''Failed to set focus goals'')"

definition getProductivityInsights :: "platform \<Rightarrow> props option \<Rightarrow> string io" where
  "getProductivityInsights p args = destructure args (\<lambda>a.
     let period = argDefault a ''period'' (Str ''week'')
     in Try (Request (''/analytics/productivity?period='' @ toStr period) ''GET'' Null (\<lambda>insights.
               assembled p ''getProductivityInsights'' [Obj a, insights]))
            ''Failed to get productivity insights'')"

section \<open>Project management and collaboration\<close>

definition getProjectFolders :: "platform \<Rightarrow> props option \<Rightarrow> string io" where
  "getProjectFolders p args =
     Try (Request ''/project/folder'' ''GET'' Null (\<lambda>folders.
            assembled p ''getProjectFolders'' [folders]))
         ''Failed to get project folders''"

definition createProjectFolder :: "platform \<Rightarrow> props option \<Rightarrow> string io" where
  "createProjectFolder p args = destructure args (\<lambda>a.
     let name = arg a ''name'';
         color = argDefault a ''color'' (Str ''#3498db'');
         description = argDefault a ''description'' (Str []);
         folderData = Obj [(''name'', name), (''color'', color), (''description'', description)]
     in Try (Request ''/project/folder'' ''POST'' folderData (\<lambda>folder.
               rendered p ''createProjectFolder'' [Obj a, folder]))
            ''Failed to create project folder'')"

definition moveProjectToFolder :: "platform \<Rightarrow> props option \<Rightarrow> string io" where
  "moveProjectToFolder p args = destructure args (\<lambda>a.
     let project_id = arg a ''project_id'';
         folder_id = argDefault a ''folder_id'' Null;
         moveData = Obj [(''folderId'', folder_id)]
     in Try (Request (''/project/'' @ toStr project_id @ ''/move'') ''PUT'' moveData (\<lambda>r.
               rendered p ''moveProjectToFolder'' [Obj a, r]))
            ''Failed to move project to folder'')"

definition archiveProject :: "platform \<Rightarrow> props option \<Rightarrow> string io" where
  "archiveProject p args = destructure args (\<lambda>a.
     let project_id = arg a ''project_id''
     in Try (Request (''/project/'' @ toStr project_id @ ''/archive'') ''PUT'' Null (\<lambda>r.
               rendered p ''archiveProject'' [Obj a, r]))
            ''Failed to archive project'')"

definition unarchiveProject :: "platform \<Rightarrow> props option \<Rightarrow> string io" where
  "unarchiveProject p args = destructure args (\<lambda>a.
     let project_id = arg a ''project_id''
     in Try (Request (''/project/'' @ toStr project_id @ ''/unarchive'') ''PUT'' Null (\<lambda>r.
               rendered p ''unarchiveProject'' [Obj a, r]))
            ''Failed to unarchive project'')"

definition duplicateProject :: "platform \<Rightarrow> props option \<Rightarrow> string io" where
  "duplicateProject p args = destructure args (\<lambda>a.
     let project_id = arg a ''project_id'';
         new_name = arg a ''new_name'';
         include_tasks = argDefault a ''include_tasks'' (Bool True);
         include_settings = argDefault a ''include_settings'' (Bool True);
         duplicateData = Obj [(''name'', new_name), (''includeTasks'', include_tasks),
                              (''includeSettings'', include_settings)]
     in Try (Request (''/project/'' @ toStr project_id @ ''/duplicate'') ''POST'' duplicateData
               (\<lambda>newProject. rendered p ''duplicateProject'' [Obj a, newProject]))
            ''Failed to duplicate project'')"

definition getProjectStats :: "platform \<Rightarrow> props option \<Rightarrow> string io" where
  "getProjectStats p args = destructure args (\<lambda>a.
     let project_id = arg a ''project_id''
     in Try (Request (''/project/'' @ toStr project_id @ ''/stats'') ''GET'' Null (\<lambda>stats.
               assembled p ''getProjectStats'' [Obj a, stats]))
            ''Failed to get project stats'')"

definition setProjectColor :: "platform \<Rightarrow> props option \<Rightarrow> string io" where
  "setProjectColor p args = destructure args (\<lambda>a.
     let project_id = arg a ''project_id'';
         color = arg a ''color'';
         updateData = Obj [(''color'', color)]
     in Try (Request (''/project/'' @ toStr project_id) ''PUT'' updateData (\<lambda>r.
               rendered p ''setProjectColor'' [Obj a, r]))
            ''Failed to set project color'')"

definition reorderProjects :: "platform \<Rightarrow> props option \<Rightarrow> string io" where
  "reorderProjects p args = destructure args (\<lambda>a.
     let project_orders = arg a ''project_orders''
     in Try (orThrow (bindE (arrayMethod ''project_orders.map'' project_orders) (\<lambda>xs.
                      mapE (\<lambda>order. bindE (get order ''project_id'') (\<lambda>pid.
                              Inr (Obj [(''projectId'', pid), (''sortOrder'', field order ''position'')])))
                           xs)) (\<lambda>orders.
             let reorderData = Obj [(''orders'', Arr orders)]
             in Request ''/project/reorder'' ''PUT'' reorderData (\<lambda>r.
                  rendered p ''reorderProjects'' [Obj a, r])))
            ''Failed to reorder projects'')"

definition getProjectTemplates :: "platform \<Rightarrow> props option \<Rightarrow> string io" where
  "getProjectTemplates p args =
     Try (Request ''/project/templates'' ''GET'' Null (\<lambda>templates.
            assembled p ''getProjectTemplates'' [templates]))
         ''Failed to get project templates''"

definition createProjectFromTemplate :: "platform \<Rightarrow> props option \<Rightarrow> string io" where
  "createProjectFromTemplate p args = destructure args (\<lambda>a.
     let template_id = arg a ''template_id'';
         project_name = arg a ''project_name'';
         customize_settings = argDefault a ''customize_settings'' (Obj []);
         projectData = Obj [(''templateId'', template_id), (''name'', project_name),
                            (''customizations'', customize_settings)]
     in Try (Request ''/project/from-template'' ''POST'' projectData (\<lambda>newProject.
               rendered p ''createProjectFromTemplate'' [Obj a, newProject]))
            ''Failed to create project from template'')"

definition exportProject :: "platform \<Rightarrow> props option \<Rightarrow> string io" where
  "exportProject p args = destructure args (\<lambda>a.
     let project_id = arg a ''project_id'';
         format = argDefault a ''format'' (Str ''json'');
         include_completed = argDefault a ''include_completed'' (Bool True);
         include_attachments = argDefault a ''include_attachments'' (Bool False);
         exportData = Obj [(''format'', format), (''includeCompleted'', include_completed),
                           (''includeAttachments'', include_attachments)]
     in Try (Request (''/project/'' @ toStr project_id @ ''/export'') ''POST'' exportData
               (\<lambda>exportResult. rendered p ''exportProject'' [Obj a, exportResult]))
            ''Failed to export project'')"

definition shareProject :: "platform \<Rightarrow> props option \<Rightarrow> string io" where
  "shareProject p args = destructure args (\<lambda>a.
     let project_id = arg a ''project_id'';
         emails = arg a ''emails'';
         permission_level = argDefault a ''permission_level'' (Str ''edit'');
         message = argDefault a ''message'' (Str []);
         shareData = Obj [(''emails'', emails), (''permissionLevel'', permission_level),
                          (''invitationMessage'', message)]
     in Try (Request (''/project/'' @ toStr project_id @ ''/share'') ''POST'' shareData (\<lambda>result.
               rendered p ''shareProject'' [Obj a, result]))
            ''Failed to share project'')"

definition getSharedProjects :: "platform \<Rightarrow> props option \<Rightarrow> string io" where
  "getSharedProjects p args = destructure args (\<lambda>a.
     let include_owned = argDefault a ''include_owned'' (Bool True);
         include_received = argDefault a ''include_received'' (Bool True)
     in Try (Request (''/project/shared?includeOwned='' @ toStr include_owned
                      @ ''&includeReceived='' @ toStr include_received) ''GET'' Null
               (\<lambda>sharedProjects. assembled p ''getSharedProjects'' [Obj a, sharedProjects]))
            ''Failed to get shared projects'')"

definition inviteCollaborator :: "platform \<Rightarrow> props option \<Rightarrow> string io" where
  "inviteCollaborator p args = destructure args (\<lambda>a.
     let project_id = arg a ''project_id'';
         email = arg a ''email'';
         role = argDefault a ''role'' (Str ''member'');
         personal_message = argDefault a ''personal_message'' (Str []);
         inviteData = Obj [(''email'', email), (''role'', role), (''personalMessage'', personal_message)]
     in Try (Request (''/project/'' @ toStr project_id @ ''/invite'') ''POST'' inviteData
               (\<lambda>invitation. rendered p ''inviteCollaborator'' [Obj a, invitation]))
            ''Failed to invite collaborator'')"

definition removeCollaborator :: "platform \<Rightarrow> props option \<Rightarrow> string io" where
  "removeCollaborator p args = destructure args (\<lambda>a.
     let project_id = arg a ''project_id'';
         user_id = arg a ''user_id''
     in Try (Request (''/project/'' @ toStr project_id @ ''/collaborator/'' @ toStr user_id)
               ''DELETE'' Null (\<lambda>r. rendered p ''removeCollaborator'' [Obj a, r]))
            ''Failed to remove collaborator'')"

definition assignTask :: "platform \<Rightarrow> props option \<Rightarrow> string io" where
  "assignTask p args = destructure args (\<lambda>a.
     let task_id = arg a ''task_id'';
         assignee_id = arg a ''assignee_id'';
         due_date = arg a ''due_date'';
         priority = arg a ''priority'';
         notification = argDefault a ''notification'' (Bool True);
         assignmentData = Obj [(''assigneeId'', assignee_id), (''dueDate'', due_date),
                               (''priority'', priority), (''sendNotification'', notification)]
     in Try (Request (''/task/'' @ toStr task_id @ ''/assign'') ''PUT'' assignmentData
               (\<lambda>assignment. rendered p ''assignTask'' [Obj a, assignment]))
            ''Failed to assign task'')"

definition getTaskAssignees :: "platform \<Rightarrow> props option \<Rightarrow> string io" where
  "getTaskAssignees p args = destructure args (\<lambda>a.
     let task_id = arg a ''task_id''
     in Try (Request (''/task/'' @ toStr task_id @ ''/assignees'') ''GET'' Null (\<lambda>assignees.
               rendered p ''getTaskAssignees'' [Obj a, assignees]))
            ''Failed to get task assignees'')"

definition addTaskComment :: "platform \<Rightarrow> props option \<Rightarrow> string io" where
  "addTaskComment p args = destructure args (\<lambda>a.
     let task_id = arg a ''task_id'';
         comment = arg a ''comment'';
         mention_users = argDefault a ''mention_users'' (Arr []);
         is_private = argDefault a ''is_private'' (Bool False);
         commentData = Obj [(''content'', comment), (''mentions'', mention_users),
                            (''isPrivate'', is_private)]
     in Try (Request (''/task/'' @ toStr task_id @ ''/comment'') ''POST'' commentData
               (\<lambda>newComment. rendered p ''addTaskComment'' [Obj a, newComment]))
            ''Failed to add task comment'')"

text \<open>\<^verbatim>\<open>v > 0\<close>\<close>

definition positive :: "platform \<Rightarrow> jsval \<Rightarrow> bool" where
  "positive p v = (case toNumber p v of None \<Rightarrow> False | Some n \<Rightarrow> n > 0)"

text \<open>\<^verbatim>\<open>v.join(',')\<close>\<close>

definition joinOf :: "string \<Rightarrow> jsval \<Rightarrow> exn + string" where
  "joinOf m v = bindE (arrayMethod m v) (\<lambda>xs. Inr (join xs '',''))"

definition getTeamActivity :: "platform \<Rightarrow> props option \<Rightarrow> string io" where
  "getTeamActivity p args = destructure args (\<lambda>a.
     let project_id = arg a ''project_id'';
         limit = argDefault a ''limit'' (Num 50);
         activity_types = arg a ''activity_types''
     in Try (orThrow (toStringOf limit) (\<lambda>limitStr.
             orThrow (if truthy activity_types \<and> positive p (field activity_types ''length'')
                      then bindE (joinOf ''activity_types.join'' activity_types) (\<lambda>types.
                             Inr [(''types'', types)])
                      else Inr []) (\<lambda>types.
             let params = [(''limit'', limitStr)] @ types
             in Request (''/project/'' @ toStr project_id @ ''/activity?'' @ paramsToString params)
                  ''GET'' Null (\<lambda>activities. rendered p ''getTeamActivity'' [Obj a, activities]))))
            ''Failed to get team activity'')"

definition setProjectPermissions :: "platform \<Rightarrow> props option \<Rightarrow> string io" where
  "setProjectPermissions p args = destructure args (\<lambda>a.
     let project_id = arg a ''project_id'';
         permissions = arg a ''permissions'';
         apply_to_existing = argDefault a ''apply_to_existing'' (Bool False);
         permissionData = Obj [(''permissions'', permissions), (''applyToExisting'', apply_to_existing)]
     in Try (Request (''/project/'' @ toStr project_id @ ''/permissions'') ''PUT'' permissionData
               (\<lambda>r. rendered p ''setProjectPermissions'' [Obj a, r]))
            ''Failed to set project permissions'')"

definition getCollaborationStats :: "platform \<Rightarrow> props option \<Rightarrow> string io" where
  "getCollaborationStats p args = destructure args (\<lambda>a.
     let project_id = arg a ''project_id'';
         time_period = argDefault a ''time_period'' (Str ''month'')
     in Try (Request (''/project/'' @ toStr project_id @ ''/collaboration-stats?period=''
                      @ toStr time_period) ''GET'' Null
               (\<lambda>stats. rendered p ''getCollaborationStats'' [Obj a, stats]))
            ''Failed to get collaboration stats'')"

definition bulkAssignTasks :: "platform \<Rightarrow> props option \<Rightarrow> string io" where
  "bulkAssignTasks p args = destructure args (\<lambda>a.
     let assignments = arg a ''assignments'';
         notify_assignees = argDefault a ''notify_assignees'' (Bool True)
     in Try (orThrow (bindE (arrayMethod ''assignments.map'' assignments) (\<lambda>xs.
                      mapE (\<lambda>assignment. bindE (get assignment ''task_id'') (\<lambda>tid.
                              Inr (Obj [(''taskId'', tid),
                                        (''assigneeId'', field assignment ''assignee_id''),
                                        (''dueDate'', field assignment ''due_date'')])))
                           xs)) (\<lambda>mapped.
             let assignmentData = Obj [(''assignments'', Arr mapped),
                                       (''notifyAssignees'', notify_assignees)]
             in Request ''/task/bulk-assign'' ''POST'' assignmentData (\<lambda>result.
                  rendered p ''bulkAssignTasks'' [Obj a, result])))
            ''Failed to bulk assign tasks'')"

definition exportTeamReport :: "platform \<Rightarrow> props option \<Rightarrow> string io" where
  "exportTeamReport p args = destructure args (\<lambda>a.
     let project_id = arg a ''project_id'';
         report_type = argDefault a ''report_type'' (Str ''productivity'');
         date_range = arg a ''date_range'';
         format = argDefault a ''format'' (Str ''pdf'');
         exportData = Obj [(''reportType'', report_type), (''dateRange'', date_range),
                           (''format'', format)]
     in Try (Request (''/project/'' @ toStr project_id @ ''/export/team-report'') ''POST'' exportData
               (\<lambda>exportResult. rendered p ''exportTeamReport'' [Obj a, exportResult]))
            ''Failed to export team report'')"

section \<open>Calendar\<close>

definition getCalendarEvents :: "platform \<Rightarrow> props option \<Rightarrow> string io" where
  "getCalendarEvents p args = destructure args (\<lambda>a.
     let start_date = arg a ''start_date'';
         end_date = arg a ''end_date'';
         calendar_id = arg a ''calendar_id'';
         params = appendIf calendar_id ''calendarId'' (appendIf end_date ''endDate''
                    (appendIf start_date ''startDate'' []))
     in Try (Request (''/calendar/events?'' @ paramsToString params) ''GET'' Null (\<lambda>events.
               rendered p ''getCalendarEvents'' [Obj a, events]))
            ''Failed to get calendar events'')"

definition createCalendarEvent :: "platform \<Rightarrow> props option \<Rightarrow> string io" where
  "createCalendarEvent p args = destructure args (\<lambda>a.
     let title = arg a ''title'';
         start_time = arg a ''start_time'';
         end_time = arg a ''end_time'';
         description = arg a ''description'';
         location = arg a ''location'';
         reminder_minutes = argDefault a ''reminder_minutes'' (Num 15);
         eventData = Obj [(''title'', title), (''startTime'', start_time), (''endTime'', end_time),
                          (''description'', description), (''location'', location),
                          (''reminderMinutes'', reminder_minutes)]
     in Try (Request ''/calendar/event'' ''POST'' eventData (\<lambda>event.
               rendered p ''createCalendarEvent'' [Obj a, event]))
            ''Failed to create calendar event'')"

definition syncWithGoogleCalendar :: "platform \<Rightarrow> props option \<Rightarrow> string io" where
  "syncWithGoogleCalendar p args = destructure args (\<lambda>a.
     let google_calendar_id = arg a ''google_calendar_id'';
         sync_direction = argDefault a ''sync_direction'' (Str ''bidirectional'');
         date_range_days = argDefault a ''date_range_days'' (Num 30);
         syncData = Obj [(''googleCalendarId'', google_calendar_id),
                         (''syncDirection'', sync_direction), (''dateRangeDays'', date_range_days)]
     in Try (Request ''/calendar/sync/google'' ''POST'' syncData (\<lambda>syncResult.
               rendered p ''syncWithGoogleCalendar'' [Obj a, syncResult]))
            ''Failed to sync with Google Calendar'')"

definition syncWithOutlook :: "platform \<Rightarrow> props option \<Rightarrow> string io" where
  "syncWithOutlook p args = destructure args (\<lambda>a.
     let outlook_calendar_id = arg a ''outlook_calendar_id'';
         sync_direction = argDefault a ''sync_direction'' (Str ''bidirectional'');
         include_meetings = argDefault a ''include_meetings'' (Bool True);
         syncData = Obj [(''outlookCalendarId'', outlook_calendar_id),
                         (''syncDirection'', sync_direction), (''includeMeetings'', include_meetings)]
     in Try (Request ''/calendar/sync/outlook'' ''POST'' syncData (\<lambda>syncResult.
               rendered p ''syncWithOutlook'' [Obj a, syncResult]))
            ''Failed to sync with Outlook'')"

text \<open>
  \<^verbatim>\<open>end_date || new Date(Date.now() + 7 * 24 * 60 * 60 * 1000).toISOString().split('T')[0]\<close>
\<close>

definition dateOrNextWeek :: "jsval \<Rightarrow> (jsval \<Rightarrow> 'a io) \<Rightarrow> 'a io" where
  "dateOrNextWeek date k =
     (if truthy date then k date
      else Now (\<lambda>now. orThrow (isoOfTime (Some (now + 7 * 24 * 60 * 60 * 1000))) (\<lambda>iso.
             k (Str (datePart iso)))))"

definition getCalendarView :: "platform \<Rightarrow> props option \<Rightarrow> string io" where
  "getCalendarView p args = destructure args (\<lambda>a.
     let start_date = arg a ''start_date'';
         end_date = arg a ''end_date'';
         view_type = argDefault a ''view_type'' (Str ''week'');
         include_tasks = argDefault a ''include_tasks'' (Bool True)
     in Try (dateOrToday start_date (\<lambda>startDate.
             dateOrNextWeek end_date (\<lambda>endDate.
             orThrow (toStringOf include_tasks) (\<lambda>includeTasks.
             let params = searchParams [(''startDate'', startDate), (''endDate'', endDate),
                                        (''viewType'', view_type), (''includeTasks'', Str includeTasks)]
             in Request (''/calendar/view?'' @ paramsToString params) ''GET'' Null (\<lambda>calendarView.
                  rendered p ''getCalendarView'' [Obj a, calendarView])))))
            ''Failed to get calendar view'')"

definition convertTaskToEvent :: "platform \<Rightarrow> props option \<Rightarrow> string io" where
  "convertTaskToEvent p args = destructure args (\<lambda>a.
     let task_id = arg a ''task_id'';
         event_duration_minutes = argDefault a ''event_duration_minutes'' (Num 60);
         start_time = arg a ''start_time'';
         create_reminder = argDefault a ''create_reminder'' (Bool True);
         conversionData = Obj [(''eventDurationMinutes'', event_duration_minutes),
                               (''startTime'', start_time), (''createReminder'', create_reminder)]
     in Try (Request (''/task/'' @ toStr task_id @ ''/convert-to-event'') ''POST'' conversionData
               (\<lambda>result. rendered p ''convertTaskToEvent'' [Obj a, result]))
            ''Failed to convert task to event'')"

definition getScheduleConflicts :: "platform \<Rightarrow> props option \<Rightarrow> string io" where
  "getScheduleConflicts p args = destructure args (\<lambda>a.
     let start_date = arg a ''start_date'';
         end_date = arg a ''end_date'';
         include_tasks = argDefault a ''include_tasks'' (Bool True);
         conflict_threshold_minutes = argDefault a ''conflict_threshold_minutes'' (Num 15)
     in Try (dateOrToday start_date (\<lambda>startDate.
             dateOrNextWeek end_date (\<lambda>endDate.
             orThrow (toStringOf include_tasks) (\<lambda>includeTasks.
             orThrow (toStringOf conflict_threshold_minutes) (\<lambda>thresholdMinutes.
             let params = searchParams [(''startDate'', startDate), (''endDate'', endDate),
                                        (''includeTasks'', Str includeTasks),
                                        (''thresholdMinutes'', Str thresholdMinutes)]
             in Request (''/calendar/conflicts?'' @ paramsToString params) ''GET'' Null (\<lambda>conflicts.
                  rendered p ''getScheduleConflicts'' [Obj a, conflicts]))))))
            ''Failed to get schedule conflicts'')"

definition bulkCalendarImport :: "platform \<Rightarrow> props option \<Rightarrow> string io" where
  "bulkCalendarImport p args = destructure args (\<lambda>a.
     let calendar_data = arg a ''calendar_data'';
         import_source = arg a ''import_source'';
         merge_duplicates = argDefault a ''merge_duplicates'' (Bool True);
         create_new_calendar = argDefault a ''create_new_calendar'' (Bool False);
         importData = Obj [(''calendarData'', calendar_data), (''importSource'', import_source),
                           (''mergeDuplicates'', merge_duplicates),
                           (''createNewCalendar'', create_new_calendar)]
     in Try (Request ''/calendar/bulk-import'' ''POST'' importData (\<lambda>importResult.
               rendered p ''bulkCalendarImport'' [Obj a, importResult]))
            ''Failed to bulk import calendar'')"

section \<open>Notes and attachments\<close>

definition getTaskNotes :: "platform \<Rightarrow> props option \<Rightarrow> string io" where
  "getTaskNotes p args = destructure args (\<lambda>a.
     let task_id = arg a ''task_id'';
         include_replies = argDefault a ''include_replies'' (Bool True);
         sort_order = argDefault a ''sort_order'' (Str ''newest'')
     in Try (orThrow (toStringOf include_replies) (\<lambda>includeReplies.
             let params = searchParams [(''includeReplies'', Str includeReplies),
                                        (''sortOrder'', sort_order)]
             in Request (''/task/'' @ toStr task_id @ ''/notes?'' @ paramsToString params) ''GET'' Null
                  (\<lambda>notes. rendered p ''getTaskNotes'' [Obj a, notes])))
            ''Failed to get task notes'')"

definition addTaskNote :: "platform \<Rightarrow> props option \<Rightarrow> string io" where
  "addTaskNote p args = destructure args (\<lambda>a.
     let task_id = arg a ''task_id'';
         note_content = arg a ''note_content'';
         note_type = argDefault a ''note_type'' (Str ''comment'');
         is_private = argDefault a ''is_private'' (Bool False);
         noteData = Obj [(''content'', note_content), (''type'', note_type), (''isPrivate'', is_private)]
     in Try (Request (''/task/'' @ toStr task_id @ ''/note'') ''POST'' noteData (\<lambda>newNote.
               rendered p ''addTaskNote'' [Obj a, newNote]))
            ''Failed to add task note'')"

definition updateTaskNote :: "platform \<Rightarrow> props option \<Rightarrow> string io" where
  "updateTaskNote p args = destructure args (\<lambda>a.
     let task_id = arg a ''task_id'';
         note_id = arg a ''note_id'';
         new_content = arg a ''new_content'';
         updateData = Obj [(''content'', new_content)]
     in Try (Request (''/task/'' @ toStr task_id @ ''/note/'' @ toStr note_id) ''PUT'' updateData
               (\<lambda>updatedNote. rendered p ''updateTaskNote'' [Obj a, updatedNote]))
            ''Failed to update task note'')"

definition deleteTaskNote :: "platform \<Rightarrow> props option \<Rightarrow> string io" where
  "deleteTaskNote p args = destructure args (\<lambda>a.
     let task_id = arg a ''task_id'';
         note_id = arg a ''note_id''
     in Try (Request (''/task/'' @ toStr task_id @ ''/note/'' @ toStr note_id) ''GET'' Null (\<lambda>noteInfo.
             Request (''/task/'' @ toStr task_id @ ''/note/'' @ toStr note_id) ''DELETE'' Null (\<lambda>r.
               rendered p ''deleteTaskNote'' [Obj a, noteInfo, r])))
            ''Failed to delete task note'')"

definition uploadTaskAttachment :: "platform \<Rightarrow> props option \<Rightarrow> string io" where
  "uploadTaskAttachment p args = destructure args (\<lambda>a.
     let task_id = arg a ''task_id'';
         file_data = arg a ''file_data'';
         file_name = arg a ''file_name'';
         file_type = arg a ''file_type'';
         description = arg a ''description'';
         attachmentData = Obj [(''fileData'', file_data), (''fileName'', file_name),
                               (''fileType'', file_type), (''description'', description)]
     in Try (Request (''/task/'' @ toStr task_id @ ''/attachment'') ''POST'' attachmentData
               (\<lambda>attachment. rendered p ''uploadTaskAttachment'' [Obj a, attachment]))
            ''Failed to upload task attachment'')"

definition getTaskAttachments :: "platform \<Rightarrow> props option \<Rightarrow> string io" where
  "getTaskAttachments p args = destructure args (\<lambda>a.
     let task_id = arg a ''task_id'';
         file_type_filter = argDefault a ''file_type_filter'' (Str ''all'');
         params = searchParams [(''filter'', file_type_filter)]
     in Try (Request (''/task/'' @ toStr task_id @ ''/attachments?'' @ paramsToString params)
               ''GET'' Null (\<lambda>attachments. rendered p ''getTaskAttachments'' [Obj a, attachments]))
            ''Failed to get task attachments'')"

definition downloadTaskAttachment :: "platform \<Rightarrow> props option \<Rightarrow> string io" where
  "downloadTaskAttachment p args = destructure args (\<lambda>a.
     let task_id = arg a ''task_id'';
         attachment_id = arg a ''attachment_id'';
         download_format = argDefault a ''download_format'' (Str ''original'');
         params = searchParams [(''format'', download_format)]
     in Try (Request (''/task/'' @ toStr task_id @ ''/attachment/'' @ toStr attachment_id
                      @ ''/download?'' @ paramsToString params) ''GET'' Null
               (\<lambda>downloadInfo. rendered p ''downloadTaskAttachment'' [Obj a, downloadInfo]))
            ''Failed to download task attachment'')"

definition deleteTaskAttachment :: "platform \<Rightarrow> props option \<Rightarrow> string io" where
  "deleteTaskAttachment p args = destructure args (\<lambda>a.
     let task_id = arg a ''task_id'';
         attachment_id = arg a ''attachment_id'';
         endpoint = ''/task/'' @ toStr task_id @ ''/attachment/'' @ toStr attachment_id
     in Try (Request endpoint ''GET'' Null (\<lambda>attachmentInfo.
             Request endpoint ''DELETE'' Null (\<lambda>r.
               rendered p ''deleteTaskAttachment'' [Obj a, attachmentInfo, r])))
            ''Failed to delete task attachment'')"

section \<open>Templates and recurring tasks\<close>

definition getTaskTemplates :: "platform \<Rightarrow> props option \<Rightarrow> string io" where
  "getTaskTemplates p args = destructure args (\<lambda>a.
     let category = arg a ''category'';
         include_shared = argDefault a ''include_shared'' (Bool True);
         sort_by = argDefault a ''sort_by'' (Str ''usage'')
     in Try (orThrow (toStringOf include_shared) (\<lambda>includeShared.
             let params = appendIf category ''category''
                            (searchParams [(''includeShared'', Str includeShared), (''sortBy'', sort_by)])
             in Request (''/task/templates?'' @ paramsToString params) ''GET'' Null (\<lambda>templates.
                  rendered p ''getTaskTemplates'' [Obj a, templates])))
            ''Failed to get task templates'')"

definition createTaskTemplate :: "platform \<Rightarrow> props option \<Rightarrow> string io" where
  "createTaskTemplate p args = destructure args (\<lambda>a.
     let template_name = arg a ''template_name'';
         template_description = arg a ''template_description'';
         task_data = arg a ''task_data'';
         category = argDefault a ''category'' (Str ''general'');
         is_shared = argDefault a ''is_shared'' (Bool False);
         templateData = Obj [(''name'', template_name), (''description'', template_description),
                             (''taskStructure'', task_data), (''category'', category),
                             (''isShared'', is_shared)]
     in Try (Request ''/task/template'' ''POST'' templateData (\<lambda>newTemplate.
               rendered p ''createTaskTemplate'' [Obj a, newTemplate]))
            ''Failed to create task template'')"

definition updateTaskTemplate :: "platform \<Rightarrow> props option \<Rightarrow> string io" where
  "updateTaskTemplate p args = destructure args (\<lambda>a.
     let template_id = arg a ''template_id'';
         template_name = arg a ''template_name'';
         template_description = arg a ''template_description'';
         task_data = arg a ''task_data'';
         category = arg a ''category'';
         updateData = Obj (optional (truthy template_name) ''name'' template_name
                           @ optional (truthy template_description) ''description'' template_description
                           @ optional (truthy task_data) ''taskStructure'' task_data
                           @ optional (truthy category) ''category'' category)
     in Try (Request (''/task/template/'' @ toStr template_id) ''PUT'' updateData
               (\<lambda>updatedTemplate. rendered p ''updateTaskTemplate'' [Obj a, updatedTemplate]))
            ''Failed to update task template'')"

definition deleteTaskTemplate :: "platform \<Rightarrow> props option \<Rightarrow> string io" where
  "deleteTaskTemplate p args = destructure args (\<lambda>a.
     let template_id = arg a ''template_id''
     in Try (Request (''/task/template/'' @ toStr template_id) ''GET'' Null (\<lambda>templateInfo.
             Request (''/task/template/'' @ toStr template_id) ''DELETE'' Null (\<lambda>r.
               rendered p ''deleteTaskTemplate'' [Obj a, templateInfo, r])))
            ''Failed to delete task template'')"

definition createTaskFromTemplate :: "platform \<Rightarrow> props option \<Rightarrow> string io" where
  "createTaskFromTemplate p args = destructure args (\<lambda>a.
     let template_id = arg a ''template_id'';
         project_id = arg a ''project_id'';
         customizations = argDefault a ''customizations'' (Obj []);
         create_multiple = argDefault a ''create_multiple'' (Num 1);
         creationData = Obj [(''templateId'', template_id), (''projectId'', project_id),
                             (''customizations'', customizations), (''quantity'', create_multiple)]
     in Try (Request ''/task/from-template'' ''POST'' creationData (\<lambda>result.
               rendered p ''createTaskFromTemplate'' [Obj a, result]))
            ''Failed to create task from template'')"

definition setRecurringTask :: "platform \<Rightarrow> props option \<Rightarrow> string io" where
  "setRecurringTask p args = destructure args (\<lambda>a.
     let task_id = arg a ''task_id'';
         recurrence_pattern = arg a ''recurrence_pattern'';
         recurrenceData = Obj [(''pattern'', recurrence_pattern)]
     in Try (Request (''/task/'' @ toStr task_id @ ''/recurrence'') ''POST'' recurrenceData
               (\<lambda>recurringTask. rendered p ''setRecurringTask'' [Obj a, recurringTask]))
            ''Failed to set recurring task'')"

definition getRecurringTasks :: "platform \<Rightarrow> props option \<Rightarrow> string io" where
  "getRecurringTasks p args = destructure args (\<lambda>a.
     let project_id = arg a ''project_id'';
         frequency_filter = argDefault a ''frequency_filter'' (Str ''all'');
         status = argDefault a ''status'' (Str ''active'');
         params = appendIf project_id ''projectId''
                    (searchParams [(''frequencyFilter'', frequency_filter), (''status'', status)])
     in Try (Request (''/task/recurring?'' @ paramsToString params) ''GET'' Null (\<lambda>recurringTasks.
               rendered p ''getRecurringTasks'' [Obj a, recurringTasks]))
            ''Failed to get recurring tasks'')"

definition pauseRecurringTask :: "platform \<Rightarrow> props option \<Rightarrow> string io" where
  "pauseRecurringTask p args = destructure args (\<lambda>a.
     let task_id = arg a ''task_id'';
         pause_reason = arg a ''pause_reason'';
         resume_date = arg a ''resume_date'';
         pauseData = Obj [(''reason'', pause_reason), (''resumeDate'', resume_date)]
     in Try (Request (''/task/'' @ toStr task_id @ ''/recurrence/pause'') ''PUT'' pauseData
               (\<lambda>pausedTask. rendered p ''pauseRecurringTask'' [Obj a, pausedTask]))
            ''Failed to pause recurring task'')"

definition bulkCreateFromTemplate :: "platform \<Rightarrow> props option \<Rightarrow> string io" where
  "bulkCreateFromTemplate p args = destructure args (\<lambda>a.
     let template_id = arg a ''template_id'';
         bulk_data = arg a ''bulk_data'';
         apply_template_defaults = argDefault a ''apply_template_defaults'' (Bool True);
         notify_assignees = argDefault a ''notify_assignees'' (Bool True);
         bulkCreationData = Obj [(''templateId'', template_id), (''tasks'', bulk_data),
                                 (''applyDefaults'', apply_template_defaults),
                                 (''notifyAssignees'', notify_assignees)]
     in Try (Request ''/task/bulk-from-template'' ''POST'' bulkCreationData (\<lambda>result.
               rendered p ''bulkCreateFromTemplate'' [Obj a, result]))
            ''Failed to bulk create from template'')"

section \<open>Analytics and reports\<close>

text \<open>
  \<^verbatim>\<open>if (xs?.length) { xs.forEach(x => params.append(k, x)) }\<close>: only an array has
  \<open>forEach\<close>.
\<close>

definition appendEach :: "jsval \<Rightarrow> string \<Rightarrow> URLSearchParams \<Rightarrow> exn + URLSearchParams" where
  "appendEach xs k params =
     (if truthy (optLength xs)
      then bindE (arrayMethod ''forEach'' xs) (\<lambda>ys. Inr (params @ map (\<lambda>y. (k, toStr y)) ys))
      else Inr params)"

text \<open>
  \<^verbatim>\<open>if (o) { Object.entries(o).forEach(([key, value]) => params.append(`${prefix}${key}`, value.toString())) }\<close>
\<close>

definition appendEntries :: "jsval \<Rightarrow> string \<Rightarrow> URLSearchParams \<Rightarrow> exn + URLSearchParams" where
  "appendEntries obj prefix params =
     (if truthy obj
      then bindE (mapE (\<lambda>(key, v). bindE (toStringOf v) (\<lambda>s. Inr (prefix @ key, s))) (entries obj))
             (\<lambda>kvs. Inr (params @ kvs))
      else Inr params)"

definition getProductivityReport :: "platform \<Rightarrow> props option \<Rightarrow> string io" where
  "getProductivityReport p args = destructure args (\<lambda>a.
     let time_range = argDefault a ''time_range'' (Str ''month'');
         start_date = arg a ''start_date'';
         end_date = arg a ''end_date'';
         include_habits = argDefault a ''include_habits'' (Bool True);
         include_focus = argDefault a ''include_focus'' (Bool True);
         project_ids = arg a ''project_ids'';
         params0 = appendIf end_date ''end'' (appendIf start_date ''start''
                     (searchParams [(''range'', time_range), (''habits'', include_habits),
                                    (''focus'', include_focus)]))
     in Try (orThrow (appendEach project_ids ''projects'' params0) (\<lambda>params.
             Request (''/analytics/productivity?'' @ paramsToString params) ''GET'' Null (\<lambda>result.
               rendered p ''getProductivityReport'' [Obj a, result])))
            ''Failed to get productivity report'')"

definition getCompletionTrends :: "platform \<Rightarrow> props option \<Rightarrow> string io" where
  "getCompletionTrends p args = destructure args (\<lambda>a.
     let period = argDefault a ''period'' (Str ''weekly'');
         duration = argDefault a ''duration'' (Num 12);
         project_id = arg a ''project_id'';
         tag_filter = arg a ''tag_filter'';
         include_predictions = argDefault a ''include_predictions'' (Bool True)
     in Try (orThrow (toStringOf duration) (\<lambda>durationStr.
             let params0 = appendIf project_id ''project''
                             (searchParams [(''period'', period), (''duration'', Str durationStr),
                                            (''predictions'', include_predictions)])
             in orThrow (appendEach tag_filter ''tags'' params0) (\<lambda>params.
                Request (''/analytics/trends?'' @ paramsToString params) ''GET'' Null (\<lambda>result.
                  rendered p ''getCompletionTrends'' [Obj a, result]))))
            ''Failed to get completion trends'')"

definition getTimeTrackingReport :: "platform \<Rightarrow> props option \<Rightarrow> string io" where
  "getTimeTrackingReport p args = destructure args (\<lambda>a.
     let time_period = argDefault a ''time_period'' (Str ''month'');
         breakdown_by = argDefault a ''breakdown_by'' (Str ''project'');
         include_estimates = argDefault a ''include_estimates'' (Bool True);
         focus_sessions_only = argDefault a ''focus_sessions_only'' (Bool False);
         export_format = argDefault a ''export_format'' (Str ''detailed'');
         params = searchParams [(''period'', time_period), (''breakdown'', breakdown_by),
                                (''estimates'', include_estimates),
                                (''focus_only'', focus_sessions_only), (''format'', export_format)]
     in Try (Request (''/analytics/time-tracking?'' @ paramsToString params) ''GET'' Null (\<lambda>result.
               rendered p ''getTimeTrackingReport'' [Obj a, result]))
            ''Failed to get time tracking report'')"

definition getGoalProgress :: "platform \<Rightarrow> props option \<Rightarrow> string io" where
  "getGoalProgress p args = destructure args (\<lambda>a.
     let goal_type = arg a ''goal_type'';
         time_frame = argDefault a ''time_frame'' (Str ''monthly'');
         target_metrics = arg a ''target_metrics'';
         include_recommendations = argDefault a ''include_recommendations'' (Bool True);
         params0 = searchParams [(''type'', goal_type), (''frame'', time_frame),
                                 (''recommendations'', include_recommendations)]
     in Try (orThrow (appendEntries target_metrics ''target_'' params0) (\<lambda>params.
             Request (''/analytics/goals?'' @ paramsToString params) ''GET'' Null (\<lambda>result.
               rendered p ''getGoalProgress'' [Obj a, result])))
            ''Failed to get goal progress'')"

definition exportAnalyticsData :: "platform \<Rightarrow> props option \<Rightarrow> string io" where
  "exportAnalyticsData p args = destructure args (\<lambda>a.
     let data_types = argDefault a ''data_types'' (Arr [Str ''tasks'', Str ''habits'', Str ''focus_sessions'']);
         date_range = arg a ''date_range'';
         format = argDefault a ''format'' (Str ''json'');
         include_metadata = argDefault a ''include_metadata'' (Bool True);
         privacy_filter = argDefault a ''privacy_filter'' (Bool False)
     in Try (orThrow (joinOf ''data_types.join'' data_types) (\<lambda>types.
             orThrow (get date_range ''start_date'') (\<lambda>start_date.
             let params = searchParams [(''types'', Str types), (''start'', start_date),
                                        (''end'', field date_range ''end_date''), (''format'', format),
                                        (''metadata'', include_metadata), (''privacy'', privacy_filter)]
             in Request (''/analytics/export?'' @ paramsToString params) ''GET'' Null (\<lambda>result.
                  rendered p ''exportAnalyticsData'' [Obj a, result]))))
            ''Failed to export analytics data'')"

text \<open>\<^verbatim>\<open>v?.k\<close>\<close>

definition optField :: "jsval \<Rightarrow> string \<Rightarrow> jsval" where
  "optField v k = (if nullish v then Undefined else field v k)"

definition getWeeklySummary :: "platform \<Rightarrow> props option \<Rightarrow> string io" where
  "getWeeklySummary p args = destructure args (\<lambda>a.
     let week_offset = argDefault a ''week_offset'' (Num 0);
         include_sections = argDefault a ''include_sections''
                              (Arr [Str ''tasks'', Str ''habits'', Str ''focus'', Str ''achievements'']);
         compare_previous = argDefault a ''compare_previous'' (Bool True);
         personalization = arg a ''personalization''
     in Try (orThrow (toStringOf week_offset) (\<lambda>offset.
             orThrow (joinOf ''include_sections.join'' include_sections) (\<lambda>sections.
             let params0 = appendIf (optField personalization ''tone'') ''tone''
                             (searchParams [(''offset'', Str offset), (''sections'', Str sections),
                                            (''compare'', compare_previous)]);
                 focus_areas = optField personalization ''focus_areas''
             in orThrow (if truthy (optLength focus_areas)
                         then bindE (joinOf ''focus_areas.join'' focus_areas) (\<lambda>areas.
                                Inr (params0 @ [(''focus_areas'', areas)]))
                         else Inr params0) (\<lambda>params.
                Request (''/analytics/weekly-summary?'' @ paramsToString params) ''GET'' Null (\<lambda>result.
                  rendered p ''getWeeklySummary'' [Obj a, result])))))
            ''Failed to get weekly summary'')"

definition getMonthlyInsights :: "platform \<Rightarrow> props option \<Rightarrow> string io" where
  "getMonthlyInsights p args = destructure args (\<lambda>a.
     let month_offset = argDefault a ''month_offset'' (Num 0);
         insight_depth = argDefault a ''insight_depth'' (Str ''detailed'');
         focus_metrics = argDefault a ''focus_metrics''
                           (Arr [Str ''efficiency'', Str ''consistency'', Str ''goal_achievement'']);
         benchmarking = arg a ''benchmarking'';
         action_planning = argDefault a ''action_planning'' (Bool True)
     in Try (orThrow (toStringOf month_offset) (\<lambda>offset.
             orThrow (joinOf ''focus_metrics.join'' focus_metrics) (\<lambda>metrics.
             let params0 = searchParams [(''offset'', Str offset), (''depth'', insight_depth),
                                         (''metrics'', Str metrics), (''planning'', action_planning)]
             in orThrow (appendEntries benchmarking ''benchmark_'' params0) (\<lambda>params.
                Request (''/analytics/monthly-insights?'' @ paramsToString params) ''GET'' Null (\<lambda>result.
                  rendered p ''getMonthlyInsights'' [Obj a, result])))))
            ''Failed to get monthly insights'')"

section \<open>Settings\<close>

definition updateUserSettings :: "platform \<Rightarrow> props option \<Rightarrow> string io" where
  "updateUserSettings p args = destructure args (\<lambda>a.
     let settings = arg a ''settings''
     in Try (Request ''/user/settings'' ''PUT'' settings (\<lambda>result.
               rendered p ''updateUserSettings'' [Obj a, result]))
            ''Failed to update user settings'')"

definition getNotificationSettings :: "platform \<Rightarrow> props option \<Rightarrow> string io" where
  "getNotificationSettings p args = destructure args (\<lambda>a.
     let category = argDefault a ''category'' (Str ''all'');
         include_disabled = argDefault a ''include_disabled'' (Bool False);
         params = searchParams [(''category'', category), (''disabled'', include_disabled)]
     in Try (Request (''/user/notifications?'' @ paramsToString params) ''GET'' Null (\<lambda>result.
               rendered p ''getNotificationSettings'' [Obj a, result]))
            ''Failed to get notification settings'')"

definition updateNotificationSettings :: "platform \<Rightarrow> props option \<Rightarrow> string io" where
  "updateNotificationSettings p args = destructure args (\<lambda>a.
     let notifications = arg a ''notifications''
     in Try (Request ''/user/notifications'' ''PUT'' notifications (\<lambda>result.
               rendered p ''updateNotificationSettings'' [Obj a, result]))
            ''Failed to update notification settings'')"

definition getSyncSettings :: "platform \<Rightarrow> props option \<Rightarrow> string io" where
  "getSyncSettings p args = destructure args (\<lambda>a.
     let include_device_list = argDefault a ''include_device_list'' (Bool True);
         include_sync_history = argDefault a ''include_sync_history'' (Bool False);
         params = searchParams [(''devices'', include_device_list), (''history'', include_sync_history)]
     in Try (Request (''/user/sync?'' @ paramsToString params) ''GET'' Null (\<lambda>result.
               rendered p ''getSyncSettings'' [Obj a, result]))
            ''Failed to get sync settings'')"

definition updateSyncSettings :: "platform \<Rightarrow> props option \<Rightarrow> string io" where
  "updateSyncSettings p args = destructure args (\<lambda>a.
     let sync_settings = arg a ''sync_settings''
     in Try (Request ''/user/sync'' ''PUT'' sync_settings (\<lambda>result.
               rendered p ''updateSyncSettings'' [Obj a, result]))
            ''Failed to update sync settings'')"

definition resetUserData :: "platform \<Rightarrow> props option \<Rightarrow> string io" where
  "resetUserData p args = destructure args (\<lambda>a.
     let reset_type = arg a ''reset_type'';
         data_categories = arg a ''data_categories'';
         backup_before_reset = argDefault a ''backup_before_reset'' (Bool True);
         confirmation_code = arg a ''confirmation_code'';
         export_data_first = argDefault a ''export_data_first'' (Bool False);
         resetData = Obj [(''type'', reset_type), (''categories'', data_categories),
                          (''backup'', backup_before_reset), (''confirmation'', confirmation_code),
                          (''export'', export_data_first)]
     in Try (Request ''/user/reset'' ''POST'' resetData (\<lambda>result.
               rendered p ''resetUserData'' [Obj a, result]))
            ''Failed to reset user data'')"

section \<open>The handler of tool calls\<close>

text \<open>The \<open>switch\<close> on the tool name: each \<open>case\<close> with the method it awaits.\<close>

definition tools :: "platform \<Rightarrow> (string \<times> (props option \<Rightarrow> string io)) list" where
  "tools p =
     [(''ticktick_get_projects'', getProjects p),
      (''ticktick_create_project'', createProject p),
      (''ticktick_get_tasks'', getTasks p),
      (''ticktick_create_task'', createTask p),
      (''ticktick_update_task'', updateTask p),
      (''ticktick_delete_task'', deleteTask p),
      (''ticktick_complete_task'', completeTask p),
      (''ticktick_get_task_details'', getTaskDetails p),
      (''ticktick_filter_tasks'', filterTasks p),
      (''ticktick_convert_datetime_to_ticktick_format'', convertDatetimeToTicktickFormat p),
      (''ticktick_get_tags'', getTags p),
      (''ticktick_create_tag'', createTag p),
      (''ticktick_search_tasks'', searchTasks p),
      (''ticktick_get_today_tasks'', getTodayTasks p),
      (''ticktick_get_overdue_tasks'', getOverdueTasks p),
      (''ticktick_get_upcoming_tasks'', getUpcomingTasks p),
      (''ticktick_add_tag_to_task'', addTagToTask p),
      (''ticktick_get_user_profile'', getUserProfile p),
      (''ticktick_get_habits'', getHabits p),
      (''ticktick_create_habit'', createHabit p),
      (''ticktick_update_habit'', updateHabit p),
      (''ticktick_delete_habit'', deleteHabit p),
      (''ticktick_checkin_habit'', checkinHabit p),
      (''ticktick_get_habit_history'', getHabitHistory p),
      (''ticktick_get_habit_stats'', getHabitStats p),
      (''ticktick_pause_habit'', pauseHabit p),
      (''ticktick_resume_habit'', resumeHabit p),
      (''ticktick_get_habit_streaks'', getHabitStreaks p),
      (''ticktick_bulk_checkin_habits'', bulkCheckinHabits p),
      (''ticktick_get_habit_calendar'', getHabitCalendar p),
      (''ticktick_set_habit_goal'', setHabitGoal p),
      (''ticktick_get_habits_summary'', getHabitsSummary p),
      (''ticktick_export_habit_data'', exportHabitData p),
      (''ticktick_update_tag'', updateTag p),
      (''ticktick_delete_tag'', deleteTag p),
      (''ticktick_remove_tag_from_task'', removeTagFromTask p),
      (''ticktick_get_tasks_by_tag'', getTasksByTag p),
      (''ticktick_get_tag_usage_stats'', getTagUsageStats p),
      (''ticktick_merge_tags'', mergeTags p),
      (''ticktick_bulk_tag_operations'', bulkTagOperations p),
      (''ticktick_start_focus_session'', startFocusSession p),
      (''ticktick_stop_focus_session'', stopFocusSession p),
      (''ticktick_pause_focus_session'', pauseFocusSession p),
      (''ticktick_resume_focus_session'', resumeFocusSession p),
      (''ticktick_get_focus_stats'', getFocusStats p),
      (''ticktick_set_task_estimate'', setTaskEstimate p),
      (''ticktick_get_daily_focus_summary'', getDailyFocusSummary p),
      (''ticktick_get_focus_history'', getFocusHistory p),
      (''ticktick_set_focus_goals'', setFocusGoals p),
      (''ticktick_get_productivity_insights'', getProductivityInsights p),
      (''ticktick_get_project_folders'', getProjectFolders p),
      (''ticktick_create_project_folder'', createProjectFolder p),
      (''ticktick_move_project_to_folder'', moveProjectToFolder p),
      (''ticktick_archive_project'', archiveProject p),
      (''ticktick_unarchive_project'', unarchiveProject p),
      (''ticktick_duplicate_project'', duplicateProject p),
      (''ticktick_get_project_stats'', getProjectStats p),
      (''ticktick_set_project_color'', setProjectColor p),
      (''ticktick_reorder_projects'', reorderProjects p),
      (''ticktick_get_project_templates'', getProjectTemplates p),
      (''ticktick_create_project_from_template'', createProjectFromTemplate p),
      (''ticktick_export_project'', exportProject p),
      (''ticktick_share_project'', shareProject p),
      (''ticktick_get_shared_projects'', getSharedProjects p),
      (''ticktick_invite_collaborator'', inviteCollaborator p),
      (''ticktick_remove_collaborator'', removeCollaborator p),
      (''ticktick_assign_task'', assignTask p),
      (''ticktick_get_task_assignees'', getTaskAssignees p),
      (''ticktick_add_task_comment'', addTaskComment p),
      (''ticktick_get_team_activity'', getTeamActivity p),
      (''ticktick_set_project_permissions'', setProjectPermissions p),
      (''ticktick_get_collaboration_stats'', getCollaborationStats p),
      (''ticktick_bulk_assign_tasks'', bulkAssignTasks p),
      (''ticktick_export_team_report'', exportTeamReport p),
      (''ticktick_get_calendar_events'', getCalendarEvents p),
      (''ticktick_create_calendar_event'', createCalendarEvent p),
      (''ticktick_sync_with_google_calendar'', syncWithGoogleCalendar p),
      (''ticktick_sync_with_outlook'', syncWithOutlook p),
      (''ticktick_get_calendar_view'', getCalendarView p),
      (''ticktick_convert_task_to_event'', convertTaskToEvent p),
      (''ticktick_get_schedule_conflicts'', getScheduleConflicts p),
      (''ticktick_bulk_calendar_import'', bulkCalendarImport p),
      (''ticktick_get_task_notes'', getTaskNotes p),
      (''ticktick_add_task_note'', addTaskNote p),
      (''ticktick_update_task_note'', updateTaskNote p),
      (''ticktick_delete_task_note'', deleteTaskNote p),
      (''ticktick_upload_task_attachment'', uploadTaskAttachment p),
      (''ticktick_get_task_attachments'', getTaskAttachments p),
      (''ticktick_download_task_attachment'', downloadTaskAttachment p),
      (''ticktick_delete_task_attachment'', deleteTaskAttachment p),
      (''ticktick_get_task_templates'', getTaskTemplates p),
      (''ticktick_create_task_template'', createTaskTemplate p),
      (''ticktick_update_task_template'', updateTaskTemplate p),
      (''ticktick_delete_task_template'', deleteTaskTemplate p),
      (''ticktick_create_task_from_template'', createTaskFromTemplate p),
      (''ticktick_set_recurring_task'', setRecurringTask p),
      (''ticktick_get_recurring_tasks'', getRecurringTasks p),
      (''ticktick_pause_recurring_task'', pauseRecurringTask p),
      (''ticktick_bulk_create_from_template'', bulkCreateFromTemplate p),
      (''ticktick_get_productivity_report'', getProductivityReport p),
      (''ticktick_get_completion_trends'', getCompletionTrends p),
      (''ticktick_get_time_tracking_report'', getTimeTrackingReport p),
      (''ticktick_get_goal_progress'', getGoalProgress p),
      (''ticktick_export_analytics_data'', exportAnalyticsData p),
      (''ticktick_get_weekly_summary'', getWeeklySummary p),
      (''ticktick_get_monthly_insights'', getMonthlyInsights p),
      (''ticktick_update_user_settings'', updateUserSettings p),
      (''ticktick_get_notification_settings'', getNotificationSettings p),
      (''ticktick_update_notification_settings'', updateNotificationSettings p),
      (''ticktick_get_sync_settings'', getSyncSettings p),
      (''ticktick_update_sync_settings'', updateSyncSettings p),
      (''ticktick_reset_user_data'', resetUserData p)]"

definition callTool :: "platform \<Rightarrow> string \<Rightarrow> props option \<Rightarrow> string io" where
  "callTool p name args =
     (case map_of (tools p) name of
        Some method \<Rightarrow> method args
      | None \<Rightarrow> Throw (McpError MethodNotFound (''Unknown tool: '' @ name)))"

text \<open>
  The handler of \<open>tools/call\<close>: the credential guard, then the \<open>switch\<close> inside
  \<^verbatim>\<open>try { .. } catch (error) { throw new McpError(ErrorCode.InternalError, `Error: ${error.message}`) }\<close>.
  It gives what the call returns (the text of its one content block) or throws, and the
  trace of the call.
\<close>

definition handleCallTool ::
  "config \<Rightarrow> platform \<Rightarrow> world \<Rightarrow> string \<Rightarrow> props option \<Rightarrow> (exn + string) \<times> trace" where
  "handleCallTool cfg p w name args =
     (if \<not> envTruthy (TICKTICK_ACCESS_TOKEN cfg) \<and> \<not> envTruthy (TICKTICK_TOKEN cfg) then
        (Inl (McpError InvalidRequest ''TickTick credentials not properly configured''), trace0)
      else
        case run cfg p w (callTool p name args) trace0 of
          (Inl error, tr) \<Rightarrow> (Inl (McpError InternalError (''Error: '' @ message p error)), tr)
        | (Inr result, tr) \<Rightarrow> (Inr result, tr))"

text \<open>
  A configuration with an access token, one with no token, and a world whose upstream
  answers every request alike and whose clock stands still.
\<close>

definition withToken :: config where
  "withToken = \<lparr>TICKTICK_ACCESS_TOKEN = Some ''secret'', TICKTICK_TOKEN = None\<rparr>"

definition noToken :: config where
  "noToken = \<lparr>TICKTICK_ACCESS_TOKEN = None, TICKTICK_TOKEN = None\<rparr>"

definition atTime :: "int \<Rightarrow> response \<Rightarrow> world" where
  "atTime t r = \<lparr>upstream = (\<lambda>_ _. r), clock = (\<lambda>_. t)\<rparr>"

definition answering :: "response \<Rightarrow> world" where
  "answering r = atTime 0 r"

text \<open>
  A platform to run examples on: the SDK's message of an \<open>McpError\<close>, numbers as the only
  valid dates, dates printed as the date part of their ISO string, no string read as a
  number, strings left in their case, and the name of the method for a text that is not
  analysed, after one reading of the clock where the text reads the clock.
\<close>

definition errorNumber :: "error_code \<Rightarrow> string" where
  "errorNumber c =
     (case c of InvalidRequest \<Rightarrow> ''-32600'' | MethodNotFound \<Rightarrow> ''-32601''
              | InternalError \<Rightarrow> ''-32603'')"

definition samplePlatform :: platform where
  "samplePlatform =
     \<lparr>mcpMessage = (\<lambda>c m. ''MCP error '' @ errorNumber c @ '': '' @ m),
      engineMessage = (\<lambda>l. l),
      dateValue = (\<lambda>v. case v of Num n \<Rightarrow> Some n | _ \<Rightarrow> None),
      localeDate = (\<lambda>t. datePart (toISOString t)),
      localeTime = (\<lambda>t. drop 11 (toISOString t)),
      localeDateTime = toISOString,
      fullYear = (\<lambda>t. 1970 + t div 31556952000),
      stringToNumber = (\<lambda>s. None),
      toLowerCase = (\<lambda>s. s),
      assemble = (\<lambda>name vs. Inr name),
      render = (\<lambda>name vs. ReadClock (\<lambda>t. Assembled (Inr name)))\<rparr>"

section \<open>Requests of a call\<close>

text \<open>
  What \<open>makeTickTickRequest\<close> throws for an answer: the message of a rejected \<open>fetch\<close>, the
  status, status text and body of a response that is not \<open>ok\<close>.
\<close>

definition failureText :: "response \<Rightarrow> string option" where
  "failureText r =
     (case r of
        FetchFailed m \<Rightarrow> Some m
      | Response status stText errorText parsed \<Rightarrow>
          if ok status then None
          else Some (''TickTick API error: '' @ showInt (int status) @ '' '' @ stText
                     @ '' - '' @ errorText))"

text \<open>
  \<open>sends n b\<close>: the program \<open>b\<close> sends at most \<open>n\<close> requests, and exactly \<open>n\<close> when it
  returns.
\<close>

inductive sends :: "nat \<Rightarrow> 'a io \<Rightarrow> bool" where
  sends_Return: "sends 0 (Return x)"
| sends_Throw: "sends n (Throw e)"
| sends_Now: "(\<And>t. sends n (k t)) \<Longrightarrow> sends n (Now k)"
| sends_Try: "sends n b \<Longrightarrow> sends n (Try b l)"
| sends_Request: "(\<And>x. sends n (k x)) \<Longrightarrow> sends (Suc n) (Request e m d k)"

text \<open>
  \<open>steady b\<close>: the program \<open>b\<close> sends at most one request, built before anything is read
  from the clock or the upstream.
\<close>

inductive steady :: "'a io \<Rightarrow> bool" where
  steady_Return: "steady (Return x)"
| steady_Throw: "steady (Throw e)"
| steady_Try: "steady b \<Longrightarrow> steady (Try b l)"
| steady_Request: "(\<And>x. sends 0 (k x)) \<Longrightarrow> steady (Request e m d k)"

definition readThenWrite :: "string list" where
  "readThenWrite =
     [''ticktick_add_tag_to_task'',
      ''ticktick_update_habit'',
      ''ticktick_update_tag'',
      ''ticktick_remove_tag_from_task'',
      ''ticktick_delete_task_note'',
      ''ticktick_delete_task_attachment'',
      ''ticktick_delete_task_template'']"

definition clockTools :: "string list" where
  "clockTools =
     [''ticktick_get_today_tasks'',
      ''ticktick_get_overdue_tasks'',
      ''ticktick_get_upcoming_tasks'',
      ''ticktick_create_habit'',
      ''ticktick_checkin_habit'',
      ''ticktick_get_habit_history'',
      ''ticktick_pause_habit'',
      ''ticktick_resume_habit'',
      ''ticktick_bulk_checkin_habits'',
      ''ticktick_get_habit_calendar'',
      ''ticktick_get_habits_summary'',
      ''ticktick_start_focus_session'',
      ''ticktick_stop_focus_session'',
      ''ticktick_pause_focus_session'',
      ''ticktick_resume_focus_session'',
      ''ticktick_set_task_estimate'',
      ''ticktick_get_daily_focus_summary'',
      ''ticktick_set_focus_goals'',
      ''ticktick_get_calendar_view'',
      ''ticktick_get_schedule_conflicts'']"


text \<open>
  \<open>requests ms b\<close>: the HTTP methods of the requests that the program \<open>b\<close> sends are, in
  this order, those of \<open>ms\<close>; a run of \<open>b\<close> sends the first ones of them, and all of them
  when it returns.
\<close>

inductive requests :: "string list \<Rightarrow> 'a io \<Rightarrow> bool" where
  requests_Return: "requests [] (Return x)"
| requests_Throw: "requests ms (Throw e)"
| requests_Now: "(\<And>t. requests ms (k t)) \<Longrightarrow> requests ms (Now k)"
| requests_Try: "requests ms b \<Longrightarrow> requests ms (Try b l)"
| requests_Request: "(\<And>x. requests ms (k x)) \<Longrightarrow> requests (m # ms) (Request e m d k)"

section \<open>Lemmas on runs\<close>

lemma run_destructure_Some [simp]:
  "run cfg p w (destructure (Some a) k) tr = run cfg p w (k a) tr"
  by (simp add: destructure_def)

lemma run_destructure_None [simp]:
  "run cfg p w (destructure None k) tr = (Inl (EngineError ''destructure undefined''), tr)"
  by (simp add: destructure_def)

lemma sent_makeTickTickRequest:
  "sent (snd (makeTickTickRequest cfg w endpoint method data tr))
     = sent tr @ [requestConfig cfg endpoint method data]"
  by (simp add: makeTickTickRequest_def Let_def split: response.split sum.split)

lemma snd_run_Try: "snd (run cfg p w (Try b l) tr) = snd (run cfg p w b tr)"
  by (simp split: prod.split sum.split)

lemma run_lift [simp]:
  "run cfg p w (lift m) tr = (case m of Inl e \<Rightarrow> (Inl e, tr) | Inr x \<Rightarrow> (Inr x, tr))"
  by (simp add: lift_def split: sum.split)

lemma run_orThrow [simp]:
  "run cfg p w (orThrow m k) tr = (case m of Inl e \<Rightarrow> (Inl e, tr) | Inr x \<Rightarrow> run cfg p w (k x) tr)"
  by (simp add: orThrow_def split: sum.split)

lemma makeTickTickRequest_cases:
  "makeTickTickRequest cfg w e m d tr = (r, tr') \<Longrightarrow>
   sent tr' = sent tr @ [requestConfig cfg e m d] \<and> ticks tr' = ticks tr \<and>
   (case failureText (upstream w (sent tr) (requestConfig cfg e m d)) of
      Some text \<Rightarrow> r = Inl (Error text)
    | None \<Rightarrow> True)"
  by (auto simp add: makeTickTickRequest_def Let_def failureText_def split: response.splits sum.splits if_splits)

text \<open>
  A run extends the trace; a request answered with a failure is the last one of the run,
  and the run throws an error whose message ends with the text of the failure.
\<close>

lemma run_failure:
  "run cfg p w b tr = (res, tr') \<Longrightarrow>
   \<exists>reqs. sent tr' = sent tr @ reqs \<and>
     (\<forall>j msg. j < length reqs \<longrightarrow>
        failureText (upstream w (sent tr @ take j reqs) (reqs ! j)) = Some msg \<longrightarrow>
        Suc j = length reqs \<and> (\<exists>e pre. res = Inl e \<and> message p e = pre @ msg))"
proof (induction b arbitrary: tr res tr')
  case (Return x)
  then show ?case by auto
next
  case (Throw e)
  then show ?case by auto
next
  case (Request e m d k)
  obtain r tr1 where mk: "makeTickTickRequest cfg w e m d tr = (r, tr1)"
    by (cases "makeTickTickRequest cfg w e m d tr")
  let ?req = "requestConfig cfg e m d"
  from makeTickTickRequest_cases [OF mk]
  have s: "sent tr1 = sent tr @ [?req]"
    and f: "case failureText (upstream w (sent tr) ?req) of Some msg \<Rightarrow> r = Inl (Error msg) | None \<Rightarrow> True"
    by simp_all
  show ?case
  proof (cases r)
    case (Inl err)
    with mk Request.prems have res: "res = Inl err" "tr' = tr1" by simp_all
    have "\<forall>j msg. j < length [?req] \<longrightarrow>
        failureText (upstream w (sent tr @ take j [?req]) ([?req] ! j)) = Some msg \<longrightarrow>
        Suc j = length [?req] \<and> (\<exists>e pre. res = Inl e \<and> message p e = pre @ msg)"
      using f Inl res by (auto split: option.splits)
    with s res show ?thesis by blast
  next
    case (Inr x)
    with mk Request.prems have run: "run cfg p w (k x) tr1 = (res, tr')" by simp
    from f Inr have nofail: "failureText (upstream w (sent tr) ?req) = None"
      by (auto split: option.splits)
    from Request.IH [OF _ run] obtain reqs where
      ext: "sent tr' = sent tr1 @ reqs" and
      last: "\<forall>j msg. j < length reqs \<longrightarrow>
        failureText (upstream w (sent tr1 @ take j reqs) (reqs ! j)) = Some msg \<longrightarrow>
        Suc j = length reqs \<and> (\<exists>e pre. res = Inl e \<and> message p e = pre @ msg)"
      by blast
    have "\<forall>j msg. j < length (?req # reqs) \<longrightarrow>
        failureText (upstream w (sent tr @ take j (?req # reqs)) ((?req # reqs) ! j)) = Some msg \<longrightarrow>
        Suc j = length (?req # reqs) \<and> (\<exists>e pre. res = Inl e \<and> message p e = pre @ msg)"
    proof (intro allI impI)
      fix j msg
      assume j: "j < length (?req # reqs)"
        and ft: "failureText (upstream w (sent tr @ take j (?req # reqs)) ((?req # reqs) ! j)) = Some msg"
      show "Suc j = length (?req # reqs) \<and> (\<exists>e pre. res = Inl e \<and> message p e = pre @ msg)"
      proof (cases j)
        case 0
        with ft nofail show ?thesis by simp
      next
        case (Suc i)
        with j ft s last show ?thesis by simp
      qed
    qed
    with ext s show ?thesis by (intro exI [of _ "?req # reqs"]) simp
  qed
next
  case (Now k)
  from Now.prems have "run cfg p w (k (clock w (ticks tr))) (tr\<lparr>ticks := Suc (ticks tr)\<rparr>) = (res, tr')"
    by simp
  from Now.IH [OF _ this] show ?case by simp
next
  case (Try b l)
  obtain r tr1 where rb: "run cfg p w b tr = (r, tr1)" by (cases "run cfg p w b tr")
  from Try.IH [OF rb] obtain reqs where
      ext: "sent tr1 = sent tr @ reqs" and
      last: "\<forall>j msg. j < length reqs \<longrightarrow>
        failureText (upstream w (sent tr @ take j reqs) (reqs ! j)) = Some msg \<longrightarrow>
        Suc j = length reqs \<and> (\<exists>e pre. r = Inl e \<and> message p e = pre @ msg)"
    by blast
  show ?case
  proof (cases r)
    case (Inl e)
    with rb Try.prems have res: "res = Inl (Error (l @ '': '' @ message p e))" "tr' = tr1" by simp_all
    have "\<forall>j msg. j < length reqs \<longrightarrow>
        failureText (upstream w (sent tr @ take j reqs) (reqs ! j)) = Some msg \<longrightarrow>
        Suc j = length reqs \<and> (\<exists>e pre. res = Inl e \<and> message p e = pre @ msg)"
    proof (intro allI impI)
      fix j msg
      assume "j < length reqs" "failureText (upstream w (sent tr @ take j reqs) (reqs ! j)) = Some msg"
      with last Inl obtain pre where "Suc j = length reqs" "message p e = pre @ msg" by auto
      then show "Suc j = length reqs \<and> (\<exists>e pre. res = Inl e \<and> message p e = pre @ msg)"
        using res by (auto intro: exI [of _ "l @ '': '' @ pre"])
    qed
    with ext res show ?thesis by blast
  next
    case (Inr x)
    with rb Try.prems have "res = Inr x" "tr' = tr1" by simp_all
    with last ext Inr show ?thesis by auto
  qed
qed

lemma sends_run:
  "sends n b \<Longrightarrow> run cfg p w b tr = (res, tr') \<Longrightarrow>
   length (sent tr') \<le> length (sent tr) + n \<and>
   (\<forall>x. res = Inr x \<longrightarrow> length (sent tr') = length (sent tr) + n)"
proof (induction n b arbitrary: tr res tr' rule: sends.induct)
  case (sends_Request n k e m d)
  obtain r tr1 where mk: "makeTickTickRequest cfg w e m d tr = (r, tr1)"
    by (cases "makeTickTickRequest cfg w e m d tr")
  from makeTickTickRequest_cases [OF mk] have s: "length (sent tr1) = Suc (length (sent tr))" by simp
  show ?case
  proof (cases r)
    case (Inl err)
    with mk sends_Request.prems s show ?thesis by auto
  next
    case (Inr x)
    with mk sends_Request.prems have "run cfg p w (k x) tr1 = (res, tr')" by simp
    from sends_Request.IH [OF this] s show ?thesis by simp
  qed
next
  case (sends_Try n b l)
  obtain r tr1 where rb: "run cfg p w b tr = (r, tr1)" by (cases "run cfg p w b tr")
  from sends_Try.IH [OF rb] rb sends_Try.prems show ?case by (cases r) auto
next
  case (sends_Now n k)
  from sends_Now.prems
  have "run cfg p w (k (clock w (ticks tr))) (tr\<lparr>ticks := Suc (ticks tr)\<rparr>) = (res, tr')" by simp
  from sends_Now.IH [OF this] show ?case by simp
qed auto

lemma sends_lift: "sends 0 (lift m)"
  by (cases m) (simp_all add: lift_def sends.intros)

lemma sends_assembled: "sends 0 (assembled p name vs)"
  unfolding assembled_def by (simp add: sends.intros split: sum.split)

lemma sends_assembling: "sends 0 (assembling f)"
  by (induction f) (simp_all add: sends.intros split: sum.split)

lemma sends_rendered: "sends 0 (rendered p name vs)"
  unfolding rendered_def by (rule sends_assembling)

lemma sends_orThrow: "(\<And>x. sends n (k x)) \<Longrightarrow> sends n (orThrow m k)"
  by (cases m) (simp_all add: orThrow_def sends.intros)

lemma sends_destructure: "(\<And>a. sends n (k a)) \<Longrightarrow> sends n (destructure args k)"
  by (cases args) (simp_all add: destructure_def sends.intros)

lemma sends_if: "sends n a \<Longrightarrow> sends n b \<Longrightarrow> sends n (if c then a else b)"
  by simp

lemma sends_dateOrToday: "(\<And>x. sends n (k x)) \<Longrightarrow> sends n (dateOrToday d k)"
  by (simp add: dateOrToday_def sends.intros)

lemma sends_dateOrNextWeek: "(\<And>x. sends n (k x)) \<Longrightarrow> sends n (dateOrNextWeek d k)"
  by (simp add: dateOrNextWeek_def sends.intros sends_orThrow)

lemmas sends_intros =
  sends.intros sends_lift sends_assembled sends_rendered sends_orThrow sends_destructure sends_if
  sends_dateOrToday sends_dateOrNextWeek

lemma sends_0_run:
  assumes "sends 0 b"
  shows "sent (snd (run cfg p w b tr)) = sent tr"
proof -
  obtain res tr' where r: "run cfg p w b tr = (res, tr')" by (cases "run cfg p w b tr")
  from sends_run [OF assms r] have "length (sent tr') \<le> length (sent tr)" by simp
  moreover from run_failure [OF r] obtain reqs where "sent tr' = sent tr @ reqs" by auto
  ultimately show ?thesis using r by simp
qed

lemma sent_run_Request:
  assumes "\<And>x. sends 0 (k x)"
  shows "sent (snd (run cfg p w (Request e m d k) tr)) = sent tr @ [requestConfig cfg e m d]"
proof -
  obtain r tr1 where mk: "makeTickTickRequest cfg w e m d tr = (r, tr1)"
    by (cases "makeTickTickRequest cfg w e m d tr")
  from makeTickTickRequest_cases [OF mk] have s: "sent tr1 = sent tr @ [requestConfig cfg e m d]" by simp
  show ?thesis
    using mk s sends_0_run [OF assms, where cfg = cfg and p = p and w = w and tr = tr1]
    by (cases r) simp_all
qed

lemma steady_run:
  "steady b \<Longrightarrow> \<exists>reqs. \<forall>w tr. sent (snd (run cfg p w b tr)) = sent tr @ reqs"
proof (induction b rule: steady.induct)
  case (steady_Request k e m d)
  have "\<forall>w tr. sent (snd (run cfg p w (Request e m d k) tr)) = sent tr @ [requestConfig cfg e m d]"
  proof (intro allI)
    fix w tr
    obtain r tr1 where mk: "makeTickTickRequest cfg w e m d tr = (r, tr1)"
      by (cases "makeTickTickRequest cfg w e m d tr")
    from makeTickTickRequest_cases [OF mk] have s: "sent tr1 = sent tr @ [requestConfig cfg e m d]" by simp
    show "sent (snd (run cfg p w (Request e m d k) tr)) = sent tr @ [requestConfig cfg e m d]"
      using mk s sends_0_run [OF steady_Request.hyps, where cfg = cfg and p = p and w = w and tr = tr1]
      by (cases r) simp_all
  qed
  then show ?case by blast
next
  case (steady_Try b l)
  then obtain reqs where "\<forall>w tr. sent (snd (run cfg p w b tr)) = sent tr @ reqs" by blast
  then have "\<forall>w tr. sent (snd (run cfg p w (Try b l) tr)) = sent tr @ reqs"
    by (simp only: snd_run_Try) simp
  then show ?case by blast
qed (auto intro: exI [of _ "[]"])

lemma steady_orThrow: "(\<And>x. steady (k x)) \<Longrightarrow> steady (orThrow m k)"
  by (cases m) (simp_all add: orThrow_def steady.intros)

lemma steady_destructure: "(\<And>a. steady (k a)) \<Longrightarrow> steady (destructure args k)"
  by (cases args) (simp_all add: destructure_def steady.intros)

lemma steady_if: "steady a \<Longrightarrow> steady b \<Longrightarrow> steady (if c then a else b)"
  by simp

lemmas steady_intros =
  steady.intros steady_orThrow steady_destructure steady_if sends_intros

section \<open>Lemmas on the tool methods\<close>

lemma sends_getProjects: "sends (Suc 0) (getProjects p args)"
  unfolding getProjects_def Let_def by (intro sends_intros)

lemma sends_createProject: "sends (Suc 0) (createProject p args)"
  unfolding createProject_def Let_def by (intro sends_intros)

lemma sends_getTasks: "sends (Suc 0) (getTasks p args)"
  unfolding getTasks_def Let_def by (intro sends_intros)

lemma sends_createTask: "sends (Suc 0) (createTask p args)"
  unfolding createTask_def Let_def by (intro sends_intros)

lemma sends_updateTask: "sends (Suc 0) (updateTask p args)"
  unfolding updateTask_def Let_def by (intro sends_intros)

lemma sends_deleteTask: "sends (Suc 0) (deleteTask p args)"
  unfolding deleteTask_def Let_def by (intro sends_intros)

lemma sends_completeTask: "sends (Suc 0) (completeTask p args)"
  unfolding completeTask_def Let_def by (intro sends_intros)

lemma sends_getTaskDetails: "sends (Suc 0) (getTaskDetails p args)"
  unfolding getTaskDetails_def Let_def by (intro sends_intros)

lemma sends_filterTasks: "sends (Suc 0) (filterTasks p args)"
  unfolding filterTasks_def Let_def by (intro sends_intros)

lemma sends_convertDatetimeToTicktickFormat: "sends (0) (convertDatetimeToTicktickFormat p args)"
  unfolding convertDatetimeToTicktickFormat_def Let_def by (intro sends_intros)

lemma sends_getTags: "sends (Suc 0) (getTags p args)"
  unfolding getTags_def Let_def by (intro sends_intros)

lemma sends_createTag: "sends (Suc 0) (createTag p args)"
  unfolding createTag_def Let_def by (intro sends_intros)

lemma sends_searchTasks: "sends (Suc 0) (searchTasks p args)"
  unfolding searchTasks_def Let_def by (intro sends_intros)

lemma sends_getTodayTasks: "sends (Suc 0) (getTodayTasks p args)"
  unfolding getTodayTasks_def Let_def by (intro sends_intros)

lemma sends_getOverdueTasks: "sends (Suc 0) (getOverdueTasks p args)"
  unfolding getOverdueTasks_def Let_def by (intro sends_intros)

lemma sends_getUpcomingTasks: "sends (Suc 0) (getUpcomingTasks p args)"
  unfolding getUpcomingTasks_def Let_def by (intro sends_intros)

lemma sends_addTagToTask: "sends (Suc (Suc 0)) (addTagToTask p args)"
  unfolding addTagToTask_def Let_def by (intro sends_intros)

lemma sends_getUserProfile: "sends (Suc 0) (getUserProfile p args)"
  unfolding getUserProfile_def Let_def by (intro sends_intros)

lemma sends_getHabits: "sends (Suc 0) (getHabits p args)"
  unfolding getHabits_def Let_def by (intro sends_intros)

lemma sends_createHabit: "sends (Suc 0) (createHabit p args)"
  unfolding createHabit_def Let_def by (intro sends_intros)

lemma sends_updateHabit: "sends (Suc (Suc 0)) (updateHabit p args)"
  unfolding updateHabit_def Let_def by (intro sends_intros)

lemma sends_deleteHabit: "sends (Suc 0) (deleteHabit p args)"
  unfolding deleteHabit_def Let_def by (intro sends_intros)

lemma sends_checkinHabit: "sends (Suc 0) (checkinHabit p args)"
  unfolding checkinHabit_def Let_def by (intro sends_intros)

lemma sends_getHabitHistory: "sends (Suc 0) (getHabitHistory p args)"
  unfolding getHabitHistory_def Let_def by (intro sends_intros)

lemma sends_getHabitStats: "sends (Suc 0) (getHabitStats p args)"
  unfolding getHabitStats_def Let_def by (intro sends_intros)

lemma sends_pauseHabit: "sends (Suc 0) (pauseHabit p args)"
  unfolding pauseHabit_def Let_def by (intro sends_intros)

lemma sends_resumeHabit: "sends (Suc 0) (resumeHabit p args)"
  unfolding resumeHabit_def Let_def by (intro sends_intros)

lemma sends_getHabitStreaks: "sends (Suc 0) (getHabitStreaks p args)"
  unfolding getHabitStreaks_def Let_def by (intro sends_intros)

lemma sends_bulkCheckinHabits: "sends (Suc 0) (bulkCheckinHabits p args)"
  unfolding bulkCheckinHabits_def Let_def by (intro sends_intros)

lemma sends_getHabitCalendar: "sends (Suc 0) (getHabitCalendar p args)"
  unfolding getHabitCalendar_def Let_def by (intro sends_intros)

lemma sends_setHabitGoal: "sends (Suc 0) (setHabitGoal p args)"
  unfolding setHabitGoal_def Let_def by (intro sends_intros)

lemma sends_getHabitsSummary: "sends (Suc 0) (getHabitsSummary p args)"
  unfolding getHabitsSummary_def Let_def by (intro sends_intros)

lemma sends_exportHabitData: "sends (Suc 0) (exportHabitData p args)"
  unfolding exportHabitData_def Let_def by (intro sends_intros)

lemma sends_updateTag: "sends (Suc (Suc 0)) (updateTag p args)"
  unfolding updateTag_def Let_def by (intro sends_intros)

lemma sends_deleteTag: "sends (Suc 0) (deleteTag p args)"
  unfolding deleteTag_def Let_def by (intro sends_intros)

lemma sends_removeTagFromTask: "sends (Suc (Suc 0)) (removeTagFromTask p args)"
  unfolding removeTagFromTask_def Let_def by (intro sends_intros)

lemma sends_getTasksByTag: "sends (Suc 0) (getTasksByTag p args)"
  unfolding getTasksByTag_def Let_def by (intro sends_intros)

lemma sends_getTagUsageStats: "sends (Suc 0) (getTagUsageStats p args)"
  unfolding getTagUsageStats_def Let_def by (intro sends_intros)

lemma sends_mergeTags: "sends (Suc 0) (mergeTags p args)"
  unfolding mergeTags_def Let_def by (intro sends_intros)

lemma sends_bulkTagOperations: "sends (Suc 0) (bulkTagOperations p args)"
  unfolding bulkTagOperations_def Let_def by (intro sends_intros)

lemma sends_startFocusSession: "sends (Suc 0) (startFocusSession p args)"
  unfolding startFocusSession_def Let_def by (intro sends_intros)

lemma sends_stopFocusSession: "sends (Suc 0) (stopFocusSession p args)"
  unfolding stopFocusSession_def Let_def by (intro sends_intros)

lemma sends_pauseFocusSession: "sends (Suc 0) (pauseFocusSession p args)"
  unfolding pauseFocusSession_def Let_def by (intro sends_intros)

lemma sends_resumeFocusSession: "sends (Suc 0) (resumeFocusSession p args)"
  unfolding resumeFocusSession_def Let_def by (intro sends_intros)

lemma sends_getFocusStats: "sends (Suc 0) (getFocusStats p args)"
  unfolding getFocusStats_def Let_def by (intro sends_intros)

lemma sends_setTaskEstimate: "sends (Suc 0) (setTaskEstimate p args)"
  unfolding setTaskEstimate_def Let_def by (intro sends_intros)

lemma sends_getDailyFocusSummary: "sends (Suc 0) (getDailyFocusSummary p args)"
  unfolding getDailyFocusSummary_def Let_def by (intro sends_intros)

lemma sends_getFocusHistory: "sends (Suc 0) (getFocusHistory p args)"
  unfolding getFocusHistory_def Let_def by (intro sends_intros)

lemma sends_setFocusGoals: "sends (Suc 0) (setFocusGoals p args)"
  unfolding setFocusGoals_def Let_def by (intro sends_intros)

lemma sends_getProductivityInsights: "sends (Suc 0) (getProductivityInsights p args)"
  unfolding getProductivityInsights_def Let_def by (intro sends_intros)

lemma sends_getProjectFolders: "sends (Suc 0) (getProjectFolders p args)"
  unfolding getProjectFolders_def Let_def by (intro sends_intros)

lemma sends_createProjectFolder: "sends (Suc 0) (createProjectFolder p args)"
  unfolding createProjectFolder_def Let_def by (intro sends_intros)

lemma sends_moveProjectToFolder: "sends (Suc 0) (moveProjectToFolder p args)"
  unfolding moveProjectToFolder_def Let_def by (intro sends_intros)

lemma sends_archiveProject: "sends (Suc 0) (archiveProject p args)"
  unfolding archiveProject_def Let_def by (intro sends_intros)

lemma sends_unarchiveProject: "sends (Suc 0) (unarchiveProject p args)"
  unfolding unarchiveProject_def Let_def by (intro sends_intros)

lemma sends_duplicateProject: "sends (Suc 0) (duplicateProject p args)"
  unfolding duplicateProject_def Let_def by (intro sends_intros)

lemma sends_getProjectStats: "sends (Suc 0) (getProjectStats p args)"
  unfolding getProjectStats_def Let_def by (intro sends_intros)

lemma sends_setProjectColor: "sends (Suc 0) (setProjectColor p args)"
  unfolding setProjectColor_def Let_def by (intro sends_intros)

lemma sends_reorderProjects: "sends (Suc 0) (reorderProjects p args)"
  unfolding reorderProjects_def Let_def by (intro sends_intros)

lemma sends_getProjectTemplates: "sends (Suc 0) (getProjectTemplates p args)"
  unfolding getProjectTemplates_def Let_def by (intro sends_intros)

lemma sends_createProjectFromTemplate: "sends (Suc 0) (createProjectFromTemplate p args)"
  unfolding createProjectFromTemplate_def Let_def by (intro sends_intros)

lemma sends_exportProject: "sends (Suc 0) (exportProject p args)"
  unfolding exportProject_def Let_def by (intro sends_intros)

lemma sends_shareProject: "sends (Suc 0) (shareProject p args)"
  unfolding shareProject_def Let_def by (intro sends_intros)

lemma sends_getSharedProjects: "sends (Suc 0) (getSharedProjects p args)"
  unfolding getSharedProjects_def Let_def by (intro sends_intros)

lemma sends_inviteCollaborator: "sends (Suc 0) (inviteCollaborator p args)"
  unfolding inviteCollaborator_def Let_def by (intro sends_intros)

lemma sends_removeCollaborator: "sends (Suc 0) (removeCollaborator p args)"
  unfolding removeCollaborator_def Let_def by (intro sends_intros)

lemma sends_assignTask: "sends (Suc 0) (assignTask p args)"
  unfolding assignTask_def Let_def by (intro sends_intros)

lemma sends_getTaskAssignees: "sends (Suc 0) (getTaskAssignees p args)"
  unfolding getTaskAssignees_def Let_def by (intro sends_intros)

lemma sends_addTaskComment: "sends (Suc 0) (addTaskComment p args)"
  unfolding addTaskComment_def Let_def by (intro sends_intros)

lemma sends_getTeamActivity: "sends (Suc 0) (getTeamActivity p args)"
  unfolding getTeamActivity_def Let_def by (intro sends_intros)

lemma sends_setProjectPermissions: "sends (Suc 0) (setProjectPermissions p args)"
  unfolding setProjectPermissions_def Let_def by (intro sends_intros)

lemma sends_getCollaborationStats: "sends (Suc 0) (getCollaborationStats p args)"
  unfolding getCollaborationStats_def Let_def by (intro sends_intros)

lemma sends_bulkAssignTasks: "sends (Suc 0) (bulkAssignTasks p args)"
  unfolding bulkAssignTasks_def Let_def by (intro sends_intros)

lemma sends_exportTeamReport: "sends (Suc 0) (exportTeamReport p args)"
  unfolding exportTeamReport_def Let_def by (intro sends_intros)

lemma sends_getCalendarEvents: "sends (Suc 0) (getCalendarEvents p args)"
  unfolding getCalendarEvents_def Let_def by (intro sends_intros)

lemma sends_createCalendarEvent: "sends (Suc 0) (createCalendarEvent p args)"
  unfolding createCalendarEvent_def Let_def by (intro sends_intros)

lemma sends_syncWithGoogleCalendar: "sends (Suc 0) (syncWithGoogleCalendar p args)"
  unfolding syncWithGoogleCalendar_def Let_def by (intro sends_intros)

lemma sends_syncWithOutlook: "sends (Suc 0) (syncWithOutlook p args)"
  unfolding syncWithOutlook_def Let_def by (intro sends_intros)

lemma sends_getCalendarView: "sends (Suc 0) (getCalendarView p args)"
  unfolding getCalendarView_def Let_def by (intro sends_intros)

lemma sends_convertTaskToEvent: "sends (Suc 0) (convertTaskToEvent p args)"
  unfolding convertTaskToEvent_def Let_def by (intro sends_intros)

lemma sends_getScheduleConflicts: "sends (Suc 0) (getScheduleConflicts p args)"
  unfolding getScheduleConflicts_def Let_def by (intro sends_intros)

lemma sends_bulkCalendarImport: "sends (Suc 0) (bulkCalendarImport p args)"
  unfolding bulkCalendarImport_def Let_def by (intro sends_intros)

lemma sends_getTaskNotes: "sends (Suc 0) (getTaskNotes p args)"
  unfolding getTaskNotes_def Let_def by (intro sends_intros)

lemma sends_addTaskNote: "sends (Suc 0) (addTaskNote p args)"
  unfolding addTaskNote_def Let_def by (intro sends_intros)

lemma sends_updateTaskNote: "sends (Suc 0) (updateTaskNote p args)"
  unfolding updateTaskNote_def Let_def by (intro sends_intros)

lemma sends_deleteTaskNote: "sends (Suc (Suc 0)) (deleteTaskNote p args)"
  unfolding deleteTaskNote_def Let_def by (intro sends_intros)

lemma sends_uploadTaskAttachment: "sends (Suc 0) (uploadTaskAttachment p args)"
  unfolding uploadTaskAttachment_def Let_def by (intro sends_intros)

lemma sends_getTaskAttachments: "sends (Suc 0) (getTaskAttachments p args)"
  unfolding getTaskAttachments_def Let_def by (intro sends_intros)

lemma sends_downloadTaskAttachment: "sends (Suc 0) (downloadTaskAttachment p args)"
  unfolding downloadTaskAttachment_def Let_def by (intro sends_intros)

lemma sends_deleteTaskAttachment: "sends (Suc (Suc 0)) (deleteTaskAttachment p args)"
  unfolding deleteTaskAttachment_def Let_def by (intro sends_intros)

lemma sends_getTaskTemplates: "sends (Suc 0) (getTaskTemplates p args)"
  unfolding getTaskTemplates_def Let_def by (intro sends_intros)

lemma sends_createTaskTemplate: "sends (Suc 0) (createTaskTemplate p args)"
  unfolding createTaskTemplate_def Let_def by (intro sends_intros)

lemma sends_updateTaskTemplate: "sends (Suc 0) (updateTaskTemplate p args)"
  unfolding updateTaskTemplate_def Let_def by (intro sends_intros)

lemma sends_deleteTaskTemplate: "sends (Suc (Suc 0)) (deleteTaskTemplate p args)"
  unfolding deleteTaskTemplate_def Let_def by (intro sends_intros)

lemma sends_createTaskFromTemplate: "sends (Suc 0) (createTaskFromTemplate p args)"
  unfolding createTaskFromTemplate_def Let_def by (intro sends_intros)

lemma sends_setRecurringTask: "sends (Suc 0) (setRecurringTask p args)"
  unfolding setRecurringTask_def Let_def by (intro sends_intros)

lemma sends_getRecurringTasks: "sends (Suc 0) (getRecurringTasks p args)"
  unfolding getRecurringTasks_def Let_def by (intro sends_intros)

lemma sends_pauseRecurringTask: "sends (Suc 0) (pauseRecurringTask p args)"
  unfolding pauseRecurringTask_def Let_def by (intro sends_intros)

lemma sends_bulkCreateFromTemplate: "sends (Suc 0) (bulkCreateFromTemplate p args)"
  unfolding bulkCreateFromTemplate_def Let_def by (intro sends_intros)

lemma sends_getProductivityReport: "sends (Suc 0) (getProductivityReport p args)"
  unfolding getProductivityReport_def Let_def by (intro sends_intros)

lemma sends_getCompletionTrends: "sends (Suc 0) (getCompletionTrends p args)"
  unfolding getCompletionTrends_def Let_def by (intro sends_intros)

lemma sends_getTimeTrackingReport: "sends (Suc 0) (getTimeTrackingReport p args)"
  unfolding getTimeTrackingReport_def Let_def by (intro sends_intros)

lemma sends_getGoalProgress: "sends (Suc 0) (getGoalProgress p args)"
  unfolding getGoalProgress_def Let_def by (intro sends_intros)

lemma sends_exportAnalyticsData: "sends (Suc 0) (exportAnalyticsData p args)"
  unfolding exportAnalyticsData_def Let_def by (intro sends_intros)

lemma sends_getWeeklySummary: "sends (Suc 0) (getWeeklySummary p args)"
  unfolding getWeeklySummary_def Let_def by (intro sends_intros)

lemma sends_getMonthlyInsights: "sends (Suc 0) (getMonthlyInsights p args)"
  unfolding getMonthlyInsights_def Let_def by (intro sends_intros)

lemma sends_updateUserSettings: "sends (Suc 0) (updateUserSettings p args)"
  unfolding updateUserSettings_def Let_def by (intro sends_intros)

lemma sends_getNotificationSettings: "sends (Suc 0) (getNotificationSettings p args)"
  unfolding getNotificationSettings_def Let_def by (intro sends_intros)

lemma sends_updateNotificationSettings: "sends (Suc 0) (updateNotificationSettings p args)"
  unfolding updateNotificationSettings_def Let_def by (intro sends_intros)

lemma sends_getSyncSettings: "sends (Suc 0) (getSyncSettings p args)"
  unfolding getSyncSettings_def Let_def by (intro sends_intros)

lemma sends_updateSyncSettings: "sends (Suc 0) (updateSyncSettings p args)"
  unfolding updateSyncSettings_def Let_def by (intro sends_intros)

lemma sends_resetUserData: "sends (Suc 0) (resetUserData p args)"
  unfolding resetUserData_def Let_def by (intro sends_intros)

lemma steady_getProjects: "steady (getProjects p args)"
  unfolding getProjects_def Let_def by (intro steady_intros)

lemma steady_createProject: "steady (createProject p args)"
  unfolding createProject_def Let_def by (intro steady_intros)

lemma steady_getTasks: "steady (getTasks p args)"
  unfolding getTasks_def Let_def by (intro steady_intros)

lemma steady_createTask: "steady (createTask p args)"
  unfolding createTask_def Let_def by (intro steady_intros)

lemma steady_updateTask: "steady (updateTask p args)"
  unfolding updateTask_def Let_def by (intro steady_intros)

lemma steady_deleteTask: "steady (deleteTask p args)"
  unfolding deleteTask_def Let_def by (intro steady_intros)

lemma steady_completeTask: "steady (completeTask p args)"
  unfolding completeTask_def Let_def by (intro steady_intros)

lemma steady_getTaskDetails: "steady (getTaskDetails p args)"
  unfolding getTaskDetails_def Let_def by (intro steady_intros)

lemma steady_filterTasks: "steady (filterTasks p args)"
  unfolding filterTasks_def Let_def by (intro steady_intros)

lemma steady_getTags: "steady (getTags p args)"
  unfolding getTags_def Let_def by (intro steady_intros)

lemma steady_createTag: "steady (createTag p args)"
  unfolding createTag_def Let_def by (intro steady_intros)

lemma steady_searchTasks: "steady (searchTasks p args)"
  unfolding searchTasks_def Let_def by (intro steady_intros)

lemma steady_getUserProfile: "steady (getUserProfile p args)"
  unfolding getUserProfile_def Let_def by (intro steady_intros)

lemma steady_getHabits: "steady (getHabits p args)"
  unfolding getHabits_def Let_def by (intro steady_intros)

lemma steady_deleteHabit: "steady (deleteHabit p args)"
  unfolding deleteHabit_def Let_def by (intro steady_intros)

lemma steady_getHabitStats: "steady (getHabitStats p args)"
  unfolding getHabitStats_def Let_def by (intro steady_intros)

lemma steady_getHabitStreaks: "steady (getHabitStreaks p args)"
  unfolding getHabitStreaks_def Let_def by (intro steady_intros)

lemma steady_setHabitGoal: "steady (setHabitGoal p args)"
  unfolding setHabitGoal_def Let_def by (intro steady_intros)

lemma steady_exportHabitData: "steady (exportHabitData p args)"
  unfolding exportHabitData_def Let_def by (intro steady_intros)

lemma steady_deleteTag: "steady (deleteTag p args)"
  unfolding deleteTag_def Let_def by (intro steady_intros)

lemma steady_getTasksByTag: "steady (getTasksByTag p args)"
  unfolding getTasksByTag_def Let_def by (intro steady_intros)

lemma steady_getTagUsageStats: "steady (getTagUsageStats p args)"
  unfolding getTagUsageStats_def Let_def by (intro steady_intros)

lemma steady_mergeTags: "steady (mergeTags p args)"
  unfolding mergeTags_def Let_def by (intro steady_intros)

lemma steady_bulkTagOperations: "steady (bulkTagOperations p args)"
  unfolding bulkTagOperations_def Let_def by (intro steady_intros)

lemma steady_getFocusStats: "steady (getFocusStats p args)"
  unfolding getFocusStats_def Let_def by (intro steady_intros)

lemma steady_getFocusHistory: "steady (getFocusHistory p args)"
  unfolding getFocusHistory_def Let_def by (intro steady_intros)

lemma steady_getProductivityInsights: "steady (getProductivityInsights p args)"
  unfolding getProductivityInsights_def Let_def by (intro steady_intros)

lemma steady_getProjectFolders: "steady (getProjectFolders p args)"
  unfolding getProjectFolders_def Let_def by (intro steady_intros)

lemma steady_createProjectFolder: "steady (createProjectFolder p args)"
  unfolding createProjectFolder_def Let_def by (intro steady_intros)

lemma steady_moveProjectToFolder: "steady (moveProjectToFolder p args)"
  unfolding moveProjectToFolder_def Let_def by (intro steady_intros)

lemma steady_archiveProject: "steady (archiveProject p args)"
  unfolding archiveProject_def Let_def by (intro steady_intros)

lemma steady_unarchiveProject: "steady (unarchiveProject p args)"
  unfolding unarchiveProject_def Let_def by (intro steady_intros)

lemma steady_duplicateProject: "steady (duplicateProject p args)"
  unfolding duplicateProject_def Let_def by (intro steady_intros)

lemma steady_getProjectStats: "steady (getProjectStats p args)"
  unfolding getProjectStats_def Let_def by (intro steady_intros)

lemma steady_setProjectColor: "steady (setProjectColor p args)"
  unfolding setProjectColor_def Let_def by (intro steady_intros)

lemma steady_reorderProjects: "steady (reorderProjects p args)"
  unfolding reorderProjects_def Let_def by (intro steady_intros)

lemma steady_getProjectTemplates: "steady (getProjectTemplates p args)"
  unfolding getProjectTemplates_def Let_def by (intro steady_intros)

lemma steady_createProjectFromTemplate: "steady (createProjectFromTemplate p args)"
  unfolding createProjectFromTemplate_def Let_def by (intro steady_intros)

lemma steady_exportProject: "steady (exportProject p args)"
  unfolding exportProject_def Let_def by (intro steady_intros)

lemma steady_shareProject: "steady (shareProject p args)"
  unfolding shareProject_def Let_def by (intro steady_intros)

lemma steady_getSharedProjects: "steady (getSharedProjects p args)"
  unfolding getSharedProjects_def Let_def by (intro steady_intros)

lemma steady_inviteCollaborator: "steady (inviteCollaborator p args)"
  unfolding inviteCollaborator_def Let_def by (intro steady_intros)

lemma steady_removeCollaborator: "steady (removeCollaborator p args)"
  unfolding removeCollaborator_def Let_def by (intro steady_intros)

lemma steady_assignTask: "steady (assignTask p args)"
  unfolding assignTask_def Let_def by (intro steady_intros)

lemma steady_getTaskAssignees: "steady (getTaskAssignees p args)"
  unfolding getTaskAssignees_def Let_def by (intro steady_intros)

lemma steady_addTaskComment: "steady (addTaskComment p args)"
  unfolding addTaskComment_def Let_def by (intro steady_intros)

lemma steady_getTeamActivity: "steady (getTeamActivity p args)"
  unfolding getTeamActivity_def Let_def by (intro steady_intros)

lemma steady_setProjectPermissions: "steady (setProjectPermissions p args)"
  unfolding setProjectPermissions_def Let_def by (intro steady_intros)

lemma steady_getCollaborationStats: "steady (getCollaborationStats p args)"
  unfolding getCollaborationStats_def Let_def by (intro steady_intros)

lemma steady_bulkAssignTasks: "steady (bulkAssignTasks p args)"
  unfolding bulkAssignTasks_def Let_def by (intro steady_intros)

lemma steady_exportTeamReport: "steady (exportTeamReport p args)"
  unfolding exportTeamReport_def Let_def by (intro steady_intros)

lemma steady_getCalendarEvents: "steady (getCalendarEvents p args)"
  unfolding getCalendarEvents_def Let_def by (intro steady_intros)

lemma steady_createCalendarEvent: "steady (createCalendarEvent p args)"
  unfolding createCalendarEvent_def Let_def by (intro steady_intros)

lemma steady_syncWithGoogleCalendar: "steady (syncWithGoogleCalendar p args)"
  unfolding syncWithGoogleCalendar_def Let_def by (intro steady_intros)

lemma steady_syncWithOutlook: "steady (syncWithOutlook p args)"
  unfolding syncWithOutlook_def Let_def by (intro steady_intros)

lemma steady_convertTaskToEvent: "steady (convertTaskToEvent p args)"
  unfolding convertTaskToEvent_def Let_def by (intro steady_intros)

lemma steady_bulkCalendarImport: "steady (bulkCalendarImport p args)"
  unfolding bulkCalendarImport_def Let_def by (intro steady_intros)

lemma steady_getTaskNotes: "steady (getTaskNotes p args)"
  unfolding getTaskNotes_def Let_def by (intro steady_intros)

lemma steady_addTaskNote: "steady (addTaskNote p args)"
  unfolding addTaskNote_def Let_def by (intro steady_intros)

lemma steady_updateTaskNote: "steady (updateTaskNote p args)"
  unfolding updateTaskNote_def Let_def by (intro steady_intros)

lemma steady_uploadTaskAttachment: "steady (uploadTaskAttachment p args)"
  unfolding uploadTaskAttachment_def Let_def by (intro steady_intros)

lemma steady_getTaskAttachments: "steady (getTaskAttachments p args)"
  unfolding getTaskAttachments_def Let_def by (intro steady_intros)

lemma steady_downloadTaskAttachment: "steady (downloadTaskAttachment p args)"
  unfolding downloadTaskAttachment_def Let_def by (intro steady_intros)

lemma steady_getTaskTemplates: "steady (getTaskTemplates p args)"
  unfolding getTaskTemplates_def Let_def by (intro steady_intros)

lemma steady_createTaskTemplate: "steady (createTaskTemplate p args)"
  unfolding createTaskTemplate_def Let_def by (intro steady_intros)

lemma steady_updateTaskTemplate: "steady (updateTaskTemplate p args)"
  unfolding updateTaskTemplate_def Let_def by (intro steady_intros)

lemma steady_createTaskFromTemplate: "steady (createTaskFromTemplate p args)"
  unfolding createTaskFromTemplate_def Let_def by (intro steady_intros)

lemma steady_setRecurringTask: "steady (setRecurringTask p args)"
  unfolding setRecurringTask_def Let_def by (intro steady_intros)

lemma steady_getRecurringTasks: "steady (getRecurringTasks p args)"
  unfolding getRecurringTasks_def Let_def by (intro steady_intros)

lemma steady_pauseRecurringTask: "steady (pauseRecurringTask p args)"
  unfolding pauseRecurringTask_def Let_def by (intro steady_intros)

lemma steady_bulkCreateFromTemplate: "steady (bulkCreateFromTemplate p args)"
  unfolding bulkCreateFromTemplate_def Let_def by (intro steady_intros)

lemma steady_getProductivityReport: "steady (getProductivityReport p args)"
  unfolding getProductivityReport_def Let_def by (intro steady_intros)

lemma steady_getCompletionTrends: "steady (getCompletionTrends p args)"
  unfolding getCompletionTrends_def Let_def by (intro steady_intros)

lemma steady_getTimeTrackingReport: "steady (getTimeTrackingReport p args)"
  unfolding getTimeTrackingReport_def Let_def by (intro steady_intros)

lemma steady_getGoalProgress: "steady (getGoalProgress p args)"
  unfolding getGoalProgress_def Let_def by (intro steady_intros)

lemma steady_exportAnalyticsData: "steady (exportAnalyticsData p args)"
  unfolding exportAnalyticsData_def Let_def by (intro steady_intros)

lemma steady_getWeeklySummary: "steady (getWeeklySummary p args)"
  unfolding getWeeklySummary_def Let_def by (intro steady_intros)

lemma steady_getMonthlyInsights: "steady (getMonthlyInsights p args)"
  unfolding getMonthlyInsights_def Let_def by (intro steady_intros)

lemma steady_updateUserSettings: "steady (updateUserSettings p args)"
  unfolding updateUserSettings_def Let_def by (intro steady_intros)

lemma steady_getNotificationSettings: "steady (getNotificationSettings p args)"
  unfolding getNotificationSettings_def Let_def by (intro steady_intros)

lemma steady_updateNotificationSettings: "steady (updateNotificationSettings p args)"
  unfolding updateNotificationSettings_def Let_def by (intro steady_intros)

lemma steady_getSyncSettings: "steady (getSyncSettings p args)"
  unfolding getSyncSettings_def Let_def by (intro steady_intros)

lemma steady_updateSyncSettings: "steady (updateSyncSettings p args)"
  unfolding updateSyncSettings_def Let_def by (intro steady_intros)

lemma steady_resetUserData: "steady (resetUserData p args)"
  unfolding resetUserData_def Let_def by (intro steady_intros)

lemma steady_convertDatetimeToTicktickFormat: "steady (convertDatetimeToTicktickFormat p args)"
  unfolding convertDatetimeToTicktickFormat_def Let_def by (intro steady_intros)

lemmas tool_sends =
  sends_getProjects
  sends_createProject
  sends_getTasks
  sends_createTask
  sends_updateTask
  sends_deleteTask
  sends_completeTask
  sends_getTaskDetails
  sends_filterTasks
  sends_convertDatetimeToTicktickFormat
  sends_getTags
  sends_createTag
  sends_searchTasks
  sends_getTodayTasks
  sends_getOverdueTasks
  sends_getUpcomingTasks
  sends_addTagToTask
  sends_getUserProfile
  sends_getHabits
  sends_createHabit
  sends_updateHabit
  sends_deleteHabit
  sends_checkinHabit
  sends_getHabitHistory
  sends_getHabitStats
  sends_pauseHabit
  sends_resumeHabit
  sends_getHabitStreaks
  sends_bulkCheckinHabits
  sends_getHabitCalendar
  sends_setHabitGoal
  sends_getHabitsSummary
  sends_exportHabitData
  sends_updateTag
  sends_deleteTag
  sends_removeTagFromTask
  sends_getTasksByTag
  sends_getTagUsageStats
  sends_mergeTags
  sends_bulkTagOperations
  sends_startFocusSession
  sends_stopFocusSession
  sends_pauseFocusSession
  sends_resumeFocusSession
  sends_getFocusStats
  sends_setTaskEstimate
  sends_getDailyFocusSummary
  sends_getFocusHistory
  sends_setFocusGoals
  sends_getProductivityInsights
  sends_getProjectFolders
  sends_createProjectFolder
  sends_moveProjectToFolder
  sends_archiveProject
  sends_unarchiveProject
  sends_duplicateProject
  sends_getProjectStats
  sends_setProjectColor
  sends_reorderProjects
  sends_getProjectTemplates
  sends_createProjectFromTemplate
  sends_exportProject
  sends_shareProject
  sends_getSharedProjects
  sends_inviteCollaborator
  sends_removeCollaborator
  sends_assignTask
  sends_getTaskAssignees
  sends_addTaskComment
  sends_getTeamActivity
  sends_setProjectPermissions
  sends_getCollaborationStats
  sends_bulkAssignTasks
  sends_exportTeamReport
  sends_getCalendarEvents
  sends_createCalendarEvent
  sends_syncWithGoogleCalendar
  sends_syncWithOutlook
  sends_getCalendarView
  sends_convertTaskToEvent
  sends_getScheduleConflicts
  sends_bulkCalendarImport
  sends_getTaskNotes
  sends_addTaskNote
  sends_updateTaskNote
  sends_deleteTaskNote
  sends_uploadTaskAttachment
  sends_getTaskAttachments
  sends_downloadTaskAttachment
  sends_deleteTaskAttachment
  sends_getTaskTemplates
  sends_createTaskTemplate
  sends_updateTaskTemplate
  sends_deleteTaskTemplate
  sends_createTaskFromTemplate
  sends_setRecurringTask
  sends_getRecurringTasks
  sends_pauseRecurringTask
  sends_bulkCreateFromTemplate
  sends_getProductivityReport
  sends_getCompletionTrends
  sends_getTimeTrackingReport
  sends_getGoalProgress
  sends_exportAnalyticsData
  sends_getWeeklySummary
  sends_getMonthlyInsights
  sends_updateUserSettings
  sends_getNotificationSettings
  sends_updateNotificationSettings
  sends_getSyncSettings
  sends_updateSyncSettings
  sends_resetUserData

lemmas tool_steady =
  steady_getProjects
  steady_createProject
  steady_getTasks
  steady_createTask
  steady_updateTask
  steady_deleteTask
  steady_completeTask
  steady_getTaskDetails
  steady_filterTasks
  steady_getTags
  steady_createTag
  steady_searchTasks
  steady_getUserProfile
  steady_getHabits
  steady_deleteHabit
  steady_getHabitStats
  steady_getHabitStreaks
  steady_setHabitGoal
  steady_exportHabitData
  steady_deleteTag
  steady_getTasksByTag
  steady_getTagUsageStats
  steady_mergeTags
  steady_bulkTagOperations
  steady_getFocusStats
  steady_getFocusHistory
  steady_getProductivityInsights
  steady_getProjectFolders
  steady_createProjectFolder
  steady_moveProjectToFolder
  steady_archiveProject
  steady_unarchiveProject
  steady_duplicateProject
  steady_getProjectStats
  steady_setProjectColor
  steady_reorderProjects
  steady_getProjectTemplates
  steady_createProjectFromTemplate
  steady_exportProject
  steady_shareProject
  steady_getSharedProjects
  steady_inviteCollaborator
  steady_removeCollaborator
  steady_assignTask
  steady_getTaskAssignees
  steady_addTaskComment
  steady_getTeamActivity
  steady_setProjectPermissions
  steady_getCollaborationStats
  steady_bulkAssignTasks
  steady_exportTeamReport
  steady_getCalendarEvents
  steady_createCalendarEvent
  steady_syncWithGoogleCalendar
  steady_syncWithOutlook
  steady_convertTaskToEvent
  steady_bulkCalendarImport
  steady_getTaskNotes
  steady_addTaskNote
  steady_updateTaskNote
  steady_uploadTaskAttachment
  steady_getTaskAttachments
  steady_downloadTaskAttachment
  steady_getTaskTemplates
  steady_createTaskTemplate
  steady_updateTaskTemplate
  steady_createTaskFromTemplate
  steady_setRecurringTask
  steady_getRecurringTasks
  steady_pauseRecurringTask
  steady_bulkCreateFromTemplate
  steady_getProductivityReport
  steady_getCompletionTrends
  steady_getTimeTrackingReport
  steady_getGoalProgress
  steady_exportAnalyticsData
  steady_getWeeklySummary
  steady_getMonthlyInsights
  steady_updateUserSettings
  steady_getNotificationSettings
  steady_updateNotificationSettings
  steady_getSyncSettings
  steady_updateSyncSettings
  steady_resetUserData
  steady_convertDatetimeToTicktickFormat

lemma readThenWrite_mem:
  "''ticktick_add_tag_to_task'' \<in> set readThenWrite"
  "''ticktick_update_habit'' \<in> set readThenWrite"
  "''ticktick_update_tag'' \<in> set readThenWrite"
  "''ticktick_remove_tag_from_task'' \<in> set readThenWrite"
  "''ticktick_delete_task_note'' \<in> set readThenWrite"
  "''ticktick_delete_task_attachment'' \<in> set readThenWrite"
  "''ticktick_delete_task_template'' \<in> set readThenWrite"
  by (simp_all add: readThenWrite_def)

lemma clockTools_mem:
  "''ticktick_get_today_tasks'' \<in> set clockTools"
  "''ticktick_get_overdue_tasks'' \<in> set clockTools"
  "''ticktick_get_upcoming_tasks'' \<in> set clockTools"
  "''ticktick_create_habit'' \<in> set clockTools"
  "''ticktick_checkin_habit'' \<in> set clockTools"
  "''ticktick_get_habit_history'' \<in> set clockTools"
  "''ticktick_pause_habit'' \<in> set clockTools"
  "''ticktick_resume_habit'' \<in> set clockTools"
  "''ticktick_bulk_checkin_habits'' \<in> set clockTools"
  "''ticktick_get_habit_calendar'' \<in> set clockTools"
  "''ticktick_get_habits_summary'' \<in> set clockTools"
  "''ticktick_start_focus_session'' \<in> set clockTools"
  "''ticktick_stop_focus_session'' \<in> set clockTools"
  "''ticktick_pause_focus_session'' \<in> set clockTools"
  "''ticktick_resume_focus_session'' \<in> set clockTools"
  "''ticktick_set_task_estimate'' \<in> set clockTools"
  "''ticktick_get_daily_focus_summary'' \<in> set clockTools"
  "''ticktick_set_focus_goals'' \<in> set clockTools"
  "''ticktick_get_calendar_view'' \<in> set clockTools"
  "''ticktick_get_schedule_conflicts'' \<in> set clockTools"
  by (simp_all add: clockTools_def)


lemma all_tools_steady:
  "list_all (\<lambda>(name, m).
     steady (m args) \<or> name \<in> set clockTools \<or> name \<in> set readThenWrite) (tools p)"
  unfolding tools_def by (simp add: tool_steady readThenWrite_mem clockTools_mem)

lemma tools_steady:
  assumes "(name, m) \<in> set (tools p)"
  shows "steady (m args) \<or> name \<in> set clockTools \<or> name \<in> set readThenWrite"
  using all_tools_steady [of args p] assms unfolding list_all_iff by blast

lemma callTool_cases:
  "(\<exists>m. (name, m) \<in> set (tools p) \<and> callTool p name args = m args)
   \<or> callTool p name args = Throw (McpError MethodNotFound (''Unknown tool: '' @ name))"
  by (auto simp add: callTool_def split: option.split dest: map_of_SomeD)

lemma handleCallTool_token:
  assumes "envTruthy (TICKTICK_ACCESS_TOKEN cfg) \<or> envTruthy (TICKTICK_TOKEN cfg)"
    and "run cfg p w (callTool p name args) trace0 = (r, tr)"
  shows "handleCallTool cfg p w name args
           = (case r of Inl error \<Rightarrow> Inl (McpError InternalError (''Error: '' @ message p error))
                      | Inr result \<Rightarrow> Inr result, tr)"
  using assms by (auto simp add: handleCallTool_def split: sum.split)

lemma handleCallTool_no_token:
  assumes "\<not> (envTruthy (TICKTICK_ACCESS_TOKEN cfg) \<or> envTruthy (TICKTICK_TOKEN cfg))"
  shows "handleCallTool cfg p w name args
           = (Inl (McpError InvalidRequest ''TickTick credentials not properly configured''), trace0)"
  using assms by (simp add: handleCallTool_def)

lemma callTool_delete_task: "callTool p ''ticktick_delete_task'' args = deleteTask p args"
  by (simp add: callTool_def tools_def)

lemma callTool_add_tag_to_task: "callTool p ''ticktick_add_tag_to_task'' args = addTagToTask p args"
  by (simp add: callTool_def tools_def)

lemma callTool_get_today_tasks: "callTool p ''ticktick_get_today_tasks'' args = getTodayTasks p args"
  by (simp add: callTool_def tools_def)

lemmas world_defs =
  handleCallTool_def withToken_def envTruthy_def trace0_def answering_def atTime_def
  makeTickTickRequest_def requestConfig_def baseUrl_def bearer_def ok_def Let_def

section \<open>Lemmas on the requests of the task methods\<close>

lemma callTool_create_task: "callTool p ''ticktick_create_task'' args = createTask p args"
  by (simp add: callTool_def tools_def)

lemma snd_handleCallTool:
  assumes "envTruthy (TICKTICK_ACCESS_TOKEN cfg) \<or> envTruthy (TICKTICK_TOKEN cfg)"
  shows "snd (handleCallTool cfg p w name args) = snd (run cfg p w (callTool p name args) trace0)"
proof -
  obtain r tr where run: "run cfg p w (callTool p name args) trace0 = (r, tr)"
    by (cases "run cfg p w (callTool p name args) trace0")
  from handleCallTool_token [OF assms run] run show ?thesis by simp
qed













lemma callTool_search_tasks: "callTool p ''ticktick_search_tasks'' args = searchTasks p args"
  by (simp add: callTool_def tools_def)


lemma showInt_20: "showInt 20 = ''20''"
  by code_simp

lemma toISOString_0: "toISOString 0 = ''1970-01-01T00:00:00.000Z''"
  by code_simp

lemma toISOString_day: "toISOString 86400000 = ''1970-01-02T00:00:00.000Z''"
  by code_simp

lemma toISOString_eve: "toISOString (- 86400000) = ''1969-12-31T00:00:00.000Z''"
  by code_simp

lemma encodeURIComponent_rent: "encodeURIComponent ''rent'' = ''rent''"
  by code_simp



lemma engineMessage_sample: "engineMessage samplePlatform l = l"
  by (simp add: samplePlatform_def)


section \<open>Lemmas on the order of the requests and on the texts\<close>

lemma sends_requests_aux: "sends n b \<Longrightarrow> n = 0 \<Longrightarrow> requests [] b"
  by (induction n b rule: sends.induct) (simp_all add: requests.intros)

lemma sends_requests: "sends 0 b \<Longrightarrow> requests [] b"
  by (rule sends_requests_aux) simp_all

lemma requests_run:
  "requests ms b \<Longrightarrow> run cfg p w b tr = (res, tr') \<Longrightarrow>
   \<exists>k \<le> length ms. map http_method (sent tr') = map http_method (sent tr) @ take k ms
                  \<and> (\<forall>x. res = Inr x \<longrightarrow> k = length ms)"
proof (induction ms b arbitrary: tr res tr' rule: requests.induct)
  case (requests_Request ms k m e d)
  obtain r tr1 where mk: "makeTickTickRequest cfg w e m d tr = (r, tr1)"
    by (cases "makeTickTickRequest cfg w e m d tr")
  from makeTickTickRequest_cases [OF mk]
  have s: "map http_method (sent tr1) = map http_method (sent tr) @ [m]"
    by (simp add: requestConfig_def)
  show ?case
  proof (cases r)
    case (Inl err)
    with mk requests_Request.prems have "tr' = tr1" "res = Inl err" by auto
    with s have "map http_method (sent tr') = map http_method (sent tr) @ take (Suc 0) (m # ms)
                 \<and> (\<forall>x. res = Inr x \<longrightarrow> Suc 0 = length (m # ms))" by simp
    moreover have "Suc 0 \<le> length (m # ms)" by simp
    ultimately show ?thesis by blast
  next
    case (Inr x)
    with mk requests_Request.prems have "run cfg p w (k x) tr1 = (res, tr')" by simp
    from requests_Request.IH [OF this] obtain j where j: "j \<le> length ms"
      "map http_method (sent tr') = map http_method (sent tr1) @ take j ms"
      "\<forall>x. res = Inr x \<longrightarrow> j = length ms" by blast
    with s have "map http_method (sent tr') = map http_method (sent tr) @ take (Suc j) (m # ms)
                 \<and> (\<forall>x. res = Inr x \<longrightarrow> Suc j = length (m # ms))" by simp
    moreover from j have "Suc j \<le> length (m # ms)" by simp
    ultimately show ?thesis by blast
  qed
next
  case (requests_Try ms b l)
  obtain r tr1 where rb: "run cfg p w b tr = (r, tr1)" by (cases "run cfg p w b tr")
  from requests_Try.IH [OF rb] obtain j where j: "j \<le> length ms"
      "map http_method (sent tr1) = map http_method (sent tr) @ take j ms"
      "\<forall>x. r = Inr x \<longrightarrow> j = length ms" by blast
  from rb requests_Try.prems have "tr' = tr1" "\<And>x. res = Inr x \<Longrightarrow> r = Inr x"
    by (cases r; simp)+
  with j show ?case by blast
next
  case (requests_Now ms k)
  from requests_Now.prems
  have "run cfg p w (k (clock w (ticks tr))) (tr\<lparr>ticks := Suc (ticks tr)\<rparr>) = (res, tr')" by simp
  from requests_Now.IH [OF this] show ?case by simp
next
  case (requests_Return x)
  then show ?case by auto
next
  case (requests_Throw ms e)
  then have "map http_method (sent tr') = map http_method (sent tr) @ take 0 ms
             \<and> (\<forall>x. res = Inr x \<longrightarrow> 0 = length ms)" by auto
  then show ?case by blast
qed

lemma requests_orThrow: "(\<And>x. requests ms (k x)) \<Longrightarrow> requests ms (orThrow m k)"
  by (cases m) (simp_all add: orThrow_def requests.intros)

lemma requests_destructure: "(\<And>a. requests ms (k a)) \<Longrightarrow> requests ms (destructure args k)"
  by (cases args) (simp_all add: destructure_def requests.intros)

lemma requests_rendered: "requests [] (rendered p name vs)"
  by (rule sends_requests) (rule sends_rendered)

lemmas requests_intros =
  requests.intros requests_orThrow requests_destructure requests_rendered

lemma requests_addTagToTask: "requests [''GET'', ''PUT''] (addTagToTask p args)"
  unfolding addTagToTask_def Let_def by (intro requests_intros)

lemma requests_updateHabit: "requests [''GET'', ''PUT''] (updateHabit p args)"
  unfolding updateHabit_def Let_def by (intro requests_intros)

lemma requests_updateTag: "requests [''GET'', ''PUT''] (updateTag p args)"
  unfolding updateTag_def Let_def by (intro requests_intros)

lemma requests_removeTagFromTask: "requests [''GET'', ''PUT''] (removeTagFromTask p args)"
  unfolding removeTagFromTask_def Let_def by (intro requests_intros)

lemma requests_deleteTaskNote: "requests [''GET'', ''DELETE''] (deleteTaskNote p args)"
  unfolding deleteTaskNote_def Let_def by (intro requests_intros)

lemma requests_deleteTaskAttachment: "requests [''GET'', ''DELETE''] (deleteTaskAttachment p args)"
  unfolding deleteTaskAttachment_def Let_def by (intro requests_intros)

lemma requests_deleteTaskTemplate: "requests [''GET'', ''DELETE''] (deleteTaskTemplate p args)"
  unfolding deleteTaskTemplate_def Let_def by (intro requests_intros)

lemmas tool_requests =
  requests_addTagToTask requests_updateHabit requests_updateTag requests_removeTagFromTask
  requests_deleteTaskNote requests_deleteTaskAttachment requests_deleteTaskTemplate

lemma all_tools_requests:
  "list_all (\<lambda>(name, m).
       if name \<in> set readThenWrite
       then requests [''GET'', ''PUT''] (m args) \<or> requests [''GET'', ''DELETE''] (m args)
       else if name = ''ticktick_convert_datetime_to_ticktick_format'' then sends 0 (m args)
       else sends (Suc 0) (m args))
     (tools p)"
  unfolding tools_def readThenWrite_def by (simp add: tool_sends tool_requests)

lemma tools_requests:
  assumes "(name, m) \<in> set (tools p)"
  shows "if name \<in> set readThenWrite
       then requests [''GET'', ''PUT''] (m args) \<or> requests [''GET'', ''DELETE''] (m args)
       else if name = ''ticktick_convert_datetime_to_ticktick_format'' then sends 0 (m args)
       else sends (Suc 0) (m args)"
  using all_tools_requests [of args p] assms unfolding list_all_iff by blast

lemma short_distinct: "length xs \<le> Suc 0 \<Longrightarrow> distinct xs"
  by (cases xs) auto

lemma read_then_write_run:
  assumes r: "requests [''GET'', second] b" and s: "second = ''PUT'' \<or> second = ''DELETE''"
    and run: "run cfg p w b trace0 = (res, tr)"
  shows "length (sent tr) \<le> 2 \<and> distinct (sent tr)
       \<and> map http_method (sent tr) \<in> {[], [''GET''], [''GET'', ''PUT''], [''GET'', ''DELETE'']}
       \<and> (\<forall>x. res = Inr x \<longrightarrow> length (sent tr) = 2)"
proof -
  from requests_run [OF r run]
  have "\<exists>k \<le> Suc (Suc 0). map http_method (sent tr) = take k [''GET'', second]
                  \<and> (\<forall>x. res = Inr x \<longrightarrow> k = Suc (Suc 0))"
    by (simp add: trace0_def)
  then obtain k where k0: "k \<le> Suc (Suc 0)"
    "map http_method (sent tr) = take k [''GET'', second]"
    "\<forall>x. res = Inr x \<longrightarrow> k = Suc (Suc 0)" by blast
  then have k: "k \<le> 2" "map http_method (sent tr) = take k [''GET'', second]"
    "\<forall>x. res = Inr x \<longrightarrow> k = 2" by simp_all
  from k(1) consider "k = 0" | "k = 1" | "k = 2" by linarith
  then have m: "map http_method (sent tr) = [] \<or> map http_method (sent tr) = [''GET'']
              \<or> map http_method (sent tr) = [''GET'', second]"
    using k(2) by cases simp_all
  from s have ne: "''GET'' \<noteq> second" by auto
  from m ne have "distinct (map http_method (sent tr))" by auto
  then have d: "distinct (sent tr)" by (simp add: distinct_map)
  from k(2) k(1) have l: "length (sent tr) = k"
    using length_map [of http_method "sent tr"] by simp
  from m s have "map http_method (sent tr) \<in> {[], [''GET''], [''GET'', ''PUT''], [''GET'', ''DELETE'']}"
    by auto
  with d l k show ?thesis by simp
qed
























lemma callTool_checkin_habit: "callTool p ''ticktick_checkin_habit'' args = checkinHabit p args"
  by (simp add: callTool_def tools_def)

lemma callTool_delete_task_note:
  "callTool p ''ticktick_delete_task_note'' args = deleteTaskNote p args"
  by (simp add: callTool_def tools_def)




section \<open>The claims\<close>

text \<open>
  C1, as stated, fails: \<open>ticktick_delete_task\<close> declares \<open>task_id\<close> as required, and a
  call with the empty argument object sends \<open>DELETE /task/undefined\<close> and returns a text.
\<close>

theorem missing_required_field_counterexample:
  "handleCallTool withToken samplePlatform (answering (Response 200 ''OK'' ''{}'' (Inr (Obj []))))
       ''ticktick_delete_task'' (Some [])
     = (Inr ('' **Deleted TickTick Task**'' @ [CHR 0x0A, CHR 0x0A] @
             ''Task ID: undefined has been permanently deleted.''),
        \<lparr>sent = [\<lparr>url = ''https://api.ticktick.com/open/v1/task/undefined'',
                   http_method = ''DELETE'',
                   headers = [(''Authorization'', ''Bearer secret''),
                              (''Content-Type'', ''application/json'')],
                   body = None\<rparr>],
         ticks = 0\<rparr>)"
  by (simp add: world_defs callTool_delete_task deleteTask_def arg_def nl_def)

text \<open>
  C1, amended. The handler does not check the arguments against the declared schema.
  With a token configured no tool call throws \<open>InvalidRequest\<close>, whatever its arguments;
  a missing required field reads as \<open>undefined\<close> and the request is sent all the same:
  \<open>ticktick_delete_task\<close> without \<open>task_id\<close> sends \<open>DELETE /task/undefined\<close>.
\<close>

theorem arguments_not_validated:
  assumes token: "envTruthy (TICKTICK_ACCESS_TOKEN cfg) \<or> envTruthy (TICKTICK_TOKEN cfg)"
  shows "(\<forall>m. fst (handleCallTool cfg p w name args) \<noteq> Inl (McpError InvalidRequest m))
       \<and> (map_of a ''task_id'' = None \<longrightarrow>
            sent (snd (handleCallTool cfg p w ''ticktick_delete_task'' (Some a)))
              = [\<lparr>url = ''https://api.ticktick.com/open/v1/task/undefined'',
                  http_method = ''DELETE'',
                  headers = [(''Authorization'', bearer cfg), (''Content-Type'', ''application/json'')],
                  body = None\<rparr>])"
proof
  obtain r0 tr0 where run: "run cfg p w (callTool p name args) trace0 = (r0, tr0)"
    by (cases "run cfg p w (callTool p name args) trace0")
  from handleCallTool_token [OF token run]
  show "\<forall>m. fst (handleCallTool cfg p w name args) \<noteq> Inl (McpError InvalidRequest m)"
    by (cases r0) simp_all
next
  show "map_of a ''task_id'' = None \<longrightarrow>
            sent (snd (handleCallTool cfg p w ''ticktick_delete_task'' (Some a)))
              = [\<lparr>url = ''https://api.ticktick.com/open/v1/task/undefined'',
                  http_method = ''DELETE'',
                  headers = [(''Authorization'', bearer cfg), (''Content-Type'', ''application/json'')],
                  body = None\<rparr>]"
  proof
    assume none: "map_of a ''task_id'' = None"
    obtain r0 tr0 where run: "run cfg p w (callTool p ''ticktick_delete_task'' (Some a)) trace0 = (r0, tr0)"
      by (cases "run cfg p w (callTool p ''ticktick_delete_task'' (Some a)) trace0")
    have c: "callTool p ''ticktick_delete_task'' (Some a) = deleteTask p (Some a)"
      by (simp add: callTool_def tools_def)
    have "sent (snd (run cfg p w (deleteTask p (Some a)) trace0))
            = [requestConfig cfg (''/task/'' @ toStr (arg a ''task_id'')) ''DELETE'' Null]"
      unfolding deleteTask_def Let_def
      by (simp add: snd_run_Try sent_run_Request sends.intros trace0_def del: run.simps)
    with run c handleCallTool_token [OF token run] none
    show "sent (snd (handleCallTool cfg p w ''ticktick_delete_task'' (Some a)))
              = [\<lparr>url = ''https://api.ticktick.com/open/v1/task/undefined'',
                  http_method = ''DELETE'',
                  headers = [(''Authorization'', bearer cfg), (''Content-Type'', ''application/json'')],
                  body = None\<rparr>]"
      by (simp add: requestConfig_def arg_def baseUrl_def)
  qed
qed

text \<open>
  C1, amended, at an example: \<open>ticktick_delete_task\<close> with the arguments
  \<open>{confirm: true}\<close>.
\<close>

theorem arguments_not_validated_witness:
  "(envTruthy (TICKTICK_ACCESS_TOKEN withToken) \<or> envTruthy (TICKTICK_TOKEN withToken))
   \<and> map_of [(''confirm'', Bool True)] ''task_id'' = None
   \<and> fst (handleCallTool withToken samplePlatform
            (answering (Response 200 ''OK'' ''{}'' (Inr (Obj []))))
            ''ticktick_delete_task'' (Some [(''confirm'', Bool True)]))
       \<noteq> Inl (McpError InvalidRequest ''TickTick credentials not properly configured'')
   \<and> sent (snd (handleCallTool withToken samplePlatform
                  (answering (Response 200 ''OK'' ''{}'' (Inr (Obj []))))
                  ''ticktick_delete_task'' (Some [(''confirm'', Bool True)])))
       = [\<lparr>url = ''https://api.ticktick.com/open/v1/task/undefined'',
           http_method = ''DELETE'',
           headers = [(''Authorization'', ''Bearer secret''), (''Content-Type'', ''application/json'')],
           body = None\<rparr>]"
proof -
  have token: "envTruthy (TICKTICK_ACCESS_TOKEN withToken) \<or> envTruthy (TICKTICK_TOKEN withToken)"
    by (simp add: withToken_def envTruthy_def)
  have none: "map_of [(''confirm'', Bool True)] ''task_id'' = None" by simp
  have b: "bearer withToken = ''Bearer secret''"
    by (simp add: bearer_def withToken_def envTruthy_def)
  from arguments_not_validated [OF token, of samplePlatform
         "answering (Response 200 ''OK'' ''{}'' (Inr (Obj [])))" "''ticktick_delete_task''"
         "Some [(''confirm'', Bool True)]" "[(''confirm'', Bool True)]"] none token b
  show ?thesis by simp
qed

text \<open>
  C2. An unknown tool name reaches the \<open>default\<close> case, which throws \<open>MethodNotFound\<close>
  inside the \<open>try\<close> block; the \<open>catch\<close> of the handler turns it into an \<open>InternalError\<close>.
  With a token configured, the call of the unregistered name \<open>no_such_tool\<close> throws an
  error whose code is \<open>InternalError\<close>, for any arguments and any upstream.
\<close>

theorem unknown_tool_InternalError:
  "handleCallTool withToken p w ''no_such_tool'' args
     = (Inl (McpError InternalError
               (''Error: '' @ mcpMessage p MethodNotFound ''Unknown tool: no_such_tool'')),
        \<lparr>sent = [], ticks = 0\<rparr>)"
proof -
  have "map_of (tools p) ''no_such_tool'' = None"
    by (simp add: tools_def)
  then show ?thesis
    by (simp add: handleCallTool_def withToken_def envTruthy_def callTool_def trace0_def)
qed

text \<open>
  C3, as stated, fails: \<open>ticktick_add_tag_to_task\<close> reads the task and writes it back, two
  requests in one call.
\<close>

theorem two_requests_counterexample:
  "length (sent (snd (handleCallTool withToken samplePlatform
       (answering (Response 200 ''OK'' ''{}'' (Inr (Obj []))))
       ''ticktick_add_tag_to_task'' (Some [(''task_id'', Str ''T1''), (''tag_name'', Str ''urgent'')])))) = 2"
  by (simp add: world_defs callTool_add_tag_to_task addTagToTask_def
       arg_def get_def orElse_def includesOf_def arrayMethod_def entries_def bindE_def)

text \<open>
  C3, amended. A tool call sends at most two requests, and none of them twice. It sends
  none when no token is configured, when the tool name is not registered, and for
  \<open>ticktick_convert_datetime_to_ticktick_format\<close>. Every tool but the seven that read
  before they write sends at most one request. Each of these seven sends a \<open>GET\<close> first and
  then a \<open>PUT\<close> or a \<open>DELETE\<close>, and nothing in any other order. A call that returns has sent
  exactly two requests if the tool is one of the seven, none if it is
  \<open>ticktick_convert_datetime_to_ticktick_format\<close>, and exactly one otherwise.
\<close>

theorem requests_per_call:
  assumes call: "handleCallTool cfg p w name args = (res, tr)"
  shows "length (sent tr) \<le> 2
       \<and> distinct (sent tr)
       \<and> (\<not> envTruthy (TICKTICK_ACCESS_TOKEN cfg) \<and> \<not> envTruthy (TICKTICK_TOKEN cfg)
            \<longrightarrow> sent tr = [])
       \<and> (map_of (tools p) name = None \<longrightarrow> sent tr = [])
       \<and> (name = ''ticktick_convert_datetime_to_ticktick_format'' \<longrightarrow> sent tr = [])
       \<and> (name \<notin> set readThenWrite \<longrightarrow> length (sent tr) \<le> 1)
       \<and> (name \<in> set readThenWrite \<longrightarrow>
            map http_method (sent tr) \<in> {[], [''GET''], [''GET'', ''PUT''], [''GET'', ''DELETE'']})
       \<and> (\<forall>result. res = Inr result \<longrightarrow>
            length (sent tr) = (if name \<in> set readThenWrite then 2
                                else if name = ''ticktick_convert_datetime_to_ticktick_format'' then 0
                                else 1))"
proof (cases "envTruthy (TICKTICK_ACCESS_TOKEN cfg) \<or> envTruthy (TICKTICK_TOKEN cfg)")
  case False
  from handleCallTool_no_token [OF False] call show ?thesis by (auto simp add: trace0_def)
next
  case True
  obtain r0 tr0 where run: "run cfg p w (callTool p name args) trace0 = (r0, tr0)"
    by (cases "run cfg p w (callTool p name args) trace0")
  from handleCallTool_token [OF True run] call
  have res: "\<And>result. res = Inr result \<Longrightarrow> r0 = Inr result" and tr: "tr = tr0"
    by (auto split: sum.splits)
  show ?thesis
  proof (cases "map_of (tools p) name")
    case None
    then have "callTool p name args = Throw (McpError MethodNotFound (''Unknown tool: '' @ name))"
      by (simp add: callTool_def)
    with run tr res show ?thesis by (auto simp add: trace0_def)
  next
    case (Some m)
    then have m: "(name, m) \<in> set (tools p)" by (rule map_of_SomeD)
    from Some have "callTool p name args = m args" by (simp add: callTool_def)
    with run tr have run': "run cfg p w (m args) trace0 = (r0, tr)" by simp
    show ?thesis
    proof (cases "name \<in> set readThenWrite")
      case rtw: True
      then have nc: "name \<noteq> ''ticktick_convert_datetime_to_ticktick_format''"
        by (auto simp add: readThenWrite_def)
      from tools_requests [OF m, of args] rtw
      have "requests [''GET'', ''PUT''] (m args) \<or> requests [''GET'', ''DELETE''] (m args)" by simp
      then obtain second where "requests [''GET'', second] (m args)"
        "second = ''PUT'' \<or> second = ''DELETE''" by blast
      from read_then_write_run [OF this run'] rtw nc True Some res show ?thesis by auto
    next
      case other: False
      show ?thesis
      proof (cases "name = ''ticktick_convert_datetime_to_ticktick_format''")
        case conv: True
        from tools_requests [OF m, of args] other conv have "sends 0 (m args)" by simp
        from sends_run [OF this run'] have "sent tr = []" by (simp add: trace0_def)
        with other conv True Some show ?thesis by auto
      next
        case False
        from tools_requests [OF m, of args] other False have "sends (Suc 0) (m args)" by simp
        from sends_run [OF this run'] have
          l: "length (sent tr) \<le> Suc 0" and "\<And>x. r0 = Inr x \<Longrightarrow> length (sent tr) = 1"
          by (simp_all add: trace0_def)
        with res have ok: "\<And>x. res = Inr x \<Longrightarrow> length (sent tr) = 1" by blast
        from l have d: "distinct (sent tr)" by (rule short_distinct)
        from l d ok other False True Some show ?thesis by auto
      qed
    qed
  qed
qed

text \<open>
  C3, amended, at an example: \<open>ticktick_delete_task_note\<close>, one of the seven, answered
  with status 200, sends a \<open>GET\<close> and a \<open>DELETE\<close>.
\<close>

theorem requests_per_call_witness:
  "handleCallTool withToken samplePlatform (answering (Response 200 ''OK'' ''{}'' (Inr (Obj []))))
       ''ticktick_delete_task_note'' (Some [(''task_id'', Str ''T1''), (''note_id'', Str ''N1'')])
     = (Inr ''deleteTaskNote'',
        \<lparr>sent = [\<lparr>url = ''https://api.ticktick.com/open/v1/task/T1/note/N1'',
                   http_method = ''GET'',
                   headers = [(''Authorization'', ''Bearer secret''),
                              (''Content-Type'', ''application/json'')],
                   body = None\<rparr>,
                 \<lparr>url = ''https://api.ticktick.com/open/v1/task/T1/note/N1'',
                   http_method = ''DELETE'',
                   headers = [(''Authorization'', ''Bearer secret''),
                              (''Content-Type'', ''application/json'')],
                   body = None\<rparr>],
         ticks = 1\<rparr>)
   \<and> ''ticktick_delete_task_note'' \<in> set readThenWrite
   \<and> length [\<lparr>url = ''https://api.ticktick.com/open/v1/task/T1/note/N1'',
                   http_method = ''GET'',
                   headers = [(''Authorization'', ''Bearer secret''),
                              (''Content-Type'', ''application/json'')],
                   body = None\<rparr>,
                 \<lparr>url = ''https://api.ticktick.com/open/v1/task/T1/note/N1'',
                   http_method = ''DELETE'',
                   headers = [(''Authorization'', ''Bearer secret''),
                              (''Content-Type'', ''application/json'')],
                   body = None\<rparr>] = 2"
proof -
  let ?w = "answering (Response 200 ''OK'' ''{}'' (Inr (Obj [])))"
  let ?get = "\<lparr>url = ''https://api.ticktick.com/open/v1/task/T1/note/N1'',
                   http_method = ''GET'',
                   headers = [(''Authorization'', ''Bearer secret''),
                              (''Content-Type'', ''application/json'')],
                   body = None\<rparr>"
  let ?delete = "\<lparr>url = ''https://api.ticktick.com/open/v1/task/T1/note/N1'',
                   http_method = ''DELETE'',
                   headers = [(''Authorization'', ''Bearer secret''),
                              (''Content-Type'', ''application/json'')],
                   body = None\<rparr>"
  have call: "handleCallTool withToken samplePlatform ?w ''ticktick_delete_task_note''
                (Some [(''task_id'', Str ''T1''), (''note_id'', Str ''N1'')])
              = (Inr ''deleteTaskNote'', \<lparr>sent = [?get, ?delete], ticks = 1\<rparr>)"
    by (simp add: world_defs callTool_delete_task_note deleteTaskNote_def rendered_def
          samplePlatform_def arg_def)
  have rtw: "''ticktick_delete_task_note'' \<in> set readThenWrite"
    by (simp add: readThenWrite_def)
  from requests_per_call [OF call] rtw have "length [?get, ?delete] = 2" by simp
  with call rtw show ?thesis by simp
qed

text \<open>
  C4. With neither token variable set, every tool call (any tool name, any arguments, any
  upstream) throws the \<open>InvalidRequest\<close> error of the credential guard, and no request has
  been sent.
\<close>

theorem no_credentials_InvalidRequest:
  assumes "TICKTICK_ACCESS_TOKEN cfg = None" and "TICKTICK_TOKEN cfg = None"
  shows "handleCallTool cfg p w name args
           = (Inl (McpError InvalidRequest ''TickTick credentials not properly configured''),
              \<lparr>sent = [], ticks = 0\<rparr>)"
  using assms by (simp add: handleCallTool_def envTruthy_def trace0_def)

text \<open>C4 at an example: a call of \<open>ticktick_get_projects\<close> with no token.\<close>

theorem no_credentials_InvalidRequest_witness:
  "TICKTICK_ACCESS_TOKEN noToken = None \<and> TICKTICK_TOKEN noToken = None \<and>
   handleCallTool noToken samplePlatform (answering (Response 200 ''OK'' ''[]'' (Inr (Arr []))))
       ''ticktick_get_projects'' (Some [])
     = (Inl (McpError InvalidRequest ''TickTick credentials not properly configured''),
        \<lparr>sent = [], ticks = 0\<rparr>)"
  using no_credentials_InvalidRequest [of noToken samplePlatform
          "answering (Response 200 ''OK'' ''[]'' (Inr (Arr [])))" "''ticktick_get_projects''" "Some []"]
  by (simp add: noToken_def)

text \<open>
  C5. In every tool call with a token configured, a request that the upstream answers
  with a rejected \<open>fetch\<close> or with a status outside \<open>200..299\<close> is the last request of the
  call (nothing is retried, nothing is sent after it), and the call throws one
  \<open>InternalError\<close> whose message ends with the message of the rejected \<open>fetch\<close>, or with
  the status, the status text and the body of the response.
\<close>

theorem upstream_failure_InternalError:
  assumes token: "envTruthy (TICKTICK_ACCESS_TOKEN cfg) \<or> envTruthy (TICKTICK_TOKEN cfg)"
    and call: "handleCallTool cfg p w name args = (res, tr)"
    and j: "j < length (sent tr)"
    and answer: "upstream w (take j (sent tr)) (sent tr ! j) = r"
  shows "(\<forall>m. r = FetchFailed m \<longrightarrow>
            Suc j = length (sent tr) \<and>
            (\<exists>pre. res = Inl (McpError InternalError (''Error: '' @ pre @ m))))
       \<and> (\<forall>status st errorText parsed. r = Response status st errorText parsed \<longrightarrow> \<not> ok status \<longrightarrow>
            Suc j = length (sent tr) \<and>
            (\<exists>pre. res = Inl (McpError InternalError
                     (''Error: '' @ pre @ ''TickTick API error: '' @ showInt (int status) @ '' '' @ st
                      @ '' - '' @ errorText))))"
proof -
  obtain r0 tr0 where run: "run cfg p w (callTool p name args) trace0 = (r0, tr0)"
    by (cases "run cfg p w (callTool p name args) trace0")
  from handleCallTool_token [OF token run] call
  have res: "res = (case r0 of Inl error \<Rightarrow> Inl (McpError InternalError (''Error: '' @ message p error))
                      | Inr result \<Rightarrow> Inr result)" and tr: "tr = tr0"
    by simp_all
  from run_failure [OF run] tr obtain reqs where
    ext: "sent tr = reqs" and
    last: "\<And>i msg. i < length reqs \<Longrightarrow>
        failureText (upstream w (take i reqs) (reqs ! i)) = Some msg \<Longrightarrow>
        Suc i = length reqs \<and> (\<exists>e pre. r0 = Inl e \<and> message p e = pre @ msg)"
    by (auto simp add: trace0_def)
  have key: "\<And>msg. failureText r = Some msg \<Longrightarrow>
        Suc j = length (sent tr) \<and> (\<exists>pre. res = Inl (McpError InternalError (''Error: '' @ pre @ msg)))"
  proof -
    fix msg assume "failureText r = Some msg"
    with last [of j msg] j answer ext
    obtain e pre where "Suc j = length reqs" "r0 = Inl e" "message p e = pre @ msg" by auto
    with res ext show "Suc j = length (sent tr) \<and> (\<exists>pre. res = Inl (McpError InternalError (''Error: '' @ pre @ msg)))"
      by auto
  qed
  show ?thesis
  proof (intro conjI allI impI)
    fix m assume "r = FetchFailed m"
    then have "failureText r = Some m" by (simp add: failureText_def)
    from key [OF this] show "Suc j = length (sent tr)"
      and "\<exists>pre. res = Inl (McpError InternalError (''Error: '' @ pre @ m))" by simp_all
  next
    fix status st errorText parsed
    assume "r = Response status st errorText parsed" "\<not> ok status"
    then have "failureText r = Some (''TickTick API error: '' @ showInt (int status) @ '' '' @ st
                      @ '' - '' @ errorText)" by (simp add: failureText_def)
    from key [OF this] show "Suc j = length (sent tr)"
      and "\<exists>pre. res = Inl (McpError InternalError
                     (''Error: '' @ pre @ ''TickTick API error: '' @ showInt (int status) @ '' '' @ st
                      @ '' - '' @ errorText))" by simp_all
  qed
qed

text \<open>C5 at an example: \<open>ticktick_delete_task\<close> answered with status 500.\<close>

theorem upstream_failure_InternalError_witness:
  "handleCallTool withToken samplePlatform
       (answering (Response 500 ''Internal Server Error'' ''boom'' (Inl ''Unexpected token'')))
       ''ticktick_delete_task'' (Some [(''task_id'', Str ''T1'')])
     = (Inl (McpError InternalError
          ''Error: Failed to delete task: TickTick API error: 500 Internal Server Error - boom''),
        \<lparr>sent = [\<lparr>url = ''https://api.ticktick.com/open/v1/task/T1'', http_method = ''DELETE'',
                   headers = [(''Authorization'', ''Bearer secret''),
                              (''Content-Type'', ''application/json'')],
                   body = None\<rparr>],
         ticks = 0\<rparr>)
   \<and> \<not> ok 500
   \<and> Suc 0 = length [\<lparr>url = ''https://api.ticktick.com/open/v1/task/T1'', http_method = ''DELETE'',
                   headers = [(''Authorization'', ''Bearer secret''),
                              (''Content-Type'', ''application/json'')],
                   body = None\<rparr>]
   \<and> (\<exists>pre. ''Error: Failed to delete task: TickTick API error: 500 Internal Server Error - boom''
              = ''Error: '' @ pre @ ''TickTick API error: '' @ showInt (int 500)
                @ '' '' @ ''Internal Server Error'' @ '' - '' @ ''boom'')"
proof -
  let ?w = "answering (Response 500 ''Internal Server Error'' ''boom'' (Inl ''Unexpected token''))"
  let ?req = "\<lparr>url = ''https://api.ticktick.com/open/v1/task/T1'', http_method = ''DELETE'',
                   headers = [(''Authorization'', ''Bearer secret''),
                              (''Content-Type'', ''application/json'')],
                   body = None\<rparr>"
  let ?res = "Inl (McpError InternalError
          ''Error: Failed to delete task: TickTick API error: 500 Internal Server Error - boom'')"
  have token: "envTruthy (TICKTICK_ACCESS_TOKEN withToken) \<or> envTruthy (TICKTICK_TOKEN withToken)"
    by (simp add: withToken_def envTruthy_def)
  have call: "handleCallTool withToken samplePlatform ?w ''ticktick_delete_task''
                (Some [(''task_id'', Str ''T1'')]) = (?res, \<lparr>sent = [?req], ticks = 0\<rparr>)"
    by (simp add: world_defs callTool_delete_task deleteTask_def arg_def showInt_def digits.simps digit_def)
  have answer: "upstream ?w (take 0 (sent \<lparr>sent = [?req], ticks = 0\<rparr>)) (sent \<lparr>sent = [?req], ticks = 0\<rparr> ! 0)
                  = Response 500 ''Internal Server Error'' ''boom'' (Inl ''Unexpected token'')"
    by (simp add: answering_def atTime_def)
  have nok: "\<not> ok 500" by (simp add: ok_def)
  from upstream_failure_InternalError [OF token call _ answer, of ] nok
  have "Suc 0 = length [?req] \<and>
        (\<exists>pre. ?res = Inl (McpError InternalError (''Error: '' @ pre @ ''TickTick API error: ''
                 @ showInt (int 500) @ '' '' @ ''Internal Server Error'' @ '' - '' @ ''boom'')))"
    by simp
  with call nok show ?thesis by simp
qed

text \<open>
  C6. With a token configured, the call of \<open>ticktick_create_task\<close> with the arguments
  \<open>{title: "Test", content: "hello"}\<close> sends exactly one request: \<open>POST /task\<close> with the
  body \<open>{title: "Test", content: "hello", priority: 0, status: 0}\<close>, which has no
  \<open>projectId\<close>; whatever the platform and the upstream.
\<close>

theorem create_task_example:
  assumes "envTruthy (TICKTICK_ACCESS_TOKEN cfg) \<or> envTruthy (TICKTICK_TOKEN cfg)"
  shows "sent (snd (handleCallTool cfg p w ''ticktick_create_task''
                 (Some [(''title'', Str ''Test''), (''content'', Str ''hello'')])))
          = [\<lparr>url = ''https://api.ticktick.com/open/v1/task'', http_method = ''POST'',
              headers = [(''Authorization'', bearer cfg), (''Content-Type'', ''application/json'')],
              body = Some (Obj [(''title'', Str ''Test''), (''content'', Str ''hello''),
                                (''priority'', Num 0), (''status'', Num 0)])\<rparr>]"
  unfolding snd_handleCallTool [OF assms] callTool_create_task createTask_def Let_def
  by (simp add: snd_run_Try sent_run_Request sends_lift arg_def argDefault_def orElse_def
        optional_def requestConfig_def baseUrl_def trace0_def del: run.simps)

text \<open>C6 with the token \<open>secret\<close>.\<close>

theorem create_task_example_witness:
  "(envTruthy (TICKTICK_ACCESS_TOKEN withToken) \<or> envTruthy (TICKTICK_TOKEN withToken))
   \<and> sent (snd (handleCallTool withToken samplePlatform
                   (answering (Response 200 ''OK'' ''{}'' (Inr (Obj []))))
                   ''ticktick_create_task''
                   (Some [(''title'', Str ''Test''), (''content'', Str ''hello'')])))
          = [\<lparr>url = ''https://api.ticktick.com/open/v1/task'', http_method = ''POST'',
              headers = [(''Authorization'', ''Bearer secret''), (''Content-Type'', ''application/json'')],
              body = Some (Obj [(''title'', Str ''Test''), (''content'', Str ''hello''),
                                (''priority'', Num 0), (''status'', Num 0)])\<rparr>]"
proof -
  have token: "envTruthy (TICKTICK_ACCESS_TOKEN withToken) \<or> envTruthy (TICKTICK_TOKEN withToken)"
    by (simp add: withToken_def envTruthy_def)
  have b: "bearer withToken = ''Bearer secret''"
    by (simp add: bearer_def withToken_def envTruthy_def)
  from create_task_example [OF token, of samplePlatform
         "answering (Response 200 ''OK'' ''{}'' (Inr (Obj [])))"] token b
  show ?thesis by simp
qed




text \<open>
  C8, as stated, fails: \<open>ticktick_checkin_habit\<close> puts the time of the call into the body
  of its request, as \<open>timestamp\<close>; the same arguments give two different bodies on two
  different days.
\<close>

theorem clock_changes_request_counterexample:
  "map body (sent (snd (handleCallTool withToken samplePlatform
                 (atTime 0 (Response 200 ''OK'' ''{}'' (Inr (Obj []))))
                 ''ticktick_checkin_habit''
                 (Some [(''habit_id'', Str ''H1''), (''date'', Str ''2024-01-01'')]))))
     = [Some (Obj [(''habitId'', Str ''H1''), (''date'', Str ''2024-01-01''), (''count'', Num 1),
                   (''timestamp'', Str ''1970-01-01T00:00:00.000Z'')])]
   \<and> map body (sent (snd (handleCallTool withToken samplePlatform
                 (atTime 86400000 (Response 200 ''OK'' ''{}'' (Inr (Obj []))))
                 ''ticktick_checkin_habit''
                 (Some [(''habit_id'', Str ''H1''), (''date'', Str ''2024-01-01'')]))))
     = [Some (Obj [(''habitId'', Str ''H1''), (''date'', Str ''2024-01-01''), (''count'', Num 1),
                   (''timestamp'', Str ''1970-01-02T00:00:00.000Z'')])]"
  by (simp add: world_defs callTool_checkin_habit checkinHabit_def dateOrToday_def rendered_def
        samplePlatform_def argDefault_def arg_def toISOString_0 toISOString_day)

text \<open>
  C8, amended. For every tool but the twenty that read the clock before their request
  and the seven that read before they write, the requests of a call are the same in any
  two worlds: they depend on the arguments and the token alone, not on the time, nor on
  anything the upstream answers. (The handler has no state of its own at all: a call is a
  function of the configuration, the arguments and the world.)
\<close>

theorem same_call_same_requests:
  assumes "name \<notin> set clockTools" and "name \<notin> set readThenWrite"
  shows "sent (snd (handleCallTool cfg p w name args)) = sent (snd (handleCallTool cfg p w' name args))"
proof (cases "envTruthy (TICKTICK_ACCESS_TOKEN cfg) \<or> envTruthy (TICKTICK_TOKEN cfg)")
  case False
  then show ?thesis by (simp add: handleCallTool_no_token)
next
  case True
  have eq: "\<And>v. sent (snd (handleCallTool cfg p v name args)) = sent (snd (run cfg p v (callTool p name args) trace0))"
  proof -
    fix v
    obtain r0 tr0 where run: "run cfg p v (callTool p name args) trace0 = (r0, tr0)"
      by (cases "run cfg p v (callTool p name args) trace0")
    from handleCallTool_token [OF True run] run
    show "sent (snd (handleCallTool cfg p v name args)) = sent (snd (run cfg p v (callTool p name args) trace0))"
      by simp
  qed
  from callTool_cases [of name p args] have "steady (callTool p name args)"
  proof
    assume "callTool p name args = Throw (McpError MethodNotFound (''Unknown tool: '' @ name))"
    then show ?thesis by (simp add: steady.intros)
  next
    assume "\<exists>m. (name, m) \<in> set (tools p) \<and> callTool p name args = m args"
    then obtain m where m: "(name, m) \<in> set (tools p)" and c: "callTool p name args = m args" by blast
    from tools_steady [OF m, of args] assms c show ?thesis by simp
  qed
  from steady_run [OF this, of cfg p] obtain reqs where
    "\<forall>v tr. sent (snd (run cfg p v (callTool p name args) tr)) = sent tr @ reqs" by blast
  then show ?thesis by (simp add: eq)
qed

text \<open>
  C8, amended, at an example: \<open>ticktick_get_tasks\<close> sends the same request at two
  different times to two upstreams that answer differently.
\<close>

theorem same_call_same_requests_witness:
  "''ticktick_get_tasks'' \<notin> set clockTools \<and> ''ticktick_get_tasks'' \<notin> set readThenWrite
   \<and> sent (snd (handleCallTool withToken samplePlatform
                  (atTime 0 (Response 200 ''OK'' ''[]'' (Inr (Arr []))))
                  ''ticktick_get_tasks'' (Some [])))
     = sent (snd (handleCallTool withToken samplePlatform
                  (atTime 86400000 (Response 500 ''Internal Server Error'' ''down'' (Inl ''down'')))
                  ''ticktick_get_tasks'' (Some [])))"
proof -
  have c: "''ticktick_get_tasks'' \<notin> set clockTools" by (simp add: clockTools_def)
  have r: "''ticktick_get_tasks'' \<notin> set readThenWrite" by (simp add: readThenWrite_def)
  from same_call_same_requests [OF c r] c r show ?thesis by simp
qed






end
